theory Spec2Isabelle
  imports Complex_Main "HOL-Library.Word"
begin

section \<open>Geometry values\<close>

text \<open>
  A three.js \<open>Vector3\<close>. JavaScript numbers are modelled as real numbers: the
  statements below are about the arithmetic the code writes down, not about IEEE
  rounding. The one exception is the label computation, where rounding decides whether a
  label appears; there the arithmetic is a parameter. The vector operations are the ones
  the viewer calls, each written as three.js computes it, component by component.

  The viewer component \<open>ThreeCanvas\<close> exists in an older revision
  (components/ThreeCanvas.jsx) and a later one. Click handling, the per-frame marker
  positions and the cube drag are embedded from the later revision, which keeps markers
  attached to their object and lets the cube orbit the camera; everything else is
  embedded from the older one.
\<close>

datatype Vector3 = Vector3 (x_of: real) (y_of: real) (z_of: real)

fun add3 :: "Vector3 \<Rightarrow> Vector3 \<Rightarrow> Vector3" where
  "add3 (Vector3 x y z) (Vector3 x' y' z') = Vector3 (x + x') (y + y') (z + z')"

fun sub3 :: "Vector3 \<Rightarrow> Vector3 \<Rightarrow> Vector3" where
  "sub3 (Vector3 x y z) (Vector3 x' y' z') = Vector3 (x - x') (y - y') (z - z')"

fun multiplyScalar :: "Vector3 \<Rightarrow> real \<Rightarrow> Vector3" where
  "multiplyScalar (Vector3 x y z) k = Vector3 (x * k) (y * k) (z * k)"

text \<open>\<open>divideScalar(s)\<close> is \<open>multiplyScalar(1 / s)\<close>.\<close>

definition divideScalar :: "Vector3 \<Rightarrow> real \<Rightarrow> Vector3" where
  "divideScalar v k = multiplyScalar v (1 / k)"

fun dot :: "Vector3 \<Rightarrow> Vector3 \<Rightarrow> real" where
  "dot (Vector3 x y z) (Vector3 x' y' z') = x * x' + y * y' + z * z'"

definition lengthSq :: "Vector3 \<Rightarrow> real" where
  "lengthSq v = dot v v"

definition length3 :: "Vector3 \<Rightarrow> real" where
  "length3 v = sqrt (lengthSq v)"

definition distanceToSquared :: "Vector3 \<Rightarrow> Vector3 \<Rightarrow> real" where
  "distanceToSquared v w = lengthSq (sub3 v w)"

definition distanceTo :: "Vector3 \<Rightarrow> Vector3 \<Rightarrow> real" where
  "distanceTo v w = sqrt (distanceToSquared v w)"

text \<open>\<open>v.lerp(w, alpha)\<close>: each component moves by \<open>(w - v) * alpha\<close>.\<close>

fun lerp :: "Vector3 \<Rightarrow> Vector3 \<Rightarrow> real \<Rightarrow> Vector3" where
  "lerp (Vector3 x y z) (Vector3 x' y' z') alpha =
     Vector3 (x + (x' - x) * alpha) (y + (y' - y) * alpha) (z + (z' - z) * alpha)"

text \<open>
  A \<open>Quaternion\<close> and \<open>v.applyQuaternion(q)\<close>; the default quaternion is the
  identity \<open>(0, 0, 0, 1)\<close>.
\<close>

datatype Quaternion = Quaternion (qx_of: real) (qy_of: real) (qz_of: real) (qw_of: real)

definition identityQuaternion :: Quaternion where
  "identityQuaternion = Quaternion 0 0 0 1"

fun applyQuaternion :: "Vector3 \<Rightarrow> Quaternion \<Rightarrow> Vector3" where
  "applyQuaternion (Vector3 vx vy vz) (Quaternion qx qy qz qw) =
     (let tx = 2 * (qy * vz - qz * vy);
          ty = 2 * (qz * vx - qx * vz);
          tz = 2 * (qx * vy - qy * vx)
      in Vector3 (vx + qw * tx + qy * tz - qz * ty)
                 (vy + qw * ty + qz * tx - qx * tz)
                 (vz + qw * tz + qx * ty - qy * tx))"

text \<open>
  A \<open>Matrix4\<close> is its sixteen \<open>elements\<close> in column-major order, and
  \<open>v.applyMatrix4(m)\<close> includes the perspective divide. World matrices of scene nodes
  are affine (\<open>e 3 = e 7 = e 11 = 0\<close>, \<open>e 15 = 1\<close>), where the divisor is 1.
\<close>

type_synonym Matrix4 = "nat \<Rightarrow> real"

definition identity4 :: Matrix4 where
  "identity4 = (\<lambda>i. if i = 0 \<or> i = 5 \<or> i = 10 \<or> i = 15 then 1 else 0)"

definition makeTranslation :: "real \<Rightarrow> real \<Rightarrow> real \<Rightarrow> Matrix4" where
  "makeTranslation tx ty tz =
     (\<lambda>i. if i = 0 \<or> i = 5 \<or> i = 10 \<or> i = 15 then 1
          else if i = 12 then tx else if i = 13 then ty else if i = 14 then tz else 0)"

fun applyMatrix4 :: "Vector3 \<Rightarrow> Matrix4 \<Rightarrow> Vector3" where
  "applyMatrix4 (Vector3 x y z) e =
     (let w = 1 / (e 3 * x + e 7 * y + e 11 * z + e 15)
      in Vector3 ((e 0 * x + e 4 * y + e 8 * z + e 12) * w)
                 ((e 1 * x + e 5 * y + e 9 * z + e 13) * w)
                 ((e 2 * x + e 6 * y + e 10 * z + e 14) * w))"

text \<open>
  A raycast hit as \<open>snapToFeature\<close> and \<open>handleClick\<close> read it: the face (three vertex
  indices and its normal), the object hit (its position buffer and world matrix) and the
  world-space hit point. \<open>face\<close> and \<open>object\<close> may be missing.
\<close>

datatype Face = Face (face_a: nat) (face_b: nat) (face_c: nat) (face_normal: Vector3)

record object3d =
  obj_uuid :: string
  positions :: "Vector3 list"
  matrixWorld :: Matrix4

datatype Intersection =
  Intersection (hit_face: "Face option") (hit_object: "object3d option") (hit_point: Vector3)

definition localToWorld :: "object3d \<Rightarrow> Vector3 \<Rightarrow> Vector3" where
  "localToWorld obj v = applyMatrix4 v (matrixWorld obj)"

text \<open>
  \<open>m.invert()\<close> of three.js \<open>Matrix4\<close>: the transposed cofactors, of which the
  library names the first of each column \<open>t11\<close>, \<open>t12\<close>, \<open>t13\<close>, \<open>t14\<close>, times
  the inverse of the determinant; the zero matrix when the determinant is 0.
  \<open>obj.worldToLocal(v)\<close> applies the inverse of the object's world matrix.
\<close>

definition cofactors4 :: "Matrix4 \<Rightarrow> real list" where
  "cofactors4 te =
     (let n11 = te 0; n21 = te 1; n31 = te 2; n41 = te 3;
          n12 = te 4; n22 = te 5; n32 = te 6; n42 = te 7;
          n13 = te 8; n23 = te 9; n33 = te 10; n43 = te 11;
          n14 = te 12; n24 = te 13; n34 = te 14; n44 = te 15
      in [n23 * n34 * n42 - n24 * n33 * n42 + n24 * n32 * n43
            - n22 * n34 * n43 - n23 * n32 * n44 + n22 * n33 * n44,
          n24 * n33 * n41 - n23 * n34 * n41 - n24 * n31 * n43
            + n21 * n34 * n43 + n23 * n31 * n44 - n21 * n33 * n44,
          n22 * n34 * n41 - n24 * n32 * n41 + n24 * n31 * n42
            - n21 * n34 * n42 - n22 * n31 * n44 + n21 * n32 * n44,
          n23 * n32 * n41 - n22 * n33 * n41 - n23 * n31 * n42
            + n21 * n33 * n42 + n22 * n31 * n43 - n21 * n32 * n43,
          n14 * n33 * n42 - n13 * n34 * n42 - n14 * n32 * n43
            + n12 * n34 * n43 + n13 * n32 * n44 - n12 * n33 * n44,
          n13 * n34 * n41 - n14 * n33 * n41 + n14 * n31 * n43
            - n11 * n34 * n43 - n13 * n31 * n44 + n11 * n33 * n44,
          n14 * n32 * n41 - n12 * n34 * n41 - n14 * n31 * n42
            + n11 * n34 * n42 + n12 * n31 * n44 - n11 * n32 * n44,
          n12 * n33 * n41 - n13 * n32 * n41 + n13 * n31 * n42
            - n11 * n33 * n42 - n12 * n31 * n43 + n11 * n32 * n43,
          n13 * n24 * n42 - n14 * n23 * n42 + n14 * n22 * n43
            - n12 * n24 * n43 - n13 * n22 * n44 + n12 * n23 * n44,
          n14 * n23 * n41 - n13 * n24 * n41 - n14 * n21 * n43
            + n11 * n24 * n43 + n13 * n21 * n44 - n11 * n23 * n44,
          n12 * n24 * n41 - n14 * n22 * n41 + n14 * n21 * n42
            - n11 * n24 * n42 - n12 * n21 * n44 + n11 * n22 * n44,
          n13 * n22 * n41 - n12 * n23 * n41 - n13 * n21 * n42
            + n11 * n23 * n42 + n12 * n21 * n43 - n11 * n22 * n43,
          n14 * n23 * n32 - n13 * n24 * n32 - n14 * n22 * n33
            + n12 * n24 * n33 + n13 * n22 * n34 - n12 * n23 * n34,
          n13 * n24 * n31 - n14 * n23 * n31 + n14 * n21 * n33
            - n11 * n24 * n33 - n13 * n21 * n34 + n11 * n23 * n34,
          n14 * n22 * n31 - n12 * n24 * n31 - n14 * n21 * n32
            + n11 * n24 * n32 + n12 * n21 * n34 - n11 * n22 * n34,
          n12 * n23 * n31 - n13 * n22 * n31 + n13 * n21 * n32
            - n11 * n23 * n32 - n12 * n21 * n33 + n11 * n22 * n33])"

definition invert4 :: "Matrix4 \<Rightarrow> Matrix4" where
  "invert4 te =
     (let t = cofactors4 te;
          det = te 0 * t ! 0 + te 1 * t ! 4 + te 2 * t ! 8 + te 3 * t ! 12
      in if det = 0 then (\<lambda>i. 0)
         else (let detInv = 1 / det in (\<lambda>i. if i < 16 then t ! i * detInv else 0)))"

definition worldToLocal :: "object3d \<Rightarrow> Vector3 \<Rightarrow> Vector3" where
  "worldToLocal obj v = applyMatrix4 v (invert4 (matrixWorld obj))"

text \<open>
  \<open>getV\<close> reads vertex \<open>idx\<close> from the position buffer and moves it to world space.
  An index past the end of the buffer reads \<open>undefined\<close> and yields a vector of NaNs;
  \<open>None\<close> stands for that vector: every comparison with a distance to it is false.
\<close>

definition getV :: "object3d \<Rightarrow> nat \<Rightarrow> Vector3 option" where
  "getV obj idx =
     (if idx < length (positions obj) then Some (localToWorld obj (positions obj ! idx))
      else None)"

text \<open>
  \<open>new THREE.Line3(v1, v2).closestPointToPoint(point, true, target)\<close>: the parameter
  \<open>t\<close> of the projection, clamped to \<open>[0, 1]\<close> by
  \<open>Math.max(0, Math.min(1, t))\<close>. On a segment of length zero \<open>t\<close> is \<open>0 / 0\<close>,
  so the result is a vector of NaNs, again \<open>None\<close>.
\<close>

definition clamp01 :: "real \<Rightarrow> real" where
  "clamp01 t = max 0 (min 1 t)"

definition closestPointToPoint :: "Vector3 \<Rightarrow> Vector3 \<Rightarrow> Vector3 \<Rightarrow> Vector3 option" where
  "closestPointToPoint v1 v2 p =
     (let startP = sub3 p v1;
          startEnd = sub3 v2 v1;
          startEnd2 = dot startEnd startEnd;
          startEnd_startP = dot startEnd startP
      in if startEnd2 = 0 then None
         else Some (add3 (multiplyScalar startEnd (clamp01 (startEnd_startP / startEnd2))) v1))"

section \<open>Feature snapping (\<open>snapToFeature\<close> in components/ThreeCanvas.jsx)\<close>

text \<open>The camera fields the viewer reads and writes; \<open>fov\<close> is in degrees.\<close>

record camera =
  cam_position :: Vector3
  cam_up :: Vector3
  cam_fov :: real

text \<open>\<open>const threshold = cam.position.distanceTo(point) * 0.02\<close>\<close>

definition snap_threshold :: "camera \<Rightarrow> Vector3 \<Rightarrow> real" where
  "snap_threshold cam p = distanceTo (cam_position cam) p * 0.02"

text \<open>
  The running pair \<open>(closestPoint, minMsgDist)\<close>. \<open>minMsgDist\<close> starts as
  \<open>Infinity\<close>, written \<open>None\<close>: every distance is below it, and \<open>Infinity * 0.9\<close>
  is \<open>Infinity\<close>.
\<close>

type_synonym snap_state = "Vector3 \<times> real option"

fun below :: "real \<Rightarrow> real option \<Rightarrow> bool" where
  "below d None = True"
| "below d (Some m) = (d < m)"

fun scaled :: "real option \<Rightarrow> real \<Rightarrow> real option" where
  "scaled None k = None"
| "scaled (Some m) k = Some (m * k)"

text \<open>Step 1 of the source, the body of \<open>vertices.forEach\<close>.\<close>

fun check_vertex :: "Vector3 \<Rightarrow> snap_state \<Rightarrow> Vector3 option \<Rightarrow> snap_state" where
  "check_vertex p (closestPoint, minMsgDist) None = (closestPoint, minMsgDist)"
| "check_vertex p (closestPoint, minMsgDist) (Some v) =
     (let d = distanceTo v p
      in if below d minMsgDist then (v, Some d) else (closestPoint, minMsgDist))"

text \<open>
  Step 2, the body of \<open>edges.forEach\<close>: an edge point wins only when its distance is
  below 0.9 times the best distance so far. An edge with a NaN end has a NaN closest
  point.
\<close>

definition edge_point :: "Vector3 \<Rightarrow> Vector3 option \<times> Vector3 option \<Rightarrow> Vector3 option" where
  "edge_point p e =
     (case e of (Some v1, Some v2) \<Rightarrow> closestPointToPoint v1 v2 p | _ \<Rightarrow> None)"

fun check_edge ::
  "Vector3 \<Rightarrow> snap_state \<Rightarrow> Vector3 option \<times> Vector3 option \<Rightarrow> snap_state" where
  "check_edge p (closestPoint, minMsgDist) e =
     (case edge_point p e of
        None \<Rightarrow> (closestPoint, minMsgDist)
      | Some closestOnLine \<Rightarrow>
          (let d = distanceTo closestOnLine p
           in if below d (scaled minMsgDist 0.9) then (closestOnLine, Some d)
              else (closestPoint, minMsgDist)))"

definition snapToFeature :: "Intersection \<Rightarrow> camera \<Rightarrow> Vector3" where
  "snapToFeature intersect cam =
     (case (hit_face intersect, hit_object intersect) of
        (Some face, Some obj) \<Rightarrow>
          (let p = hit_point intersect;
               vA = getV obj (face_a face);
               vB = getV obj (face_b face);
               vC = getV obj (face_c face);
               vertices = [vA, vB, vC];
               threshold = snap_threshold cam p;
               s1 = foldl (check_vertex p) (p, None) vertices;
               edges = [(vA, vB), (vB, vC), (vC, vA)];
               (closestPoint, minMsgDist) = foldl (check_edge p) s1 edges
           in case minMsgDist of
                Some m \<Rightarrow> if m < threshold then closestPoint else p
              | None \<Rightarrow> p)
      | _ \<Rightarrow> hit_point intersect)"

text \<open>
  The candidate features of a hit: the world-space vertices of the hit triangle and the
  closest points on its three edges, those that are not NaN.
\<close>

definition snap_candidates :: "Intersection \<Rightarrow> Vector3 list" where
  "snap_candidates intersect =
     (case (hit_face intersect, hit_object intersect) of
        (Some face, Some obj) \<Rightarrow>
          (let p = hit_point intersect;
               vA = getV obj (face_a face);
               vB = getV obj (face_b face);
               vC = getV obj (face_c face)
           in List.map_filter id
                [vA, vB, vC, edge_point p (vA, vB), edge_point p (vB, vC), edge_point p (vC, vA)])
      | _ \<Rightarrow> [])"

text \<open>The world-space vertices of the hit triangle, those that are not NaN.\<close>

definition snap_vertices :: "Intersection \<Rightarrow> Vector3 list" where
  "snap_vertices intersect =
     (case (hit_face intersect, hit_object intersect) of
        (Some face, Some obj) \<Rightarrow>
          List.map_filter id
            [getV obj (face_a face), getV obj (face_b face), getV obj (face_c face)]
      | _ \<Rightarrow> [])"

section \<open>The UI store (store/uiStore.js)\<close>

text \<open>
  A measurement point as \<open>handleClick\<close> hands it to the store:
  \<open>{ point, localPoint, objectUuid, normal }\<close>. \<open>point\<close> is the world-space point
  captured at the click; \<open>localPoint\<close> and \<open>objectUuid\<close> are \<open>null\<close> when the hit
  carries no object, \<open>normal\<close> when it carries no face. (The older revision of the
  component passes \<open>point\<close> and \<open>normal\<close> only; the other two fields are then absent.)
\<close>

record measure_point =
  point :: Vector3
  localPoint :: "Vector3 option"
  objectUuid :: "string option"
  normal :: "Vector3 option"

text \<open>The two store fields the measurement actions write.\<close>

record ui_state =
  measureMode :: bool
  measurePoints :: "measure_point list"

definition initial_state :: ui_state where
  "initial_state = \<lparr>measureMode = False, measurePoints = []\<rparr>"

text \<open>\<open>setMeasureMode: (active) => set({ measureMode: active, measurePoints: [] })\<close>\<close>

definition setMeasureMode :: "bool \<Rightarrow> ui_state \<Rightarrow> ui_state" where
  "setMeasureMode active s = s\<lparr>measureMode := active, measurePoints := []\<rparr>"

text \<open>
  \<open>addMeasurePoint\<close>: when two or more points are stored the new point replaces the
  buffer, otherwise it is appended.
\<close>

definition addMeasurePoint :: "measure_point \<Rightarrow> ui_state \<Rightarrow> ui_state" where
  "addMeasurePoint p s =
     (let newPoints = (if length (measurePoints s) \<ge> 2 then [p]
                       else measurePoints s @ [p])
      in s\<lparr>measurePoints := newPoints\<rparr>)"

text \<open>A call of one of the two measurement actions, and a run of such calls in order.\<close>

datatype store_call = AddMeasurePoint measure_point | SetMeasureMode bool

fun apply_call :: "ui_state \<Rightarrow> store_call \<Rightarrow> ui_state" where
  "apply_call s (AddMeasurePoint p) = addMeasurePoint p s"
| "apply_call s (SetMeasureMode active) = setMeasureMode active s"

definition run_calls :: "ui_state \<Rightarrow> store_call list \<Rightarrow> ui_state" where
  "run_calls s cs = foldl apply_call s cs"

text \<open>Pushing a list of points, first to last.\<close>

definition push_all :: "ui_state \<Rightarrow> measure_point list \<Rightarrow> ui_state" where
  "push_all s ps = foldl (\<lambda>t p. addMeasurePoint p t) s ps"

text \<open>Three sample points used as concrete inputs.\<close>

definition ptA :: measure_point where
  "ptA = \<lparr>point = Vector3 0 0 0, localPoint = None, objectUuid = None, normal = None\<rparr>"

definition ptB :: measure_point where
  "ptB = \<lparr>point = Vector3 3 0 0, localPoint = None, objectUuid = None, normal = None\<rparr>"

definition ptC :: measure_point where
  "ptC = \<lparr>point = Vector3 0 4 0, localPoint = None, objectUuid = None, normal = None\<rparr>"

section \<open>Measurement labels (\<open>MeasurementMarkers\<close> in components/ThreeCanvas.jsx)\<close>

























section \<open>The scene and the per-model caches (\<open>ModelViewer\<close> in components/ThreeCanvas.jsx)\<close>

text \<open>
  A material with the fields \<open>ModelViewer\<close> reads or writes. \<open>color\<close>, \<open>metalness\<close>,
  \<open>roughness\<close> and \<open>envMapIntensity\<close> are absent on material classes that do not
  have them (\<open>typeof m.metalness === 'number'\<close> is the test the source makes);
  \<open>has_map\<close> says that \<open>m.map\<close> holds a texture. Assigning
  \<open>m.needsUpdate = true\<close> increments the material's \<open>version\<close> counter, which is how
  three.js implements that setter.
\<close>

datatype Color = Color (r_of: real) (g_of: real) (b_of: real)

datatype Side = FrontSide | BackSide | DoubleSide

record material =
  color :: "Color option"
  has_map :: bool
  side :: Side
  transparent :: bool
  opacity :: real
  depthWrite :: bool
  depthTest :: bool
  metalness :: "real option"
  roughness :: "real option"
  envMapIntensity :: "real option"
  vertexColors :: bool
  version :: nat

text \<open>\<open>m.clone()\<close> copies every field into a fresh material, whose version starts at 0.\<close>

definition clone :: "material \<Rightarrow> material" where
  "clone m = m\<lparr>version := 0\<rparr>"

text \<open>\<open>m.needsUpdate = true\<close>\<close>

definition needsUpdate :: "material \<Rightarrow> material" where
  "needsUpdate m = m\<lparr>version := Suc (version m)\<rparr>"

text \<open>\<open>color.setHex(hex)\<close>: the three bytes of \<open>hex\<close>, each divided by 255.\<close>

definition setHex :: "nat \<Rightarrow> Color" where
  "setHex hex = Color (real (hex div 65536 mod 256) / 255) (real (hex div 256 mod 256) / 255)
                      (real (hex mod 256) / 255)"

text \<open>
  A node of the cloned scene, in the order \<open>traverse\<close> visits them.
  \<open>has_color_attribute\<close> says that \<open>geometry.attributes.color\<close> exists.
\<close>

record node =
  uuid :: string
  name :: string
  isMesh :: bool
  position :: Vector3
  material :: "material option"
  castShadow :: bool
  receiveShadow :: bool
  has_color_attribute :: bool

text \<open>The refs of \<open>ModelViewer\<close>: three maps keyed by uuid, the flag and the model size.\<close>

record viewer_refs =
  originalMaterials :: "string \<rightharpoonup> material"
  originalPositions :: "string \<rightharpoonup> Vector3"
  explosionVectors :: "string \<rightharpoonup> Vector3"
  isInitialized :: bool
  modelSize :: real

definition fresh_refs :: viewer_refs where
  "fresh_refs = \<lparr>originalMaterials = Map.empty, originalPositions = Map.empty,
                 explosionVectors = Map.empty, isInitialized = False, modelSize = 0\<rparr>"

subsection \<open>The set-up effect\<close>

text \<open>The material fixes applied to the fresh clone of a mesh's material.\<close>

definition near_white :: "material \<Rightarrow> bool" where
  "near_white m =
     (\<not> has_map m \<and>
      (case color m of
         Some c \<Rightarrow> r_of c > 0.92 \<and> g_of c > 0.92 \<and> b_of c > 0.92
       | None \<Rightarrow> False))"

definition fix_material :: "bool \<Rightarrow> material \<Rightarrow> material" where
  "fix_material geometry_has_color m =
     (let m1 = m\<lparr>side := DoubleSide, transparent := True, opacity := 0.9,
                 depthWrite := True, depthTest := True\<rparr>;
          m2 = (case metalness m1 of
                  Some v \<Rightarrow> if v > 0.9 then m1\<lparr>metalness := Some 0.6\<rparr> else m1
                | None \<Rightarrow> m1);
          m3 = (case roughness m2 of
                  Some v \<Rightarrow> if v < 0.1 then m2\<lparr>roughness := Some 0.3\<rparr> else m2
                | None \<Rightarrow> m2);
          m4 = m3\<lparr>envMapIntensity := Some 1.2\<rparr>;
          m5 = (if near_white m4 then m4\<lparr>color := Some (setHex 0xc0c0c0)\<rparr> else m4);
          m6 = (if geometry_has_color then m5\<lparr>vertexColors := True\<rparr> else m5)
      in needsUpdate m6)"

text \<open>
  The body of the set-up traversal for one node. The explosion direction of a mesh
  (steps A to D of the source, computed from bounding boxes and the parent's world
  rotation) is supplied by \<open>explosion_dir\<close>.
\<close>

definition setup_child ::
  "(node \<Rightarrow> Vector3) \<Rightarrow> viewer_refs \<Rightarrow> node \<Rightarrow> viewer_refs \<times> node" where
  "setup_child explosion_dir refs child =
     (if isMesh child then
        (let child1 = child\<lparr>castShadow := False, receiveShadow := False\<rparr>;
             refs1 = (if originalPositions refs (uuid child) = None
                      then refs\<lparr>originalPositions :=
                             (originalPositions refs)(uuid child \<mapsto> position child)\<rparr>
                      else refs);
             refs2 = (if explosionVectors refs1 (uuid child) = None
                      then refs1\<lparr>explosionVectors :=
                             (explosionVectors refs1)(uuid child \<mapsto> explosion_dir child)\<rparr>
                      else refs1)
         in case material child of
              None \<Rightarrow> (refs2, child1)
            | Some m \<Rightarrow>
                (let refs3 = (if originalMaterials refs2 (uuid child) = None
                              then refs2\<lparr>originalMaterials :=
                                     (originalMaterials refs2)(uuid child \<mapsto> clone m)\<rparr>
                              else refs2)
                 in (refs3,
                     child1\<lparr>material :=
                       Some (fix_material (has_color_attribute child) (clone m))\<rparr>)))
      else (refs, child))"

fun setup_traverse ::
  "(node \<Rightarrow> Vector3) \<Rightarrow> viewer_refs \<Rightarrow> node list \<Rightarrow> viewer_refs \<times> node list" where
  "setup_traverse explosion_dir refs [] = (refs, [])"
| "setup_traverse explosion_dir refs (child # rest) =
     (let (refs1, child') = setup_child explosion_dir refs child;
          (refs2, rest') = setup_traverse explosion_dir refs1 rest
      in (refs2, child' # rest'))"

text \<open>
  The whole effect; \<open>diagonal\<close> is the length of the scene's bounding-box diagonal.
\<close>

definition setup_scene ::
  "(node \<Rightarrow> Vector3) \<Rightarrow> real \<Rightarrow> viewer_refs \<Rightarrow> node list \<Rightarrow> viewer_refs \<times> node list" where
  "setup_scene explosion_dir diagonal refs scene =
     (let (refs1, scene') = setup_traverse explosion_dir (refs\<lparr>modelSize := diagonal\<rparr>) scene
      in (refs1\<lparr>isInitialized := True\<rparr>, scene'))"

subsection \<open>Explode mode, once per frame\<close>

definition expandDist :: "bool \<Rightarrow> viewer_refs \<Rightarrow> real" where
  "expandDist explodeMode refs =
     (let baseScale = (if modelSize refs > 0 then modelSize refs else 350)
      in if explodeMode then baseScale * 0.5 else 0)"

definition explode_target :: "bool \<Rightarrow> viewer_refs \<Rightarrow> Vector3 \<Rightarrow> Vector3 \<Rightarrow> Vector3" where
  "explode_target explodeMode refs originalPos direction =
     add3 originalPos (multiplyScalar direction (expandDist explodeMode refs))"

definition explode_child :: "bool \<Rightarrow> viewer_refs \<Rightarrow> node \<Rightarrow> node" where
  "explode_child explodeMode refs child =
     (if isMesh child then
        (case (originalPositions refs (uuid child), explosionVectors refs (uuid child)) of
           (Some originalPos, Some direction) \<Rightarrow>
             child\<lparr>position :=
               lerp (position child) (explode_target explodeMode refs originalPos direction) 0.1\<rparr>
         | _ \<Rightarrow> child)
      else child)"

definition explode_frame :: "bool \<Rightarrow> viewer_refs \<Rightarrow> node list \<Rightarrow> node list" where
  "explode_frame explodeMode refs scene =
     (if \<not> isInitialized refs then scene else map (explode_child explodeMode refs) scene)"

text \<open>\<open>n\<close> frames in a row with the same flag.\<close>

definition explode_frames :: "nat \<Rightarrow> bool \<Rightarrow> viewer_refs \<Rightarrow> node list \<Rightarrow> node list" where
  "explode_frames n explodeMode refs scene = (explode_frame explodeMode refs ^^ n) scene"

subsection \<open>Colour mode\<close>

text \<open>
  \<open>getHashColor\<close>. The hash is a JavaScript number that stays an integer; \<open>hash << 5\<close>
  converts it to a 32-bit integer, shifts and reads the result as signed.
  \<open>Math.abs(hash % 360)\<close> is the remainder of the absolute value.
\<close>

definition shl5 :: "int \<Rightarrow> int" where
  "shl5 h = sint (push_bit 5 (word_of_int h :: 32 word))"

definition hash_step :: "int \<Rightarrow> char \<Rightarrow> int" where
  "hash_step hash ch = of_char ch + (shl5 hash - hash)"

definition string_hash :: "string \<Rightarrow> int" where
  "string_hash str = foldl hash_step 0 str"

text \<open>\<open>new THREE.Color().setHSL(h, s, l)\<close> as three.js computes it.\<close>

definition hue2rgb :: "real \<Rightarrow> real \<Rightarrow> real \<Rightarrow> real" where
  "hue2rgb p q t0 =
     (let t1 = (if t0 < 0 then t0 + 1 else t0);
          t = (if t1 > 1 then t1 - 1 else t1)
      in if t < 1 / 6 then p + (q - p) * 6 * t
         else if t < 1 / 2 then q
         else if t < 2 / 3 then p + (q - p) * 6 * (2 / 3 - t)
         else p)"

definition setHSL :: "real \<Rightarrow> real \<Rightarrow> real \<Rightarrow> Color" where
  "setHSL h0 s0 l0 =
     (let h = h0 - of_int \<lfloor>h0\<rfloor>;
          s = max 0 (min 1 s0);
          l = max 0 (min 1 l0)
      in if s = 0 then Color l l l
         else (let p = (if l \<le> 0.5 then l * (1 + s) else l + s - l * s);
                   q = 2 * l - p
               in Color (hue2rgb q p (h + 1 / 3)) (hue2rgb q p h) (hue2rgb q p (h - 1 / 3))))"

definition getHashColor :: "string \<Rightarrow> Color" where
  "getHashColor str =
     (let hash = string_hash str;
          h = real_of_int (\<bar>hash\<bar> mod 360) / 360
      in setHSL h 0.7 0.5)"

text \<open>
  \<open>child.uuid || child.name || Math.random().toString()\<close>; \<open>random_string\<close> is what
  the last alternative would produce.
\<close>

definition uniqueId :: "string \<Rightarrow> node \<Rightarrow> string" where
  "uniqueId random_string child =
     (if uuid child \<noteq> [] then uuid child
      else if name child \<noteq> [] then name child
      else random_string)"

text \<open>
  Reading a property of \<open>undefined\<close> throws: \<open>child.material.color.copy(...)\<close> needs
  the material and its colour, \<open>child.material.needsUpdate = true\<close> needs the material.
\<close>

datatype error = TypeError

definition copy_color :: "node \<Rightarrow> Color \<Rightarrow> error + node" where
  "copy_color child c =
     (case material child of
        None \<Rightarrow> Inl TypeError
      | Some m \<Rightarrow>
          (case color m of
             None \<Rightarrow> Inl TypeError
           | Some _ \<Rightarrow> Inr (child\<lparr>material := Some (m\<lparr>color := Some c\<rparr>)\<rparr>)))"

definition mark_updated :: "node \<Rightarrow> error + node" where
  "mark_updated child =
     (case material child of
        None \<Rightarrow> Inl TypeError
      | Some m \<Rightarrow> Inr (child\<lparr>material := Some (needsUpdate m)\<rparr>))"

definition color_child :: "bool \<Rightarrow> viewer_refs \<Rightarrow> string \<Rightarrow> node \<Rightarrow> error + node" where
  "color_child colorMode refs random_string child =
     (if isMesh child then
        (case (if colorMode then copy_color child (getHashColor (uniqueId random_string child))
               else (case originalMaterials refs (uuid child) of
                       Some orig \<Rightarrow>
                         (case color orig of
                            Some c \<Rightarrow> copy_color child c
                          | None \<Rightarrow> Inr child)
                     | None \<Rightarrow> Inr child)) of
           Inl e \<Rightarrow> Inl e
         | Inr child1 \<Rightarrow> mark_updated child1)
      else Inr child)"

text \<open>
  The traversal stops at the first exception. \<open>randoms\<close> supplies the strings
  \<open>Math.random().toString()\<close> would give, one per node visited.
\<close>

fun color_traverse ::
  "bool \<Rightarrow> viewer_refs \<Rightarrow> (nat \<Rightarrow> string) \<Rightarrow> nat \<Rightarrow> node list \<Rightarrow> error + node list" where
  "color_traverse colorMode refs randoms k [] = Inr []"
| "color_traverse colorMode refs randoms k (child # rest) =
     (case color_child colorMode refs (randoms k) child of
        Inl e \<Rightarrow> Inl e
      | Inr child' \<Rightarrow>
          (case color_traverse colorMode refs randoms (Suc k) rest of
             Inl e \<Rightarrow> Inl e
           | Inr rest' \<Rightarrow> Inr (child' # rest')))"

definition color_effect ::
  "bool \<Rightarrow> viewer_refs \<Rightarrow> (nat \<Rightarrow> string) \<Rightarrow> node list \<Rightarrow> error + node list" where
  "color_effect colorMode refs randoms scene =
     (if \<not> isInitialized refs then Inr scene else color_traverse colorMode refs randoms 0 scene)"

subsection \<open>Sample scene\<close>

definition steel :: material where
  "steel = \<lparr>color = Some (Color 1 1 1), has_map = False, side = FrontSide, transparent = False,
            opacity = 1, depthWrite = True, depthTest = True, metalness = Some 0.8,
            roughness = Some 0.2, envMapIntensity = None, vertexColors = False, version = 0\<rparr>"

definition bolt :: node where
  "bolt = \<lparr>uuid = ''a1'', name = ''bolt'', isMesh = True, position = Vector3 1 2 3,
           material = Some steel, castShadow = True, receiveShadow = True,
           has_color_attribute = False\<rparr>"

definition up_dir :: "node \<Rightarrow> Vector3" where
  "up_dir child = Vector3 0 1 0"

section \<open>Click handling (\<open>handleClick\<close> of the model viewer)\<close>

text \<open>
  A \<open>Matrix3\<close> is its nine \<open>elements\<close> in column-major order.
  \<open>getNormalMatrix(m)\<close> is the transposed inverse of the upper left 3 by 3 block of
  \<open>m\<close>; \<open>invert\<close> yields the zero matrix when the determinant is 0.
\<close>

type_synonym Matrix3 = "nat \<Rightarrow> real"

definition matrix3 ::
  "real \<Rightarrow> real \<Rightarrow> real \<Rightarrow> real \<Rightarrow> real \<Rightarrow> real \<Rightarrow> real \<Rightarrow> real \<Rightarrow> real \<Rightarrow> Matrix3" where
  "matrix3 e0 e1 e2 e3 e4 e5 e6 e7 e8 =
     (\<lambda>i. if i = 0 then e0 else if i = 1 then e1 else if i = 2 then e2
          else if i = 3 then e3 else if i = 4 then e4 else if i = 5 then e5
          else if i = 6 then e6 else if i = 7 then e7 else if i = 8 then e8 else 0)"

definition setFromMatrix4 :: "Matrix4 \<Rightarrow> Matrix3" where
  "setFromMatrix4 me = matrix3 (me 0) (me 1) (me 2) (me 4) (me 5) (me 6) (me 8) (me 9) (me 10)"

definition invert3 :: "Matrix3 \<Rightarrow> Matrix3" where
  "invert3 te =
     (let n11 = te 0; n21 = te 1; n31 = te 2;
          n12 = te 3; n22 = te 4; n32 = te 5;
          n13 = te 6; n23 = te 7; n33 = te 8;
          t11 = n33 * n22 - n32 * n23;
          t12 = n32 * n13 - n33 * n12;
          t13 = n23 * n12 - n22 * n13;
          det = n11 * t11 + n21 * t12 + n31 * t13
      in if det = 0 then matrix3 0 0 0 0 0 0 0 0 0
         else (let detInv = 1 / det
               in matrix3 (t11 * detInv) ((n31 * n23 - n33 * n21) * detInv)
                    ((n32 * n21 - n31 * n22) * detInv)
                    (t12 * detInv) ((n33 * n11 - n31 * n13) * detInv)
                    ((n31 * n12 - n32 * n11) * detInv)
                    (t13 * detInv) ((n21 * n13 - n23 * n11) * detInv)
                    ((n22 * n11 - n21 * n12) * detInv)))"

definition transpose3 :: "Matrix3 \<Rightarrow> Matrix3" where
  "transpose3 m = matrix3 (m 0) (m 3) (m 6) (m 1) (m 4) (m 7) (m 2) (m 5) (m 8)"

definition getNormalMatrix :: "Matrix4 \<Rightarrow> Matrix3" where
  "getNormalMatrix m = transpose3 (invert3 (setFromMatrix4 m))"

fun applyMatrix3 :: "Vector3 \<Rightarrow> Matrix3 \<Rightarrow> Vector3" where
  "applyMatrix3 (Vector3 x y z) e =
     Vector3 (e 0 * x + e 3 * y + e 6 * z) (e 1 * x + e 4 * y + e 7 * z)
             (e 2 * x + e 5 * y + e 8 * z)"

text \<open>\<open>v.normalize()\<close> is \<open>v.divideScalar(v.length() || 1)\<close>.\<close>

definition normalize3 :: "Vector3 \<Rightarrow> Vector3" where
  "normalize3 v = divideScalar v (if length3 v = 0 then 1 else length3 v)"

text \<open>
  The pointer event: the button and the raycast hit (point, face, object). The handler
  also keeps the world-space vertices of the selected face for the highlight.
\<close>

record click_event =
  button :: int
  hit :: Intersection

record click_result =
  selectedFaceVerts :: "Vector3 option list option"
  store :: ui_state

definition face_vertices :: "Intersection \<Rightarrow> Vector3 option list option" where
  "face_vertices h =
     (case (hit_object h, hit_face h) of
        (Some obj, Some face) \<Rightarrow>
          Some [getV obj (face_a face), getV obj (face_b face), getV obj (face_c face)]
      | _ \<Rightarrow> None)"

definition world_normal :: "Intersection \<Rightarrow> Vector3 option" where
  "world_normal h =
     (case (hit_face h, hit_object h) of
        (Some face, Some obj) \<Rightarrow>
          Some (normalize3 (applyMatrix3 (face_normal face) (getNormalMatrix (matrixWorld obj))))
      | _ \<Rightarrow> None)"

text \<open>
  \<open>handleClick\<close> in the revision that keeps measurement points attached to the
  object they were picked on. Before the snap \<open>localPoint\<close> is the raw hit point taken
  to the object's local space; when snapping moved the point, \<open>finalPoint\<close> becomes
  the snapped point and \<open>localPoint\<close> is computed again from it. Without an object the
  snap returns the raw point, so nothing changes. (The older revision pushes
  \<open>{ point: snapToFeature(e, camera), normal }\<close>: the same \<open>point\<close> and
  \<open>normal\<close>, and no \<open>localPoint\<close> or \<open>objectUuid\<close>.)
\<close>

definition handleClick :: "click_event \<Rightarrow> camera \<Rightarrow> click_result \<Rightarrow> click_result" where
  "handleClick e cam st =
     (if button e \<noteq> 0 then st
      else
        (let rawPoint = hit_point (hit e);
             objectUuid = map_option obj_uuid (hit_object (hit e));
             rawLocal = map_option (\<lambda>obj. worldToLocal obj rawPoint) (hit_object (hit e));
             st1 = (case face_vertices (hit e) of
                      Some verts \<Rightarrow> st\<lparr>selectedFaceVerts := Some verts\<rparr>
                    | None \<Rightarrow> st)
         in if \<not> measureMode (store st1) then st1
            else
              (let snapped = snapToFeature (hit e) cam;
                   (finalPoint, localPoint) =
                     (case hit_object (hit e) of
                        Some obj \<Rightarrow>
                          if snapped \<noteq> rawPoint then (snapped, Some (worldToLocal obj snapped))
                          else (rawPoint, rawLocal)
                      | None \<Rightarrow> (rawPoint, rawLocal));
                   finalNormal = world_normal (hit e)
               in st1\<lparr>store :=
                    addMeasurePoint
                      \<lparr>point = finalPoint, localPoint = localPoint, objectUuid = objectUuid,
                       normal = finalNormal\<rparr>
                      (store st1)\<rparr>)))"

section \<open>Markers that follow their object (\<open>MeasurementMarkers\<close>, once per frame)\<close>

text \<open>
  The scene the markers look their objects up in, as the list of its objects in the
  order \<open>getObjectByProperty\<close> visits them; the first object with the wanted
  \<open>uuid\<close> is returned. \<open>sceneRef.current\<close> is \<open>null\<close> until the viewer has set it.
\<close>

type_synonym scene_ref = "object3d list option"

definition getObjectByProperty_uuid :: "object3d list \<Rightarrow> string \<Rightarrow> object3d option" where
  "getObjectByProperty_uuid scene u = find (\<lambda>obj. obj_uuid obj = u) scene"

text \<open>
  The body of \<open>measurePoints.map\<close> in the frame callback: the world position of a
  stored point this frame. An empty \<open>objectUuid\<close> string is falsy.
\<close>

definition world_point :: "scene_ref \<Rightarrow> measure_point \<Rightarrow> Vector3" where
  "world_point sceneRef mp =
     (case (localPoint mp, objectUuid mp, sceneRef) of
        (Some lp, Some u, Some scene) \<Rightarrow>
          if u \<noteq> [] then
            (case getObjectByProperty_uuid scene u of
               Some targetObj \<Rightarrow> localToWorld targetObj lp
             | None \<Rightarrow> point mp)
          else point mp
      | _ \<Rightarrow> point mp)"

text \<open>
  The frame callback: the new value of the \<open>currentWorldPoints\<close> state, from which
  markers, lines and labels are drawn.
\<close>

definition frame_world_points :: "scene_ref \<Rightarrow> measure_point list \<Rightarrow> Vector3 list" where
  "frame_world_points sceneRef mps = map (world_point sceneRef) mps"

section \<open>Camera placement (\<open>ThreeCanvas\<close> in components/ThreeCanvas.jsx)\<close>

text \<open>
  The orbit controls' fields the component writes, and the main model: the container
  whose Euler \<open>rotation\<close> the component sets. Its \<open>quaternion\<close> is kept equal to
  \<open>setFromEuler(rotation)\<close>, order XYZ.
\<close>

record controls =
  ctl_target :: Vector3
  ctl_enableDamping :: bool
  ctl_autoRotate :: bool

datatype Euler = Euler (ex_of: real) (ey_of: real) (ez_of: real)

definition setFromEuler :: "Euler \<Rightarrow> Quaternion" where
  "setFromEuler e =
     (let c1 = cos (ex_of e / 2); c2 = cos (ey_of e / 2); c3 = cos (ez_of e / 2);
          s1 = sin (ex_of e / 2); s2 = sin (ey_of e / 2); s3 = sin (ez_of e / 2)
      in Quaternion (s1 * c2 * c3 + c1 * s2 * s3) (c1 * s2 * c3 - s1 * c2 * s3)
                    (c1 * c2 * s3 + s1 * s2 * c3) (c1 * c2 * c3 - s1 * s2 * s3))"

record canvas_state =
  cameraControls :: "(camera \<times> controls) option"
  mainModel :: "Euler option"
  modelMaxDim :: real
  modelUrl :: string
  initialCameraSet :: bool
  enableDamping :: bool
  autoRotate :: bool

text \<open>\<open>str.includes(sub)\<close>\<close>

fun starts_with :: "string \<Rightarrow> string \<Rightarrow> bool" where
  "starts_with str [] = True"
| "starts_with [] (c # cs) = False"
| "starts_with (x # xs) (c # cs) = (x = c \<and> starts_with xs cs)"

fun string_includes :: "string \<Rightarrow> string \<Rightarrow> bool" where
  "string_includes [] sub = (sub = [])"
| "string_includes (x # xs) sub = (starts_with (x # xs) sub \<or> string_includes xs sub)"

text \<open>
  The framing distance before padding, \<open>(size / 2) / Math.tan(fov / 2)\<close> with
  \<open>fov = camera.fov * (Math.PI / 180)\<close>.
\<close>

definition framing_distance :: "real \<Rightarrow> real \<Rightarrow> real" where
  "framing_distance sz fov_degrees =
     (let fov = fov_degrees * (pi / 180) in (sz / 2) / tan (fov / 2))"

text \<open>
  \<open>handleModelReady\<close>: the initial camera fit, run once per model when the controls
  exist and the model has a positive size. The padding multiplier is 1.5. One revision
  of the component replaces it by \<open>1.5 * 0.75\<close> for the default asset, in the two
  others these lines are commented out; \<open>closer_default\<close> tells whether they are
  active.
\<close>

definition paddingMultiplier :: "bool \<Rightarrow> string \<Rightarrow> real" where
  "paddingMultiplier closer_default url =
     (if closer_default \<and> url \<noteq> [] \<and> string_includes url ''V3_DIRT_BIKE_3'' then 1.5 * 0.75
      else 1.5)"

definition handleModelReady :: "bool \<Rightarrow> Euler \<Rightarrow> real \<Rightarrow> canvas_state \<Rightarrow> canvas_state" where
  "handleModelReady closer_default model maxDim st =
     (let st1 = st\<lparr>mainModel := Some model, modelMaxDim := maxDim\<rparr>
      in case cameraControls st of
           Some (cam, ctl) \<Rightarrow>
             if maxDim > 0 \<and> \<not> initialCameraSet st then
               (let cameraZ = framing_distance maxDim (cam_fov cam)
                                * paddingMultiplier closer_default (modelUrl st)
                in st1\<lparr>cameraControls :=
                         Some (cam\<lparr>cam_position := Vector3 0 0 cameraZ\<rparr>,
                               ctl\<lparr>ctl_target := Vector3 0 0 0\<rparr>),
                       initialCameraSet := True\<rparr>)
             else st1
         | None \<Rightarrow> st1)"
text \<open>
  \<open>handleViewChange\<close>. The \<open>switch\<close> on the view name gives the offset and up
  vectors in the model's frame; an unknown name returns after damping and auto-rotation
  were switched off.
\<close>

definition view_vectors :: "string \<Rightarrow> (Vector3 \<times> Vector3) option" where
  "view_vectors view =
     (if view = ''front'' then Some (Vector3 0 0 1, Vector3 0 1 0)
      else if view = ''back'' then Some (Vector3 0 0 (- 1), Vector3 0 1 0)
      else if view = ''left'' then Some (Vector3 (- 1) 0 0, Vector3 0 1 0)
      else if view = ''right'' then Some (Vector3 1 0 0, Vector3 0 1 0)
      else if view = ''top'' then Some (Vector3 0 1 0.0001, Vector3 0 0 (- 1))
      else if view = ''bottom'' then Some (Vector3 0 (- 1) 0.0001, Vector3 0 0 1)
      else None)"

definition view_distance :: "canvas_state \<Rightarrow> camera \<Rightarrow> real" where
  "view_distance st cam =
     (let sz = (if modelMaxDim st > 0 then modelMaxDim st else 10)
      in framing_distance sz (cam_fov cam) * 1.5)"

definition modelQuat :: "canvas_state \<Rightarrow> Quaternion" where
  "modelQuat st = (case mainModel st of Some rotation \<Rightarrow> setFromEuler rotation
                   | None \<Rightarrow> identityQuaternion)"

definition handleViewChange :: "string \<Rightarrow> canvas_state \<Rightarrow> canvas_state" where
  "handleViewChange view st =
     (case cameraControls st of
        None \<Rightarrow> st
      | Some (cam, ctl) \<Rightarrow>
          (let st1 = st\<lparr>enableDamping := False, autoRotate := False\<rparr>;
               ctl1 = ctl\<lparr>ctl_enableDamping := False, ctl_autoRotate := False\<rparr>;
               dist = view_distance st cam;
               target = ctl_target ctl1
           in case view_vectors view of
                None \<Rightarrow> st1\<lparr>cameraControls := Some (cam, ctl1)\<rparr>
              | Some (offset0, up0) \<Rightarrow>
                  (let offset = applyQuaternion offset0 (modelQuat st);
                       up = applyQuaternion up0 (modelQuat st);
                       finalPos = add3 target (multiplyScalar offset dist)
                   in st1\<lparr>cameraControls :=
                            Some (cam\<lparr>cam_position := finalPos, cam_up := up\<rparr>, ctl1)\<rparr>)))"

section \<open>Dragging the orientation cube (\<open>handleCubeDrag\<close> of \<open>ThreeCanvas\<close>)\<close>

text \<open>
  \<open>THREE.Spherical\<close>: radius, polar angle \<open>phi\<close> measured from the positive Y axis
  and azimuth \<open>theta\<close> around it, measured from the positive Z axis.
\<close>

record spherical =
  sph_radius :: real
  sph_phi :: real
  sph_theta :: real

text \<open>\<open>Math.atan2(y, x)\<close>; the sign of a zero is not modelled.\<close>

definition atan2 :: "real \<Rightarrow> real \<Rightarrow> real" where
  "atan2 y x =
     (if x > 0 then arctan (y / x)
      else if x < 0 then (if y \<ge> 0 then arctan (y / x) + pi else arctan (y / x) - pi)
      else if y > 0 then pi / 2
      else if y < 0 then - (pi / 2)
      else 0)"

text \<open>\<open>spherical.setFromVector3(v)\<close>, with \<open>MathUtils.clamp(y / radius, -1, 1)\<close>.\<close>

definition setFromVector3 :: "Vector3 \<Rightarrow> spherical" where
  "setFromVector3 v =
     (let radius = sqrt (x_of v * x_of v + y_of v * y_of v + z_of v * z_of v)
      in if radius = 0 then \<lparr>sph_radius = radius, sph_phi = 0, sph_theta = 0\<rparr>
         else \<lparr>sph_radius = radius,
               sph_phi = arccos (max (- 1) (min 1 (y_of v / radius))),
               sph_theta = atan2 (x_of v) (z_of v)\<rparr>)"

text \<open>\<open>v.setFromSpherical(s)\<close>\<close>

definition setFromSpherical :: "spherical \<Rightarrow> Vector3" where
  "setFromSpherical s =
     (let sinPhiRadius = sin (sph_phi s) * sph_radius s
      in Vector3 (sinPhiRadius * sin (sph_theta s)) (cos (sph_phi s) * sph_radius s)
                 (sinPhiRadius * cos (sph_theta s)))"

text \<open>
  The spherical coordinates after a drag by \<open>(dx, dy)\<close> pixels:
  \<open>theta -= dx * rotSpeed\<close>, \<open>phi -= dy * rotSpeed\<close> with \<open>rotSpeed = 0.01\<close>, then
  \<open>phi = Math.max(0.01, Math.min(Math.PI - 0.01, phi))\<close>.
\<close>

definition drag_spherical :: "real \<Rightarrow> real \<Rightarrow> spherical \<Rightarrow> spherical" where
  "drag_spherical dx dy s =
     (let rotSpeed = 0.01;
          theta = sph_theta s - dx * rotSpeed;
          phi = sph_phi s - dy * rotSpeed
      in s\<lparr>sph_theta := theta, sph_phi := max 0.01 (min (pi - 0.01) phi)\<rparr>)"

text \<open>
  \<open>handleCubeDrag\<close>, the cube's \<open>onRotateDelta\<close> callback. The cube component of
  this revision is not among the sources; the deltas \<open>dx\<close> and \<open>dy\<close> it emits are the
  arguments. \<open>camera.lookAt\<close> and \<open>controls.update()\<close> turn the camera towards the
  target and do not move it.
\<close>

definition handleCubeDrag :: "real \<Rightarrow> real \<Rightarrow> canvas_state \<Rightarrow> canvas_state" where
  "handleCubeDrag dx dy st =
     (case cameraControls st of
        Some (cam, ctl) \<Rightarrow>
          (let offset = sub3 (cam_position cam) (ctl_target ctl);
               sph = drag_spherical dx dy (setFromVector3 offset);
               offset' = setFromSpherical sph
           in st\<lparr>cameraControls := Some (cam\<lparr>cam_position := add3 (ctl_target ctl) offset'\<rparr>, ctl)\<rparr>)
      | None \<Rightarrow> st)"

section \<open>Sample inputs for the camera and the click handler\<close>

definition start_camera :: "real \<Rightarrow> camera" where
  "start_camera fov = \<lparr>cam_position = Vector3 0 0 500, cam_up = Vector3 0 1 0, cam_fov = fov\<rparr>"

definition start_controls :: controls where
  "start_controls = \<lparr>ctl_target = Vector3 0 0 0, ctl_enableDamping = True, ctl_autoRotate = True\<rparr>"

definition start_canvas :: "real \<Rightarrow> string \<Rightarrow> canvas_state" where
  "start_canvas fov url =
     \<lparr>cameraControls = Some (start_camera fov, start_controls), mainModel = None,
      modelMaxDim = 0, modelUrl = url, initialCameraSet = False, enableDamping = True,
      autoRotate = True\<rparr>"

text \<open>
  A plate that has been moved by 1000 along X, a click near its edge, and the same
  plate after it has moved on.
\<close>

definition moved_obj :: object3d where
  "moved_obj = \<lparr>obj_uuid = ''plate'',
                positions = [Vector3 0 0 0, Vector3 100 0 0, Vector3 0 100 0],
                matrixWorld = makeTranslation 1000 0 0\<rparr>"

definition moved_click :: click_event where
  "moved_click =
     \<lparr>button = 0,
      hit = Intersection (Some (Face 0 1 2 (Vector3 0 0 1))) (Some moved_obj)
              (Vector3 1003 4 0)\<rparr>"

definition click_camera :: camera where
  "click_camera = \<lparr>cam_position = Vector3 1003 4 500, cam_up = Vector3 0 1 0, cam_fov = 50\<rparr>"

definition measuring :: click_result where
  "measuring = \<lparr>selectedFaceVerts = None, store = setMeasureMode True initial_state\<rparr>"

definition shifted_obj :: object3d where
  "shifted_obj = moved_obj\<lparr>matrixWorld := makeTranslation 2000 500 0\<rparr>"

section \<open>Auxiliary notions for the proofs about the scene\<close>

text \<open>
  What the set-up traversal does to a node does not depend on the caches; this is the
  node it leaves behind.
\<close>

definition setup_node :: "node \<Rightarrow> node" where
  "setup_node child = snd (setup_child (\<lambda>_. Vector3 0 1 0) fresh_refs child)"

text \<open>The distance of a node from its stored original position.\<close>

definition baseline_gap :: "viewer_refs \<Rightarrow> node \<Rightarrow> real" where
  "baseline_gap refs child =
     (case originalPositions refs (uuid child) of
        Some base \<Rightarrow> distanceTo (position child) base
      | None \<Rightarrow> 0)"

text \<open>The sample scene after set-up, and the caches set-up leaves.\<close>

definition bolt_refs :: viewer_refs where
  "bolt_refs = fst (setup_scene up_dir 10 fresh_refs [bolt])"

definition bolt_scene :: "node list" where
  "bolt_scene = snd (setup_scene up_dir 10 fresh_refs [bolt])"

section \<open>Auxiliary notions for the proofs about colour and camera\<close>

text \<open>The colour effect run with the flag on and then again with the flag off.\<close>

definition tint_then_restore ::
  "viewer_refs \<Rightarrow> (nat \<Rightarrow> string) \<Rightarrow> node list \<Rightarrow> error + node list" where
  "tint_then_restore refs randoms scene =
     (case color_effect True refs randoms scene of
        Inl e \<Rightarrow> Inl e
      | Inr tinted \<Rightarrow> color_effect False refs randoms tinted)"

definition no_randoms :: "nat \<Rightarrow> string" where
  "no_randoms k = ''0.5''"

text \<open>The squared norm of a quaternion.\<close>

definition quat_norm_sq :: "Quaternion \<Rightarrow> real" where
  "quat_norm_sq q = (qx_of q)\<^sup>2 + (qy_of q)\<^sup>2 + (qz_of q)\<^sup>2 + (qw_of q)\<^sup>2"

text \<open>
  The canvas after an unrotated model of size 10 has been loaded and framed, seen
  through a 50 degree camera.
\<close>

definition ready_canvas :: canvas_state where
  "ready_canvas = handleModelReady True (Euler 0 0 0) 10 (start_canvas 50 ''/models/part.glb'')"

text \<open>
  A world matrix without a perspective row, as the world matrices of scene nodes are,
  and the determinant of its upper left 3 by 3 block.
\<close>

definition affine :: "Matrix4 \<Rightarrow> bool" where
  "affine e = (e 3 = 0 \<and> e 7 = 0 \<and> e 11 = 0 \<and> e 15 = 1)"

definition det3 :: "Matrix4 \<Rightarrow> real" where
  "det3 e = e 0 * (e 5 * e 10 - e 9 * e 6) - e 4 * (e 1 * e 10 - e 9 * e 2)
            + e 8 * (e 1 * e 6 - e 5 * e 2)"

section \<open>Auxiliary notions for the proofs about snapping\<close>

text \<open>The best distance so far is not below \<open>T\<close>; it is at most \<open>d\<close>.\<close>

definition min_at_least :: "real \<Rightarrow> snap_state \<Rightarrow> bool" where
  "min_at_least T s = (case snd s of None \<Rightarrow> True | Some d \<Rightarrow> T \<le> d)"

definition min_at_most :: "real \<Rightarrow> snap_state \<Rightarrow> bool" where
  "min_at_most d s = (case snd s of None \<Rightarrow> False | Some m \<Rightarrow> m \<le> d)"

text \<open>
  The running pair is the start pair, or a feature out of \<open>C\<close> together with its
  distance from the hit point.
\<close>

definition winner_of :: "Vector3 set \<Rightarrow> Vector3 \<Rightarrow> snap_state \<Rightarrow> bool" where
  "winner_of C p s =
     (case snd s of None \<Rightarrow> fst s = p | Some m \<Rightarrow> fst s \<in> C \<and> m = distanceTo (fst s) p)"

text \<open>
  The pair the two loops of \<open>snapToFeature\<close> end with: the feature they settle on
  and its distance from the hit point. It does not depend on the camera.
\<close>

definition snap_search :: "Intersection \<Rightarrow> snap_state" where
  "snap_search intersect =
     (case (hit_face intersect, hit_object intersect) of
        (Some face, Some obj) \<Rightarrow>
          (let p = hit_point intersect;
               vA = getV obj (face_a face);
               vB = getV obj (face_b face);
               vC = getV obj (face_c face)
           in foldl (check_edge p) (foldl (check_vertex p) (p, None) [vA, vB, vC])
                [(vA, vB), (vB, vC), (vC, vA)])
      | _ \<Rightarrow> (hit_point intersect, None))"

text \<open>A sample hit on a triangle, seen from three camera positions.\<close>

definition tri_obj :: object3d where
  "tri_obj = \<lparr>obj_uuid = ''part'',
              positions = [Vector3 0 0 0, Vector3 100 0 0, Vector3 0 100 0],
              matrixWorld = identity4\<rparr>"

definition tri_hit :: Intersection where
  "tri_hit = Intersection (Some (Face 0 1 2 (Vector3 0 0 1))) (Some tri_obj) (Vector3 3 4 0)"

definition cam_close :: camera where
  "cam_close = \<lparr>cam_position = Vector3 3 4 75, cam_up = Vector3 0 1 0, cam_fov = 50\<rparr>"

definition cam_near :: camera where
  "cam_near = \<lparr>cam_position = Vector3 3 4 150, cam_up = Vector3 0 1 0, cam_fov = 50\<rparr>"

definition cam_far :: camera where
  "cam_far = \<lparr>cam_position = Vector3 3 4 300, cam_up = Vector3 0 1 0, cam_fov = 50\<rparr>"

section \<open>Properties of the measurement buffer\<close>

lemma addMeasurePoint_points:
  "measurePoints (addMeasurePoint p s) =
     (if length (measurePoints s) \<ge> 2 then [p] else measurePoints s @ [p])"
  by (simp add: addMeasurePoint_def)

lemma addMeasurePoint_length_le:
  "length (measurePoints s) \<le> 2 \<Longrightarrow> length (measurePoints (addMeasurePoint p s)) \<le> 2"
  by (simp add: addMeasurePoint_points)

lemma apply_call_length_le:
  "length (measurePoints s) \<le> 2 \<Longrightarrow> length (measurePoints (apply_call s c)) \<le> 2"
  by (cases c) (simp_all add: addMeasurePoint_points setMeasureMode_def)

lemma run_calls_length_le:
  "length (measurePoints s) \<le> 2 \<Longrightarrow> length (measurePoints (run_calls s cs)) \<le> 2"
  unfolding run_calls_def
proof (induction cs arbitrary: s)
  case Nil
  then show ?case by simp
next
  case (Cons c cs)
  have "length (measurePoints (apply_call s c)) \<le> 2"
    using Cons.prems by (rule apply_call_length_le)
  then show ?case using Cons.IH by simp
qed

lemma push_all_snoc:
  "push_all s (ps @ [p]) = addMeasurePoint p (push_all s ps)"
  by (simp add: push_all_def)

lemma push_all_buffer:
  "measurePoints (push_all initial_state ps) = drop (2 * ((length ps - 1) div 2)) ps"
proof (induction ps rule: rev_induct)
  case Nil
  show ?case by (simp add: push_all_def initial_state_def)
next
  case (snoc p ps)
  let ?n = "length ps"
  let ?k = "2 * ((?n - 1) div 2)"
  have buf: "measurePoints (push_all initial_state ps) = drop ?k ps"
    by (rule snoc.IH)
  have len: "length (drop ?k ps) = ?n - ?k" by simp
  show ?case
  proof (cases "?n = 0")
    case True
    then show ?thesis
      by (simp add: push_all_snoc addMeasurePoint_points push_all_def initial_state_def)
  next
    case False
    show ?thesis
    proof (cases "even ?n")
      case True
      then obtain m where m: "?n = 2 * m" by (auto elim: evenE)
      with False have mpos: "m > 0" by simp
      have k: "?k = 2 * (m - 1)"
        using m mpos by (cases m) simp_all
      have k': "2 * ((length (ps @ [p]) - 1) div 2) = ?n"
        using m by simp
      have "length (drop ?k ps) = 2" using len k m mpos by simp
      then have "measurePoints (push_all initial_state (ps @ [p])) = [p]"
        by (simp add: push_all_snoc addMeasurePoint_points buf)
      also have "[p] = drop ?n (ps @ [p])" by simp
      finally show ?thesis using k' by simp
    next
      case odd: False
      then obtain m where m: "?n = 2 * m + 1" by (auto elim: oddE)
      have k: "?k = 2 * m" using m by simp
      have k': "2 * ((length (ps @ [p]) - 1) div 2) = 2 * m"
        using m by simp
      have "length (drop ?k ps) = 1" using len k m by simp
      then have "measurePoints (push_all initial_state (ps @ [p])) = drop ?k ps @ [p]"
        by (simp add: push_all_snoc addMeasurePoint_points buf)
      also have "\<dots> = drop (2 * m) (ps @ [p])" using k m by simp
      finally show ?thesis using k' by simp
    qed
  qed
qed

text \<open>
  C1 (as the store implements it). Starting from the empty buffer, after pushing the
  points \<open>ps\<close> the buffer holds the points pushed since the last reset, which happens
  at every push made while two points are stored: it never holds more than two points,
  it holds two after two pushes, and a third push made while two are stored leaves
  exactly the new point.
\<close>

theorem C1_buffer_capacity_two:
  "measurePoints (push_all initial_state ps) = drop (2 * ((length ps - 1) div 2)) ps
   \<and> length (measurePoints (push_all initial_state ps)) \<le> 2
   \<and> measurePoints (push_all initial_state [a, b]) = [a, b]
   \<and> measurePoints (addMeasurePoint c (push_all initial_state [a, b])) = [c]"
proof -
  have "length (drop (2 * ((length ps - 1) div 2)) ps) \<le> 2"
    by simp
  then show ?thesis
    by (simp add: push_all_buffer) (simp add: addMeasurePoint_points push_all_def initial_state_def)
qed

text \<open>
  C1 as the specification words it fails: after three pushes from the empty buffer the
  buffer does not hold three points, it holds the third point alone.
\<close>

theorem C1_three_pushes_counterexample:
  "length (measurePoints (push_all initial_state [ptA, ptB, ptC])) \<noteq> 3
   \<and> measurePoints (push_all initial_state [ptA, ptB, ptC]) = [ptC]"
  by (simp add: push_all_def addMeasurePoint_points initial_state_def)

text \<open>
  C10. From the initial state, after any sequence of \<open>addMeasurePoint\<close> and
  \<open>setMeasureMode\<close> calls the buffer holds at most two points; a push made while two
  points are stored replaces the buffer with exactly the new point; and every call of
  \<open>setMeasureMode\<close>, enabling or disabling, empties the buffer.
\<close>

theorem C10_buffer_invariant:
  "length (measurePoints (run_calls initial_state cs)) \<le> 2
   \<and> (length (measurePoints s) = 2 \<longrightarrow> measurePoints (addMeasurePoint p s) = [p])
   \<and> measurePoints (setMeasureMode active s) = []"
proof -
  have "length (measurePoints (run_calls initial_state cs)) \<le> 2"
    by (rule run_calls_length_le) (simp add: initial_state_def)
  then show ?thesis
    by (simp add: addMeasurePoint_points setMeasureMode_def)
qed

theorem C10_buffer_invariant_witness:
  "length (measurePoints (run_calls initial_state
      [AddMeasurePoint ptA, AddMeasurePoint ptB, AddMeasurePoint ptC, SetMeasureMode True,
       AddMeasurePoint ptA, AddMeasurePoint ptB])) = 2
   \<and> length (measurePoints (push_all initial_state [ptA, ptB])) = 2
   \<and> measurePoints (addMeasurePoint ptC (push_all initial_state [ptA, ptB])) = [ptC]
   \<and> measurePoints (setMeasureMode True (push_all initial_state [ptA, ptB])) = []"
proof -
  have two: "length (measurePoints (push_all initial_state [ptA, ptB])) = 2"
    by (simp add: push_all_def addMeasurePoint_points initial_state_def)
  have run: "length (measurePoints (run_calls initial_state
      [AddMeasurePoint ptA, AddMeasurePoint ptB, AddMeasurePoint ptC, SetMeasureMode True,
       AddMeasurePoint ptA, AddMeasurePoint ptB])) = 2"
    by (simp add: run_calls_def addMeasurePoint_points setMeasureMode_def initial_state_def)
  from C10_buffer_invariant [of "[]" "push_all initial_state [ptA, ptB]" ptC True] two run
  show ?thesis by simp
qed

section \<open>Properties of feature snapping\<close>

lemma check_vertex_at_least:
  assumes "min_at_least T s" and "\<And>v. c = Some v \<Longrightarrow> T \<le> distanceTo v p"
  shows "min_at_least T (check_vertex p s c)"
  using assms by (cases s; cases c) (auto simp: min_at_least_def Let_def)

lemma check_edge_at_least:
  assumes "min_at_least T s" and "\<And>q. edge_point p e = Some q \<Longrightarrow> T \<le> distanceTo q p"
  shows "min_at_least T (check_edge p s e)"
  using assms by (cases s) (auto simp: min_at_least_def Let_def split: option.splits)

lemma set_map_filter_id: "set (List.map_filter id xs) = {q. Some q \<in> set xs}"
  by (induction xs) (auto split: option.splits)

lemma distance_nonneg: "0 \<le> distanceTo q p"
  by (cases p; cases q) (simp add: distanceTo_def distanceToSquared_def lengthSq_def)

lemma check_vertex_winner:
  assumes "winner_of C p s" and "\<And>v. c = Some v \<Longrightarrow> v \<in> C"
  shows "winner_of C p (check_vertex p s c)"
  using assms by (cases s; cases c) (auto simp: winner_of_def Let_def)

lemma check_edge_winner:
  assumes "winner_of C p s" and "\<And>q. edge_point p e = Some q \<Longrightarrow> q \<in> C"
  shows "winner_of C p (check_edge p s e)"
proof (cases s)
  case (Pair cp md)
  show ?thesis
  proof (cases "edge_point p e")
    case None
    with assms(1) Pair show ?thesis by simp
  next
    case (Some q)
    then have "q \<in> C" by (rule assms(2))
    with assms(1) Pair Some show ?thesis
      by (cases "below (distanceTo q p) (scaled md 0.9)") (simp_all add: winner_of_def Let_def)
  qed
qed

lemma check_vertex_at_most:
  assumes "min_at_most d s \<or> (\<exists>v. c = Some v \<and> distanceTo v p \<le> d)"
  shows "min_at_most d (check_vertex p s c)"
proof (cases s)
  case (Pair cp md)
  show ?thesis
  proof (cases c)
    case None
    with assms Pair show ?thesis by simp
  next
    case (Some v)
    show ?thesis
    proof (cases md)
      case None
      with assms Pair Some show ?thesis by (simp add: min_at_most_def Let_def)
    next
      case (Some m)
      with assms Pair \<open>c = Some v\<close> show ?thesis
        by (auto simp: min_at_most_def Let_def)
    qed
  qed
qed

lemma check_edge_at_most:
  assumes "min_at_most d s \<or> (\<exists>q. edge_point p e = Some q \<and> distanceTo q p \<le> 0.9 * d)"
  shows "min_at_most d (check_edge p s e)"
proof (cases s)
  case (Pair cp md)
  show ?thesis
  proof (cases "edge_point p e")
    case None
    with assms Pair show ?thesis by simp
  next
    case (Some q)
    have q0: "0 \<le> distanceTo q p" by (rule distance_nonneg)
    show ?thesis
    proof (cases md)
      case None
      with assms Pair Some q0 show ?thesis by (simp add: min_at_most_def Let_def)
    next
      case m: (Some m)
      show ?thesis
      proof (cases "distanceTo q p < m * 0.9")
        case True
        have "distanceTo q p \<le> d"
        proof (cases "min_at_most d s")
          case True
          then have "m \<le> d" using Pair m by (simp add: min_at_most_def)
          with \<open>distanceTo q p < m * 0.9\<close> q0 show ?thesis by simp
        next
          case False
          with assms Some have "distanceTo q p \<le> 0.9 * d" by simp
          with q0 show ?thesis by simp
        qed
        with True Pair Some m show ?thesis by (simp add: min_at_most_def Let_def)
      next
        case False
        have "m \<le> d"
        proof (cases "min_at_most d s")
          case True
          then show ?thesis using Pair m by (simp add: min_at_most_def)
        next
          case no: False
          with assms Some have "distanceTo q p \<le> 0.9 * d" by simp
          with False show ?thesis by simp
        qed
        with False Pair Some m show ?thesis by (simp add: min_at_most_def Let_def)
      qed
    qed
  qed
qed

lemma snap_far_is_raw:
  assumes far: "\<forall>q \<in> set (snap_candidates i). snap_threshold cam (hit_point i) \<le> distanceTo q (hit_point i)"
  shows "snapToFeature i cam = hit_point i"
proof (cases "hit_face i")
  case None
  then show ?thesis by (simp add: snapToFeature_def)
next
  case (Some face)
  note f = this
  show ?thesis
  proof (cases "hit_object i")
    case None
    then show ?thesis by (simp add: snapToFeature_def f)
  next
    case (Some obj)
    let ?p = "hit_point i"
    let ?T = "snap_threshold cam ?p"
    let ?vA = "getV obj (face_a face)"
    let ?vB = "getV obj (face_b face)"
    let ?vC = "getV obj (face_c face)"
    have cand: "set (snap_candidates i) =
        {q. Some q \<in> {?vA, ?vB, ?vC, edge_point ?p (?vA, ?vB), edge_point ?p (?vB, ?vC),
                       edge_point ?p (?vC, ?vA)}}"
      by (simp add: snap_candidates_def f Some Let_def set_map_filter_id del: map_filter_simps)
    have mem: "?T \<le> distanceTo q ?p"
      if "c = Some q" and "c \<in> {?vA, ?vB, ?vC, edge_point ?p (?vA, ?vB),
            edge_point ?p (?vB, ?vC), edge_point ?p (?vC, ?vA)}" for c q
    proof -
      from that have "q \<in> set (snap_candidates i)"
        unfolding cand by simp
      with far show ?thesis by blast
    qed
    let ?s0 = "(?p, None) :: snap_state"
    let ?s1 = "check_vertex ?p ?s0 ?vA"
    let ?s2 = "check_vertex ?p ?s1 ?vB"
    let ?s3 = "check_vertex ?p ?s2 ?vC"
    let ?s4 = "check_edge ?p ?s3 (?vA, ?vB)"
    let ?s5 = "check_edge ?p ?s4 (?vB, ?vC)"
    let ?s6 = "check_edge ?p ?s5 (?vC, ?vA)"
    have "min_at_least ?T ?s0" by (simp add: min_at_least_def)
    then have "min_at_least ?T ?s1" by (rule check_vertex_at_least) (rule mem, assumption, simp)
    then have "min_at_least ?T ?s2" by (rule check_vertex_at_least) (rule mem, assumption, simp)
    then have "min_at_least ?T ?s3" by (rule check_vertex_at_least) (rule mem, assumption, simp)
    then have "min_at_least ?T ?s4" by (rule check_edge_at_least) (rule mem, assumption, simp)
    then have "min_at_least ?T ?s5" by (rule check_edge_at_least) (rule mem, assumption, simp)
    then have "min_at_least ?T ?s6" by (rule check_edge_at_least) (rule mem, assumption, simp)
    moreover have "snapToFeature i cam =
        (case ?s6 of (closestPoint, minMsgDist) \<Rightarrow>
           (case minMsgDist of Some m \<Rightarrow> if m < ?T then closestPoint else ?p | None \<Rightarrow> ?p))"
      by (simp add: snapToFeature_def f Some Let_def del: check_vertex.simps check_edge.simps)
    ultimately show ?thesis
      by (cases ?s6) (auto simp: min_at_least_def split: option.splits)
  qed
qed


lemma min_at_most_mono: "min_at_most d s \<Longrightarrow> d \<le> d' \<Longrightarrow> min_at_most d' s"
  by (cases "snd s") (simp_all add: min_at_most_def)

lemma foldl_check_vertex_winner:
  assumes "winner_of C p s" and "\<And>v. Some v \<in> set cs \<Longrightarrow> v \<in> C"
  shows "winner_of C p (foldl (check_vertex p) s cs)"
  using assms
proof (induction cs arbitrary: s)
  case Nil
  then show ?case by simp
next
  case (Cons c cs)
  have "winner_of C p (check_vertex p s c)"
    using Cons.prems(1) by (rule check_vertex_winner) (simp add: Cons.prems(2))
  then have "winner_of C p (foldl (check_vertex p) (check_vertex p s c) cs)"
    by (rule Cons.IH) (simp add: Cons.prems(2))
  then show ?case by simp
qed

lemma foldl_check_edge_winner:
  assumes "winner_of C p s" and "\<And>e q. e \<in> set es \<Longrightarrow> edge_point p e = Some q \<Longrightarrow> q \<in> C"
  shows "winner_of C p (foldl (check_edge p) s es)"
  using assms
proof (induction es arbitrary: s)
  case Nil
  then show ?case by simp
next
  case (Cons e es)
  have "winner_of C p (check_edge p s e)"
    using Cons.prems(1) by (rule check_edge_winner) (rule Cons.prems(2), simp_all)
  then have "winner_of C p (foldl (check_edge p) (check_edge p s e) es)"
    by (rule Cons.IH) (rule Cons.prems(2), simp_all)
  then show ?case by simp
qed

lemma foldl_check_vertex_at_most:
  assumes "min_at_most d s \<or> (\<exists>v. Some v \<in> set cs \<and> distanceTo v p \<le> d)"
  shows "min_at_most d (foldl (check_vertex p) s cs)"
  using assms
proof (induction cs arbitrary: s)
  case Nil
  then show ?case by simp
next
  case (Cons c cs)
  have "min_at_most d (check_vertex p s c) \<or> (\<exists>v. Some v \<in> set cs \<and> distanceTo v p \<le> d)"
  proof (cases "\<exists>v. Some v \<in> set cs \<and> distanceTo v p \<le> d")
    case True
    then show ?thesis by simp
  next
    case False
    with Cons.prems have "min_at_most d s \<or> (\<exists>v. c = Some v \<and> distanceTo v p \<le> d)"
      by auto
    then have "min_at_most d (check_vertex p s c)" by (rule check_vertex_at_most)
    then show ?thesis by simp
  qed
  then have "min_at_most d (foldl (check_vertex p) (check_vertex p s c) cs)"
    by (rule Cons.IH)
  then show ?case by simp
qed

lemma foldl_check_edge_at_most:
  assumes "min_at_most d s
     \<or> (\<exists>e q. e \<in> set es \<and> edge_point p e = Some q \<and> distanceTo q p \<le> 0.9 * d)"
  shows "min_at_most d (foldl (check_edge p) s es)"
  using assms
proof (induction es arbitrary: s)
  case Nil
  then show ?case by simp
next
  case (Cons e es)
  have "min_at_most d (check_edge p s e)
     \<or> (\<exists>e q. e \<in> set es \<and> edge_point p e = Some q \<and> distanceTo q p \<le> 0.9 * d)"
  proof (cases "\<exists>e q. e \<in> set es \<and> edge_point p e = Some q \<and> distanceTo q p \<le> 0.9 * d")
    case True
    then show ?thesis by simp
  next
    case False
    with Cons.prems
    have "min_at_most d s \<or> (\<exists>q. edge_point p e = Some q \<and> distanceTo q p \<le> 0.9 * d)"
      by auto
    then have "min_at_most d (check_edge p s e)" by (rule check_edge_at_most)
    then show ?thesis by simp
  qed
  then have "min_at_most d (foldl (check_edge p) (check_edge p s e) es)"
    by (rule Cons.IH)
  then show ?case by simp
qed

lemma snapToFeature_search:
  "snapToFeature i cam =
     (case snap_search i of
        (closestPoint, minMsgDist) \<Rightarrow>
          (case minMsgDist of
             Some m \<Rightarrow> if m < snap_threshold cam (hit_point i) then closestPoint else hit_point i
           | None \<Rightarrow> hit_point i))"
  by (simp add: snapToFeature_def snap_search_def Let_def split: option.splits
      del: foldl_Cons check_vertex.simps check_edge.simps)

lemma snap_search_winner: "winner_of (set (snap_candidates i)) (hit_point i) (snap_search i)"
proof (cases "hit_face i")
  case None
  then show ?thesis by (simp add: snap_search_def winner_of_def)
next
  case (Some face)
  note f = this
  show ?thesis
  proof (cases "hit_object i")
    case None
    then show ?thesis by (simp add: snap_search_def winner_of_def f)
  next
    case (Some obj)
    let ?p = "hit_point i"
    let ?vA = "getV obj (face_a face)"
    let ?vB = "getV obj (face_b face)"
    let ?vC = "getV obj (face_c face)"
    let ?C = "set (snap_candidates i)"
    have cand: "?C =
        {q. Some q \<in> {?vA, ?vB, ?vC, edge_point ?p (?vA, ?vB), edge_point ?p (?vB, ?vC),
                       edge_point ?p (?vC, ?vA)}}"
      by (simp add: snap_candidates_def f Some Let_def set_map_filter_id del: map_filter_simps)
    have "winner_of ?C ?p (?p, None)" by (simp add: winner_of_def)
    then have "winner_of ?C ?p (foldl (check_vertex ?p) (?p, None) [?vA, ?vB, ?vC])"
    proof (rule foldl_check_vertex_winner)
      fix v assume "Some v \<in> set [?vA, ?vB, ?vC]"
      then show "v \<in> ?C" unfolding cand by auto
    qed
    then have "winner_of ?C ?p
        (foldl (check_edge ?p) (foldl (check_vertex ?p) (?p, None) [?vA, ?vB, ?vC])
           [(?vA, ?vB), (?vB, ?vC), (?vC, ?vA)])"
    proof (rule foldl_check_edge_winner)
      fix e q assume "e \<in> set [(?vA, ?vB), (?vB, ?vC), (?vC, ?vA)]" "edge_point ?p e = Some q"
      then show "q \<in> ?C" unfolding cand by auto
    qed
    then show ?thesis by (simp add: snap_search_def f Some Let_def del: foldl_Cons)
  qed
qed

lemma snap_search_vertex:
  assumes "v \<in> set (snap_vertices i)"
  shows "min_at_most (distanceTo v (hit_point i)) (snap_search i)"
proof (cases "hit_face i")
  case None
  with assms show ?thesis by (simp add: snap_vertices_def)
next
  case (Some face)
  note f = this
  show ?thesis
  proof (cases "hit_object i")
    case None
    with assms show ?thesis by (simp add: snap_vertices_def f)
  next
    case (Some obj)
    let ?p = "hit_point i"
    let ?vA = "getV obj (face_a face)"
    let ?vB = "getV obj (face_b face)"
    let ?vC = "getV obj (face_c face)"
    let ?d = "distanceTo v ?p"
    from assms have "Some v \<in> set [?vA, ?vB, ?vC]"
      by (simp add: snap_vertices_def f Some set_map_filter_id del: map_filter_simps)
    then have "\<exists>w. Some w \<in> set [?vA, ?vB, ?vC] \<and> distanceTo w ?p \<le> ?d" by blast
    then have "min_at_most ?d (foldl (check_vertex ?p) (?p, None) [?vA, ?vB, ?vC])"
      by (intro foldl_check_vertex_at_most disjI2)
    then have "min_at_most ?d
        (foldl (check_edge ?p) (foldl (check_vertex ?p) (?p, None) [?vA, ?vB, ?vC])
           [(?vA, ?vB), (?vB, ?vC), (?vC, ?vA)])"
      by (intro foldl_check_edge_at_most disjI1)
    then show ?thesis by (simp add: snap_search_def f Some Let_def del: foldl_Cons)
  qed
qed

lemma snap_search_candidate:
  assumes "q \<in> set (snap_candidates i)"
  shows "min_at_most (distanceTo q (hit_point i) / 0.9) (snap_search i)"
proof (cases "hit_face i")
  case None
  with assms show ?thesis by (simp add: snap_candidates_def)
next
  case (Some face)
  note f = this
  show ?thesis
  proof (cases "hit_object i")
    case None
    with assms show ?thesis by (simp add: snap_candidates_def f)
  next
    case (Some obj)
    let ?p = "hit_point i"
    let ?vA = "getV obj (face_a face)"
    let ?vB = "getV obj (face_b face)"
    let ?vC = "getV obj (face_c face)"
    let ?d = "distanceTo q ?p / 0.9"
    have q0: "0 \<le> distanceTo q ?p" by (rule distance_nonneg)
    from assms have mem: "Some q \<in> set [?vA, ?vB, ?vC]
        \<or> edge_point ?p (?vA, ?vB) = Some q \<or> edge_point ?p (?vB, ?vC) = Some q
        \<or> edge_point ?p (?vC, ?vA) = Some q"
      by (simp add: snap_candidates_def f Some Let_def set_map_filter_id del: map_filter_simps)
         (metis (no_types))
    have "min_at_most ?d
        (foldl (check_edge ?p) (foldl (check_vertex ?p) (?p, None) [?vA, ?vB, ?vC])
           [(?vA, ?vB), (?vB, ?vC), (?vC, ?vA)])"
    proof (cases "Some q \<in> set [?vA, ?vB, ?vC]")
      case True
      have "distanceTo q ?p \<le> ?d" using q0 by simp
      with True have "\<exists>w. Some w \<in> set [?vA, ?vB, ?vC] \<and> distanceTo w ?p \<le> ?d" by blast
      then have "min_at_most ?d (foldl (check_vertex ?p) (?p, None) [?vA, ?vB, ?vC])"
        by (intro foldl_check_vertex_at_most disjI2)
      then show ?thesis by (intro foldl_check_edge_at_most disjI1)
    next
      case False
      with mem have "\<exists>e. e \<in> set [(?vA, ?vB), (?vB, ?vC), (?vC, ?vA)] \<and> edge_point ?p e = Some q"
        by simp blast
      then obtain e where e: "e \<in> set [(?vA, ?vB), (?vB, ?vC), (?vC, ?vA)]"
          "edge_point ?p e = Some q"
        by blast
      have "distanceTo q ?p \<le> 0.9 * ?d" by simp
      with e have "\<exists>e q'. e \<in> set [(?vA, ?vB), (?vB, ?vC), (?vC, ?vA)]
          \<and> edge_point ?p e = Some q' \<and> distanceTo q' ?p \<le> 0.9 * ?d"
        by blast
      then show ?thesis by (intro foldl_check_edge_at_most disjI2)
    qed
    then show ?thesis by (simp add: snap_search_def f Some Let_def del: foldl_Cons)
  qed
qed

lemma sqrt_eqI: "0 \<le> y \<Longrightarrow> y * y = x \<Longrightarrow> sqrt x = y"
  by (metis real_sqrt_abs2 abs_of_nonneg)

lemma sample_roots:
  "sqrt 25 = 5" "sqrt 16 = 4" "sqrt 9 = 3" "sqrt 5625 = 75" "sqrt 22500 = 150"
  "sqrt 90000 = 300"
  by (rule sqrt_eqI, simp, simp)+

lemma tri_hit_vertices:
  "getV tri_obj 0 = Some (Vector3 0 0 0)" "getV tri_obj (Suc 0) = Some (Vector3 100 0 0)"
  "getV tri_obj 2 = Some (Vector3 0 100 0)"
  by (simp_all add: getV_def tri_obj_def localToWorld_def identity4_def)

lemma tri_hit_edges:
  "edge_point (Vector3 3 4 0) (Some (Vector3 0 0 0), Some (Vector3 100 0 0))
     = Some (Vector3 3 0 0)"
  "edge_point (Vector3 3 4 0) (Some (Vector3 100 0 0), Some (Vector3 0 100 0))
     = Some (Vector3 (99 / 2) (101 / 2) 0)"
  "edge_point (Vector3 3 4 0) (Some (Vector3 0 100 0), Some (Vector3 0 0 0))
     = Some (Vector3 0 4 0)"
  by (simp_all add: edge_point_def closestPointToPoint_def clamp01_def)

lemma tri_hit_distances:
  "distanceTo (Vector3 0 0 0) (Vector3 3 4 0) = 5"
  "distanceTo (Vector3 100 0 0) (Vector3 3 4 0) = sqrt 9425"
  "distanceTo (Vector3 0 100 0) (Vector3 3 4 0) = sqrt 9225"
  "distanceTo (Vector3 3 0 0) (Vector3 3 4 0) = 4"
  "distanceTo (Vector3 (99 / 2) (101 / 2) 0) (Vector3 3 4 0) = sqrt (8649 / 2)"
  "distanceTo (Vector3 0 4 0) (Vector3 3 4 0) = 3"
  by (simp_all add: distanceTo_def distanceToSquared_def lengthSq_def sample_roots)

lemma tri_hit_roots:
  "(10::real) \<le> sqrt 9425" "(10::real) \<le> sqrt 9225" "(10::real) \<le> sqrt (8649 / 2)"
  by (rule real_le_rsqrt, simp)+

lemma tri_hit_candidates:
  "snap_candidates tri_hit =
     [Vector3 0 0 0, Vector3 100 0 0, Vector3 0 100 0, Vector3 3 0 0,
      Vector3 (99 / 2) (101 / 2) 0, Vector3 0 4 0]"
  by (simp add: snap_candidates_def tri_hit_def tri_hit_vertices tri_hit_edges Let_def)

lemma tri_hit_snap_vertices:
  "snap_vertices tri_hit = [Vector3 0 0 0, Vector3 100 0 0, Vector3 0 100 0]"
  by (simp add: snap_vertices_def tri_hit_def tri_hit_vertices)

lemma tri_hit_search: "snap_search tri_hit = (Vector3 0 4 0, Some 3)"
  using tri_hit_roots
  by (simp add: snap_search_def tri_hit_def tri_hit_vertices tri_hit_edges tri_hit_distances
      Let_def)

lemma tri_hit_thresholds:
  "distanceTo (cam_position cam_close) (Vector3 3 4 0) = 75"
  "distanceTo (cam_position cam_near) (Vector3 3 4 0) = 150"
  "distanceTo (cam_position cam_far) (Vector3 3 4 0) = 300"
  by (simp_all add: cam_close_def cam_near_def cam_far_def distanceTo_def distanceToSquared_def
      lengthSq_def sample_roots)

lemma tri_hit_far:
  "\<forall>q \<in> set (snap_candidates tri_hit). 3 \<le> distanceTo q (Vector3 3 4 0)"
  using tri_hit_roots by (simp add: tri_hit_candidates tri_hit_distances)

lemma tri_hit_snaps:
  "snapToFeature tri_hit cam_near = Vector3 3 4 0"
  "snapToFeature tri_hit cam_far = Vector3 0 4 0"
  by (simp_all add: snapToFeature_search tri_hit_search snap_threshold_def tri_hit_thresholds)
     (simp_all add: tri_hit_def tri_hit_thresholds)

lemma snap_result:
  "snapToFeature i cam = hit_point i
   \<or> (snapToFeature i cam \<in> set (snap_candidates i)
      \<and> distanceTo (snapToFeature i cam) (hit_point i) < snap_threshold cam (hit_point i))"
proof (cases "snap_search i")
  case (Pair cp md)
  show ?thesis
  proof (cases md)
    case None
    with Pair show ?thesis by (simp add: snapToFeature_search)
  next
    case (Some m)
    have "cp \<in> set (snap_candidates i) \<and> m = distanceTo cp (hit_point i)"
      using snap_search_winner [of i] Pair Some by (simp add: winner_of_def)
    with Pair Some show ?thesis by (simp add: snapToFeature_search)
  qed
qed

lemma snap_within:
  assumes "min_at_most d (snap_search i)" and "d < snap_threshold cam (hit_point i)"
  shows "snapToFeature i cam \<in> set (snap_candidates i)
     \<and> min_at_most d (snapToFeature i cam, Some (distanceTo (snapToFeature i cam) (hit_point i)))"
proof (cases "snap_search i")
  case (Pair cp md)
  from assms(1) Pair obtain m where m: "md = Some m" "m \<le> d"
    by (cases md) (simp_all add: min_at_most_def)
  have w: "cp \<in> set (snap_candidates i) \<and> m = distanceTo cp (hit_point i)"
    using snap_search_winner [of i] Pair m(1) by (simp add: winner_of_def)
  have "snapToFeature i cam = cp"
    using Pair m assms(2) by (simp add: snapToFeature_search)
  with w m(2) show ?thesis by (simp add: min_at_most_def)
qed

lemma snap_near_vertex:
  assumes "v \<in> set (snap_vertices i)"
    and "distanceTo v (hit_point i) < snap_threshold cam (hit_point i)"
  shows "snapToFeature i cam \<in> set (snap_candidates i)
     \<and> distanceTo (snapToFeature i cam) (hit_point i) \<le> distanceTo v (hit_point i)"
  using snap_within [OF snap_search_vertex [OF assms(1)] assms(2)]
  by (simp add: min_at_most_def)

lemma snap_near_candidate:
  assumes "q \<in> set (snap_candidates i)"
    and "distanceTo q (hit_point i) < 0.9 * snap_threshold cam (hit_point i)"
  shows "snapToFeature i cam \<in> set (snap_candidates i)
     \<and> 0.9 * distanceTo (snapToFeature i cam) (hit_point i) \<le> distanceTo q (hit_point i)"
proof -
  have "distanceTo q (hit_point i) / 0.9 < snap_threshold cam (hit_point i)"
    using assms(2) by simp
  from snap_within [OF snap_search_candidate [OF assms(1)] this]
  show ?thesis by (simp add: min_at_most_def)
qed

text \<open>
  C6. \<open>snapToFeature\<close> compares the distance of the feature it has settled on with
  exactly 2 percent of the distance from the camera to the hit point. When every
  candidate feature of the hit (a vertex of the hit triangle or the closest point on one
  of its edges) lies at or beyond that threshold, the raw hit point is returned; what is
  returned is always the raw hit point or a candidate feature nearer than the
  threshold; when a vertex of the hit triangle is nearer than the threshold, or any
  candidate is nearer than 0.9 times the threshold, a candidate feature is returned (one
  at most as far as that vertex, resp. at most 1/0.9 times as far as that candidate: an
  edge point replaces the best feature so far only when it is more than 10 percent
  nearer). For a camera twice as far from the hit point all this holds with twice the
  threshold. Exactly: the feature the two loops settle on and its distance do not depend
  on the camera, and that feature is returned when its distance is below the threshold,
  the raw hit point otherwise.
\<close>

theorem C6_snap_threshold:
  "snap_threshold cam p = 0.02 * distanceTo (cam_position cam) p
   \<and> (distanceTo (cam_position cam') p' = 2 * distanceTo (cam_position cam) p
        \<longrightarrow> snap_threshold cam' p' = 2 * snap_threshold cam p)
   \<and> ((\<forall>q \<in> set (snap_candidates i).
          snap_threshold cam (hit_point i) \<le> distanceTo q (hit_point i))
        \<longrightarrow> snapToFeature i cam = hit_point i)
   \<and> (snapToFeature i cam = hit_point i
        \<or> (snapToFeature i cam \<in> set (snap_candidates i)
           \<and> distanceTo (snapToFeature i cam) (hit_point i)
               < 0.02 * distanceTo (cam_position cam) (hit_point i)))
   \<and> (\<forall>v \<in> set (snap_vertices i).
         distanceTo v (hit_point i) < 0.02 * distanceTo (cam_position cam) (hit_point i)
         \<longrightarrow> snapToFeature i cam \<in> set (snap_candidates i)
             \<and> distanceTo (snapToFeature i cam) (hit_point i) \<le> distanceTo v (hit_point i))
   \<and> (\<forall>q \<in> set (snap_candidates i).
         distanceTo q (hit_point i) < 0.9 * (0.02 * distanceTo (cam_position cam) (hit_point i))
         \<longrightarrow> snapToFeature i cam \<in> set (snap_candidates i)
             \<and> 0.9 * distanceTo (snapToFeature i cam) (hit_point i) \<le> distanceTo q (hit_point i))
   \<and> (distanceTo (cam_position cam') (hit_point i) = 2 * distanceTo (cam_position cam) (hit_point i)
        \<longrightarrow> ((\<forall>q \<in> set (snap_candidates i).
                 2 * (0.02 * distanceTo (cam_position cam) (hit_point i)) \<le> distanceTo q (hit_point i))
              \<longrightarrow> snapToFeature i cam' = hit_point i)
            \<and> (\<forall>v \<in> set (snap_vertices i).
                 distanceTo v (hit_point i) < 2 * (0.02 * distanceTo (cam_position cam) (hit_point i))
                 \<longrightarrow> snapToFeature i cam' \<in> set (snap_candidates i)
                     \<and> distanceTo (snapToFeature i cam') (hit_point i)
                         \<le> distanceTo v (hit_point i)))
   \<and> snapToFeature i cam =
       (case snap_search i of
          (winner, minMsgDist) \<Rightarrow>
            (case minMsgDist of
               Some m \<Rightarrow> if m < 0.02 * distanceTo (cam_position cam) (hit_point i) then winner
                         else hit_point i
             | None \<Rightarrow> hit_point i))
   \<and> (\<forall>m. snd (snap_search i) = Some m \<longrightarrow>
          fst (snap_search i) \<in> set (snap_candidates i)
          \<and> m = distanceTo (fst (snap_search i)) (hit_point i))"
proof (intro conjI impI ballI allI)
  show "snap_threshold cam p = 0.02 * distanceTo (cam_position cam) p"
    by (simp add: snap_threshold_def)
next
  assume "distanceTo (cam_position cam') p' = 2 * distanceTo (cam_position cam) p"
  then show "snap_threshold cam' p' = 2 * snap_threshold cam p"
    by (simp add: snap_threshold_def)
next
  assume "\<forall>q \<in> set (snap_candidates i).
            snap_threshold cam (hit_point i) \<le> distanceTo q (hit_point i)"
  then show "snapToFeature i cam = hit_point i" by (rule snap_far_is_raw)
next
  show "snapToFeature i cam = hit_point i
        \<or> (snapToFeature i cam \<in> set (snap_candidates i)
           \<and> distanceTo (snapToFeature i cam) (hit_point i)
               < 0.02 * distanceTo (cam_position cam) (hit_point i))"
    using snap_result [of i cam] by (simp add: snap_threshold_def)
next
  fix v
  assume v: "v \<in> set (snap_vertices i)"
    "distanceTo v (hit_point i) < 0.02 * distanceTo (cam_position cam) (hit_point i)"
  from snap_near_vertex [OF v(1), of cam] v(2)
  show "snapToFeature i cam \<in> set (snap_candidates i)"
    "distanceTo (snapToFeature i cam) (hit_point i) \<le> distanceTo v (hit_point i)"
    by (simp_all add: snap_threshold_def)
next
  fix q
  assume q: "q \<in> set (snap_candidates i)"
    "distanceTo q (hit_point i) < 0.9 * (0.02 * distanceTo (cam_position cam) (hit_point i))"
  from snap_near_candidate [OF q(1), of cam] q(2)
  show "snapToFeature i cam \<in> set (snap_candidates i)"
    "0.9 * distanceTo (snapToFeature i cam) (hit_point i) \<le> distanceTo q (hit_point i)"
    by (simp_all add: snap_threshold_def)
next
  assume d: "distanceTo (cam_position cam') (hit_point i)
             = 2 * distanceTo (cam_position cam) (hit_point i)"
    and far: "\<forall>q \<in> set (snap_candidates i).
                2 * (0.02 * distanceTo (cam_position cam) (hit_point i)) \<le> distanceTo q (hit_point i)"
  have "\<forall>q \<in> set (snap_candidates i).
          snap_threshold cam' (hit_point i) \<le> distanceTo q (hit_point i)"
    using far by (simp add: snap_threshold_def d)
  then show "snapToFeature i cam' = hit_point i" by (rule snap_far_is_raw)
next
  fix v
  assume d: "distanceTo (cam_position cam') (hit_point i)
             = 2 * distanceTo (cam_position cam) (hit_point i)"
    and v: "v \<in> set (snap_vertices i)"
      "distanceTo v (hit_point i) < 2 * (0.02 * distanceTo (cam_position cam) (hit_point i))"
  from snap_near_vertex [OF v(1), of cam'] v(2)
  show "snapToFeature i cam' \<in> set (snap_candidates i)"
    "distanceTo (snapToFeature i cam') (hit_point i) \<le> distanceTo v (hit_point i)"
    by (simp_all add: snap_threshold_def d)
next
  show "snapToFeature i cam =
       (case snap_search i of
          (winner, minMsgDist) \<Rightarrow>
            (case minMsgDist of
               Some m \<Rightarrow> if m < 0.02 * distanceTo (cam_position cam) (hit_point i) then winner
                         else hit_point i
             | None \<Rightarrow> hit_point i))"
  proof -
    have "snap_threshold cam (hit_point i) = 0.02 * distanceTo (cam_position cam) (hit_point i)"
      by (simp add: snap_threshold_def)
    then show ?thesis by (simp only: snapToFeature_search [of i cam])
  qed
next
  fix m
  assume "snd (snap_search i) = Some m"
  then show "fst (snap_search i) \<in> set (snap_candidates i)"
    "m = distanceTo (fst (snap_search i)) (hit_point i)"
    using snap_search_winner [of i] by (simp_all add: winner_of_def)
qed

theorem C6_snap_threshold_witness:
  "distanceTo (cam_position cam_near) (hit_point tri_hit)
     = 2 * distanceTo (cam_position cam_close) (hit_point tri_hit)
   \<and> distanceTo (cam_position cam_far) (hit_point tri_hit)
     = 2 * distanceTo (cam_position cam_near) (hit_point tri_hit)
   \<and> snap_threshold cam_near (hit_point tri_hit) = 3
   \<and> snap_threshold cam_far (hit_point tri_hit) = 2 * snap_threshold cam_near (hit_point tri_hit)
   \<and> snapToFeature tri_hit cam_near = hit_point tri_hit
   \<and> snapToFeature tri_hit cam_far \<in> set (snap_candidates tri_hit)
   \<and> distanceTo (snapToFeature tri_hit cam_far) (hit_point tri_hit) \<le> 5
   \<and> snapToFeature tri_hit cam_far = Vector3 0 4 0
   \<and> distanceTo (Vector3 0 4 0) (hit_point tri_hit) = 3
   \<and> snap_search tri_hit = (Vector3 0 4 0, Some 3)"
proof -
  have p: "hit_point tri_hit = Vector3 3 4 0" by (simp add: tri_hit_def)
  have d: "distanceTo (cam_position cam_near) (hit_point tri_hit)
             = 2 * distanceTo (cam_position cam_close) (hit_point tri_hit)"
    "distanceTo (cam_position cam_far) (hit_point tri_hit)
             = 2 * distanceTo (cam_position cam_near) (hit_point tri_hit)"
    by (simp_all add: p tri_hit_thresholds)
  have t: "snap_threshold cam_near (hit_point tri_hit) = 3"
    by (simp add: snap_threshold_def p tri_hit_thresholds)
  have far: "\<forall>q \<in> set (snap_candidates tri_hit).
      snap_threshold cam_near (hit_point tri_hit) \<le> distanceTo q (hit_point tri_hit)"
    using tri_hit_far t by (simp add: p)
  have far2: "\<forall>q \<in> set (snap_candidates tri_hit).
      2 * (0.02 * distanceTo (cam_position cam_close) (hit_point tri_hit))
        \<le> distanceTo q (hit_point tri_hit)"
    using tri_hit_far by (simp add: p tri_hit_thresholds)
  have v: "Vector3 0 0 0 \<in> set (snap_vertices tri_hit)"
    "distanceTo (Vector3 0 0 0) (hit_point tri_hit)
       < 0.02 * distanceTo (cam_position cam_far) (hit_point tri_hit)"
    "distanceTo (Vector3 0 0 0) (hit_point tri_hit)
       < 2 * (0.02 * distanceTo (cam_position cam_near) (hit_point tri_hit))"
    by (simp_all add: tri_hit_snap_vertices p tri_hit_thresholds tri_hit_distances)
  have c: "Vector3 0 4 0 \<in> set (snap_candidates tri_hit)"
    "distanceTo (Vector3 0 4 0) (hit_point tri_hit)
       < 0.9 * (0.02 * distanceTo (cam_position cam_far) (hit_point tri_hit))"
    by (simp_all add: tri_hit_candidates p tri_hit_thresholds tri_hit_distances)
  note near = C6_snap_threshold [of cam_near "hit_point tri_hit" cam_far "hit_point tri_hit" tri_hit]
  note close = C6_snap_threshold [of cam_close "hit_point tri_hit" cam_near "hit_point tri_hit" tri_hit]
  note far_inst = C6_snap_threshold [of cam_far "hit_point tri_hit" cam_far "hit_point tri_hit" tri_hit]
  have raw: "snapToFeature tri_hit cam_near = hit_point tri_hit"
    using near far by blast
  have raw2: "snapToFeature tri_hit cam_near = hit_point tri_hit"
    using close d(1) far2 by blast
  have t2: "snap_threshold cam_far (hit_point tri_hit) = 2 * snap_threshold cam_near (hit_point tri_hit)"
    using near d(2) by blast
  have s1: "snapToFeature tri_hit cam_far \<in> set (snap_candidates tri_hit)
      \<and> distanceTo (snapToFeature tri_hit cam_far) (hit_point tri_hit)
          \<le> distanceTo (Vector3 0 0 0) (hit_point tri_hit)"
    using far_inst v(1,2) by blast
  have s2: "snapToFeature tri_hit cam_far \<in> set (snap_candidates tri_hit)
      \<and> distanceTo (snapToFeature tri_hit cam_far) (hit_point tri_hit)
          \<le> distanceTo (Vector3 0 0 0) (hit_point tri_hit)"
    using near d(2) v(1,3) by blast
  have s3: "0.9 * distanceTo (snapToFeature tri_hit cam_far) (hit_point tri_hit)
          \<le> distanceTo (Vector3 0 4 0) (hit_point tri_hit)"
    using far_inst c by blast
  have five: "distanceTo (Vector3 0 0 0) (hit_point tri_hit) = 5"
    "distanceTo (Vector3 0 4 0) (hit_point tri_hit) = 3"
    by (simp_all add: p tri_hit_distances)
  have won: "fst (snap_search tri_hit) \<in> set (snap_candidates tri_hit)
      \<and> 3 = distanceTo (fst (snap_search tri_hit)) (hit_point tri_hit)"
    using far_inst tri_hit_search by simp
  show ?thesis
    using d t t2 raw s1 five tri_hit_snaps(2) tri_hit_search by simp
qed

section \<open>Properties of the measurement labels\<close>



















section \<open>Properties of the set-up effect\<close>

lemma fix_material_fields:
  "opacity (fix_material g m) = 0.9"
  "side (fix_material g m) = DoubleSide"
  "transparent (fix_material g m) = True"
  "depthWrite (fix_material g m) = True"
  "depthTest (fix_material g m) = True"
  "metalness (fix_material g m) = map_option (\<lambda>v. if v > 0.9 then 0.6 else v) (metalness m)"
  "roughness (fix_material g m) = map_option (\<lambda>v. if v < 0.1 then 0.3 else v) (roughness m)"
  by (simp_all add: fix_material_def Let_def needsUpdate_def split: option.splits)

lemma clone_fields:
  "metalness (clone m) = metalness m" "roughness (clone m) = roughness m" "color (clone m) = color m"
  by (simp_all add: clone_def)

lemma snd_setup_child: "snd (setup_child d refs child) = setup_node child"
  by (simp add: setup_child_def setup_node_def Let_def split: option.splits)

lemma snd_setup_traverse: "snd (setup_traverse d refs scene) = map setup_node scene"
proof (induction scene arbitrary: refs)
  case Nil
  show ?case by simp
next
  case (Cons child rest)
  show ?case
    using Cons.IH snd_setup_child [of d refs child]
    by (simp add: split_beta Let_def)
qed

lemma snd_setup_scene: "snd (setup_scene d diag refs scene) = map setup_node scene"
  by (simp add: setup_scene_def split_beta Let_def snd_setup_traverse)

lemma setup_node_material:
  "material (setup_node child) =
     (if isMesh child
      then map_option (\<lambda>m. fix_material (has_color_attribute child) (clone m)) (material child)
      else material child)"
  by (simp add: setup_node_def setup_child_def Let_def split: option.splits)

lemma setup_node_isMesh: "isMesh (setup_node child) = isMesh child"
  by (simp add: setup_node_def setup_child_def Let_def split: option.splits)

lemma setup_node_uuid: "uuid (setup_node child) = uuid child"
  by (simp add: setup_node_def setup_child_def Let_def split: option.splits)

text \<open>
  C2 (as the set-up effect implements it). After set-up every mesh that has a material
  carries a material with opacity 0.9 and double-sided rendering; a numeric metalness
  above 0.9 has become 0.6 and any other is kept, so it is at most 0.9; a numeric
  roughness below 0.1 has become 0.3 and any other is kept, so it is at least 0.1.
\<close>

theorem C2_normalized_materials:
  assumes "setup_scene explosion_dir diagonal refs scene = (refs', scene')"
    and "i < length scene" and "isMesh (scene ! i)" and "material (scene ! i) = Some m0"
  shows "\<exists>m. material (scene' ! i) = Some m
           \<and> opacity m = 0.9 \<and> side m = DoubleSide
           \<and> metalness m = map_option (\<lambda>v. if v > 0.9 then 0.6 else v) (metalness m0)
           \<and> roughness m = map_option (\<lambda>v. if v < 0.1 then 0.3 else v) (roughness m0)
           \<and> (\<forall>v. metalness m = Some v \<longrightarrow> v \<le> 0.9)
           \<and> (\<forall>v. roughness m = Some v \<longrightarrow> 0.1 \<le> v)"
proof -
  have "scene' = map setup_node scene"
    using assms(1) snd_setup_scene [of explosion_dir diagonal refs scene] by simp
  then have "material (scene' ! i) = Some (fix_material (has_color_attribute (scene ! i)) (clone m0))"
    using assms(2,3,4) by (simp add: setup_node_material)
  then show ?thesis
    by (auto simp: fix_material_fields clone_fields split: if_splits)
qed

lemma bolt_setup:
  "bolt_scene =
     [bolt\<lparr>castShadow := False, receiveShadow := False,
            material := Some (steel\<lparr>side := DoubleSide, transparent := True, opacity := 0.9,
               envMapIntensity := Some 1.2, color := Some (setHex 0xc0c0c0), version := 1\<rparr>)\<rparr>]"
  by (simp add: bolt_scene_def snd_setup_scene setup_node_def setup_child_def bolt_def steel_def fix_material_def
      clone_def needsUpdate_def near_white_def Let_def fresh_refs_def)


lemma bolt_refs_eq:
  "bolt_refs = \<lparr>originalMaterials = [''a1'' \<mapsto> steel],
                originalPositions = [''a1'' \<mapsto> Vector3 1 2 3],
                explosionVectors = [''a1'' \<mapsto> Vector3 0 1 0],
                isInitialized = True, modelSize = 10\<rparr>"
  by (simp add: bolt_refs_def setup_scene_def setup_child_def bolt_def steel_def clone_def
      up_dir_def Let_def fresh_refs_def)

theorem C2_normalized_materials_witness:
  "setup_scene up_dir 10 fresh_refs [bolt] = (bolt_refs, bolt_scene)
   \<and> (0::nat) < length [bolt] \<and> isMesh ([bolt] ! 0) \<and> material ([bolt] ! 0) = Some steel
   \<and> (\<exists>m. material (bolt_scene ! 0) = Some m \<and> opacity m = 0.9 \<and> side m = DoubleSide
          \<and> metalness m = Some 0.8 \<and> roughness m = Some 0.2)"
proof -
  have s: "setup_scene up_dir 10 fresh_refs [bolt] = (bolt_refs, bolt_scene)"
    by (simp add: bolt_refs_def bolt_scene_def)
  have b: "isMesh ([bolt] ! 0)" "material ([bolt] ! 0) = Some steel"
    "metalness steel = Some 0.8" "roughness steel = Some 0.2"
    by (simp_all add: bolt_def steel_def)
  from C2_normalized_materials [OF s, of 0 steel] b s show ?thesis by auto
qed

text \<open>
  C2 as the specification words it fails: a material loaded with metalness 0.8 and
  roughness 0.2 keeps both values, above 0.6 and below 0.3.
\<close>

theorem C2_metalness_counterexample:
  "map_option metalness (material (bolt_scene ! 0)) = Some (Some 0.8) \<and> \<not> (0.8 \<le> (0.6::real))
   \<and> map_option roughness (material (bolt_scene ! 0)) = Some (Some 0.2) \<and> \<not> ((0.3::real) \<le> 0.2)"
  by (simp add: bolt_setup bolt_def steel_def)

section \<open>Properties of explode mode\<close>

lemma explode_target_off: "explode_target False refs originalPos direction = originalPos"
  by (cases originalPos; cases direction) (simp add: explode_target_def expandDist_def Let_def)

lemma lerp_step: "sub3 (lerp p t 0.1) p = multiplyScalar (sub3 t p) 0.1"
  by (cases p; cases t) (simp add: field_simps)

lemma lerp_remaining: "sub3 (lerp p t 0.1) t = multiplyScalar (sub3 p t) 0.9"
  by (cases p; cases t) (simp add: field_simps)

lemma lengthSq_scale: "lengthSq (multiplyScalar v k) = k\<^sup>2 * lengthSq v"
  by (cases v) (simp add: lengthSq_def power2_eq_square algebra_simps)

lemma lerp_distance: "distanceTo (lerp p t 0.1) t = 0.9 * distanceTo p t"
proof -
  have "distanceTo (lerp p t 0.1) t = sqrt ((0.9)\<^sup>2 * lengthSq (sub3 p t))"
    by (simp add: distanceTo_def distanceToSquared_def lerp_remaining lengthSq_scale)
  also have "\<dots> = 0.9 * distanceTo p t"
    by (simp add: real_sqrt_mult distanceTo_def distanceToSquared_def)
  finally show ?thesis .
qed

lemma distanceTo_nonneg: "0 \<le> distanceTo p q"
  by (cases p; cases q) (simp add: distanceTo_def distanceToSquared_def lengthSq_def)

lemma explode_child_keeps:
  "uuid (explode_child e refs child) = uuid child"
  "isMesh (explode_child e refs child) = isMesh child"
  by (simp_all add: explode_child_def split: option.splits)

lemma explode_child_off:
  assumes "isMesh child" "originalPositions refs (uuid child) = Some base"
    "explosionVectors refs (uuid child) = Some d"
  shows "distanceTo (position (explode_child False refs child)) base = 0.9 * distanceTo (position child) base"
  using assms by (simp add: explode_child_def explode_target_off lerp_distance)

lemma explode_frames_Suc:
  "explode_frames (Suc n) e refs scene = explode_frame e refs (explode_frames n e refs scene)"
  by (simp add: explode_frames_def)

lemma explode_frames_length: "length (explode_frames n e refs scene) = length scene"
  by (induction n) (simp_all add: explode_frames_def explode_frame_def)

lemma explode_frames_keeps:
  assumes "i < length scene"
  shows "uuid (explode_frames n e refs scene ! i) = uuid (scene ! i)
       \<and> isMesh (explode_frames n e refs scene ! i) = isMesh (scene ! i)"
proof (induction n)
  case 0
  show ?case by (simp add: explode_frames_def)
next
  case (Suc n)
  have "i < length (explode_frames n e refs scene)"
    using assms by (simp add: explode_frames_length)
  then show ?case
    using Suc by (simp add: explode_frames_Suc explode_frame_def explode_child_keeps)
qed

lemma explode_frames_off_distance:
  assumes "isInitialized refs" "i < length scene" "isMesh (scene ! i)"
    "originalPositions refs (uuid (scene ! i)) = Some base"
    "explosionVectors refs (uuid (scene ! i)) = Some d"
  shows "distanceTo (position (explode_frames n False refs scene ! i)) base
         = 0.9 ^ n * distanceTo (position (scene ! i)) base"
proof (induction n)
  case 0
  show ?case by (simp add: explode_frames_def)
next
  case (Suc n)
  let ?prev = "explode_frames n False refs scene"
  have len: "i < length ?prev" using assms(2) by (simp add: explode_frames_length)
  have keep: "uuid (?prev ! i) = uuid (scene ! i)" "isMesh (?prev ! i)"
    using explode_frames_keeps [OF assms(2), of n False refs] assms(3) by simp_all
  have "distanceTo (position (explode_child False refs (?prev ! i))) base
        = 0.9 * distanceTo (position (?prev ! i)) base"
    by (rule explode_child_off [where d = d]) (simp_all add: keep assms)
  then show ?case
    using len Suc assms(1) by (simp add: explode_frames_Suc explode_frame_def)
qed

lemma baseline_gap_le_sum:
  assumes "i < length scene"
  shows "baseline_gap refs (scene ! i) \<le> sum_list (map (baseline_gap refs) scene)"
proof -
  have nonneg: "\<And>c. 0 \<le> baseline_gap refs c"
    by (simp add: baseline_gap_def distanceTo_nonneg split: option.splits)
  have "scene ! i \<in> set scene" using assms by simp
  then show ?thesis
    using nonneg by (intro member_le_sum_list) auto
qed

lemma power_small:
  fixes D eps :: real
  assumes "0 < eps" "0 \<le> D"
  shows "\<exists>N. \<forall>n\<ge>N. 0.9 ^ n * D < eps"
proof -
  have "0 < eps / (D + 1)" using assms by simp
  then obtain N where N: "(0.9::real) ^ N < eps / (D + 1)"
    using real_arch_pow_inv [of "eps / (D + 1)" "0.9"] by auto
  have "\<forall>n\<ge>N. 0.9 ^ n * D < eps"
  proof (intro allI impI)
    fix n assume "N \<le> n"
    then have "(0.9::real) ^ n \<le> 0.9 ^ N" by (intro power_decreasing) simp_all
    then have "(0.9::real) ^ n < eps / (D + 1)" using N by linarith
    then have "0.9 ^ n * (D + 1) < eps" using assms by (simp add: pos_less_divide_eq)
    moreover have "0.9 ^ n * D \<le> 0.9 ^ n * (D + 1)" by (simp add: mult_left_mono)
    ultimately show "0.9 ^ n * D < eps" by linarith
  qed
  then show ?thesis by blast
qed

lemma explode_off_converges:
  assumes init: "isInitialized refs" and eps: "0 < eps"
  shows "\<exists>N. \<forall>n\<ge>N. \<forall>i<length scene. \<forall>base d.
           isMesh (scene ! i) \<and> originalPositions refs (uuid (scene ! i)) = Some base
           \<and> explosionVectors refs (uuid (scene ! i)) = Some d
           \<longrightarrow> distanceTo (position (explode_frames n False refs scene ! i)) base < eps"
proof -
  let ?D = "sum_list (map (baseline_gap refs) scene)"
  have D0: "0 \<le> ?D"
    by (intro sum_list_nonneg) (auto simp: baseline_gap_def distanceTo_nonneg split: option.splits)
  obtain N where N: "\<forall>n\<ge>N. 0.9 ^ n * ?D < eps"
    using power_small [OF eps D0] by blast
  have "\<forall>n\<ge>N. \<forall>i<length scene. \<forall>base d.
           isMesh (scene ! i) \<and> originalPositions refs (uuid (scene ! i)) = Some base
           \<and> explosionVectors refs (uuid (scene ! i)) = Some d
           \<longrightarrow> distanceTo (position (explode_frames n False refs scene ! i)) base < eps"
  proof (intro allI impI)
    fix n i base d
    assume n: "N \<le> n" and i: "i < length scene"
      and h: "isMesh (scene ! i) \<and> originalPositions refs (uuid (scene ! i)) = Some base
              \<and> explosionVectors refs (uuid (scene ! i)) = Some d"
    have "distanceTo (position (explode_frames n False refs scene ! i)) base
          = 0.9 ^ n * distanceTo (position (scene ! i)) base"
      using explode_frames_off_distance [OF init i, of base d n] h by simp
    also have "distanceTo (position (scene ! i)) base = baseline_gap refs (scene ! i)"
      using h by (simp add: baseline_gap_def)
    also have "0.9 ^ n * baseline_gap refs (scene ! i) \<le> 0.9 ^ n * ?D"
      using baseline_gap_le_sum [OF i, of refs] by (simp add: mult_left_mono)
    also have "\<dots> < eps" using N n by blast
    finally show "distanceTo (position (explode_frames n False refs scene ! i)) base < eps" .
  qed
  then show ?thesis by blast
qed


text \<open>
  C5. With the flag off the interpolation target of a mesh is exactly its stored
  original position; a frame moves the position by 10 percent of the remaining offset,
  so the distance to the original position shrinks by the factor 0.9 per frame; hence,
  after any number of exploded frames, enough frames with the flag off bring every mesh
  within any positive \<open>eps\<close> of its original position, and keep it there.
\<close>

theorem C5_explode_off_returns:
  assumes "isInitialized refs" and "0 < eps"
  shows "explode_target False refs base direction = base
     \<and> (isMesh child \<and> originalPositions refs (uuid child) = Some base
          \<and> explosionVectors refs (uuid child) = Some direction
        \<longrightarrow> position (explode_child False refs child) = lerp (position child) base 0.1)
     \<and> sub3 (lerp p base 0.1) p = multiplyScalar (sub3 base p) 0.1
     \<and> distanceTo (lerp p base 0.1) base = 0.9 * distanceTo p base
     \<and> (\<exists>N. \<forall>n\<ge>N. \<forall>i<length scene. \<forall>b d.
           isMesh (scene ! i) \<and> originalPositions refs (uuid (scene ! i)) = Some b
           \<and> explosionVectors refs (uuid (scene ! i)) = Some d
           \<longrightarrow> distanceTo
                 (position (explode_frames n False refs (explode_frames k True refs scene) ! i)) b
               < eps)"
proof -
  let ?exploded = "explode_frames k True refs scene"
  have len: "length ?exploded = length scene" by (rule explode_frames_length)
  have keep: "uuid (?exploded ! i) = uuid (scene ! i) \<and> isMesh (?exploded ! i) = isMesh (scene ! i)"
    if "i < length scene" for i
    using that by (rule explode_frames_keeps)
  obtain N where N: "\<forall>n\<ge>N. \<forall>i<length ?exploded. \<forall>b d.
           isMesh (?exploded ! i) \<and> originalPositions refs (uuid (?exploded ! i)) = Some b
           \<and> explosionVectors refs (uuid (?exploded ! i)) = Some d
           \<longrightarrow> distanceTo (position (explode_frames n False refs ?exploded ! i)) b < eps"
    using explode_off_converges [OF assms, of ?exploded] by blast
  have "\<forall>n\<ge>N. \<forall>i<length scene. \<forall>b d.
           isMesh (scene ! i) \<and> originalPositions refs (uuid (scene ! i)) = Some b
           \<and> explosionVectors refs (uuid (scene ! i)) = Some d
           \<longrightarrow> distanceTo (position (explode_frames n False refs ?exploded ! i)) b < eps"
    using N keep len by simp
  moreover have "isMesh child \<and> originalPositions refs (uuid child) = Some base
          \<and> explosionVectors refs (uuid child) = Some direction
        \<longrightarrow> position (explode_child False refs child) = lerp (position child) base 0.1"
    by (simp add: explode_child_def explode_target_off)
  ultimately show ?thesis
    using explode_target_off lerp_step lerp_distance by blast
qed

theorem C5_explode_off_returns_witness:
  "isInitialized bolt_refs \<and> (0::real) < 1
   \<and> position (explode_frames 1 True bolt_refs bolt_scene ! 0) = Vector3 1 (5 / 2) 3
   \<and> position (explode_frames 1 False bolt_refs (explode_frames 1 True bolt_refs bolt_scene) ! 0)
       = Vector3 1 (49 / 20) 3
   \<and> (\<exists>N. \<forall>n\<ge>N.
         distanceTo
           (position (explode_frames n False bolt_refs (explode_frames 1 True bolt_refs bolt_scene) ! 0))
           (Vector3 1 2 3) < 1)"
proof -
  have i: "isInitialized bolt_refs" by (simp add: bolt_refs_eq)
  have m: "isMesh (bolt_scene ! 0)" "uuid (bolt_scene ! 0) = ''a1''" "(0::nat) < length bolt_scene"
    by (simp_all add: bolt_setup bolt_def)
  have r: "originalPositions bolt_refs ''a1'' = Some (Vector3 1 2 3)"
    "explosionVectors bolt_refs ''a1'' = Some (Vector3 0 1 0)"
    by (simp_all add: bolt_refs_eq)
  have e1: "position (explode_frames 1 True bolt_refs bolt_scene ! 0) = Vector3 1 (5 / 2) 3"
    by (simp add: explode_frames_def explode_frame_def explode_child_def explode_target_def
        expandDist_def bolt_refs_eq bolt_setup bolt_def)
  have e2: "position (explode_frames 1 False bolt_refs (explode_frames 1 True bolt_refs bolt_scene) ! 0)
       = Vector3 1 (49 / 20) 3"
    by (simp add: explode_frames_def explode_frame_def explode_child_def explode_target_def
        expandDist_def bolt_refs_eq bolt_setup bolt_def)
  have pos: "(0::real) < 1" by simp
  note conv = C5_explode_off_returns [OF i pos, where scene = bolt_scene and k = 1,
      THEN conjunct2, THEN conjunct2, THEN conjunct2, THEN conjunct2]
  then obtain N where "\<forall>n\<ge>N. \<forall>i<length bolt_scene. \<forall>b d.
           isMesh (bolt_scene ! i) \<and> originalPositions bolt_refs (uuid (bolt_scene ! i)) = Some b
           \<and> explosionVectors bolt_refs (uuid (bolt_scene ! i)) = Some d
           \<longrightarrow> distanceTo
                 (position (explode_frames n False bolt_refs
                    (explode_frames 1 True bolt_refs bolt_scene) ! i)) b < 1"
    by blast
  then have "\<forall>n\<ge>N. distanceTo
           (position (explode_frames n False bolt_refs (explode_frames 1 True bolt_refs bolt_scene) ! 0))
           (Vector3 1 2 3) < 1"
    using m r by simp
  then have "\<exists>N. \<forall>n\<ge>N. distanceTo
           (position (explode_frames n False bolt_refs (explode_frames 1 True bolt_refs bolt_scene) ! 0))
           (Vector3 1 2 3) < 1" ..
  then show ?thesis using i e1 e2 pos by simp
qed


section \<open>Properties of colour mode\<close>

lemma setup_child_originalMaterials:
  "originalMaterials (fst (setup_child d refs child)) =
     (if isMesh child \<and> originalMaterials refs (uuid child) = None
      then (case material child of
              Some m \<Rightarrow> (originalMaterials refs)(uuid child \<mapsto> clone m)
            | None \<Rightarrow> originalMaterials refs)
      else originalMaterials refs)"
  by (cases "isMesh child"; cases "material child"; cases "originalPositions refs (uuid child)";
      cases "explosionVectors refs (uuid child)"; cases "originalMaterials refs (uuid child)")
     (simp_all add: setup_child_def Let_def)

lemma setup_child_keeps_entry:
  "originalMaterials refs u = Some m \<Longrightarrow> originalMaterials (fst (setup_child d refs child)) u = Some m"
  by (auto simp: setup_child_originalMaterials split: option.splits)

lemma setup_traverse_keeps_entry:
  "originalMaterials refs u = Some m \<Longrightarrow> originalMaterials (fst (setup_traverse d refs scene)) u = Some m"
proof (induction scene arbitrary: refs)
  case Nil
  then show ?case by simp
next
  case (Cons child rest)
  have "originalMaterials (fst (setup_child d refs child)) u = Some m"
    using Cons.prems by (rule setup_child_keeps_entry)
  then have "originalMaterials (fst (setup_traverse d (fst (setup_child d refs child)) rest)) u = Some m"
    by (rule Cons.IH)
  then show ?case by (simp add: split_beta Let_def)
qed

lemma setup_traverse_captures:
  assumes "distinct (map uuid scene)" "i < length scene" "isMesh (scene ! i)"
    "material (scene ! i) = Some m0" "originalMaterials refs (uuid (scene ! i)) = None"
  shows "originalMaterials (fst (setup_traverse d refs scene)) (uuid (scene ! i)) = Some (clone m0)"
  using assms
proof (induction scene arbitrary: refs i)
  case Nil
  then show ?case by simp
next
  case (Cons child rest)
  let ?refs1 = "fst (setup_child d refs child)"
  show ?case
  proof (cases i)
    case 0
    then have "originalMaterials ?refs1 (uuid child) = Some (clone m0)"
      using Cons.prems by (simp add: setup_child_originalMaterials)
    then have "originalMaterials (fst (setup_traverse d ?refs1 rest)) (uuid child) = Some (clone m0)"
      by (rule setup_traverse_keeps_entry)
    then show ?thesis using 0 by (simp add: split_beta Let_def)
  next
    case (Suc j)
    have j: "j < length rest" "isMesh (rest ! j)" "material (rest ! j) = Some m0"
      using Cons.prems Suc by simp_all
    have ne: "uuid child \<noteq> uuid (rest ! j)"
      using Cons.prems(1) j(1) by auto
    have "originalMaterials ?refs1 (uuid (rest ! j)) = None"
      using Cons.prems(5) Suc ne by (simp add: setup_child_originalMaterials split: option.splits)
    then have "originalMaterials (fst (setup_traverse d ?refs1 rest)) (uuid (rest ! j)) = Some (clone m0)"
      using Cons.IH [of j ?refs1] Cons.prems(1) j by simp
    then show ?thesis using Suc by (simp add: split_beta Let_def)
  qed
qed

lemma setup_scene_captures:
  assumes "setup_scene d diag fresh_refs scene0 = (refs, scene)"
    "distinct (map uuid scene0)" "i < length scene0" "isMesh (scene0 ! i)"
    "material (scene0 ! i) = Some m0"
  shows "originalMaterials refs (uuid (scene0 ! i)) = Some (clone m0)" "isInitialized refs"
proof -
  have refs: "refs = (fst (setup_traverse d (fresh_refs\<lparr>modelSize := diag\<rparr>) scene0))\<lparr>isInitialized := True\<rparr>"
    using assms(1) by (simp add: setup_scene_def split_beta Let_def)
  have "originalMaterials (fst (setup_traverse d (fresh_refs\<lparr>modelSize := diag\<rparr>) scene0)) (uuid (scene0 ! i))
        = Some (clone m0)"
    using assms(2-5) by (intro setup_traverse_captures) (simp_all add: fresh_refs_def)
  then show "originalMaterials refs (uuid (scene0 ! i)) = Some (clone m0)" by (simp add: refs)
  show "isInitialized refs" by (simp add: refs)
qed

lemma color_traverse_nth:
  assumes "color_traverse cm refs randoms k scene = Inr result"
  shows "length result = length scene
       \<and> (\<forall>i<length scene. color_child cm refs (randoms (k + i)) (scene ! i) = Inr (result ! i))"
  using assms
proof (induction scene arbitrary: k result)
  case Nil
  then show ?case by simp
next
  case (Cons child rest)
  from Cons.prems obtain child' rest' where
    c: "color_child cm refs (randoms k) child = Inr child'" and
    r: "color_traverse cm refs randoms (Suc k) rest = Inr rest'" and
    res: "result = child' # rest'"
    by (auto split: sum.splits)
  have ih: "length rest' = length rest
       \<and> (\<forall>i<length rest. color_child cm refs (randoms (Suc k + i)) (rest ! i) = Inr (rest' ! i))"
    using Cons.IH [OF r] .
  show ?case
  proof (intro conjI allI impI)
    show "length result = length (child # rest)" using ih res by simp
  next
    fix i assume "i < length (child # rest)"
    then show "color_child cm refs (randoms (k + i)) ((child # rest) ! i) = Inr (result ! i)"
      using c ih res by (cases i) simp_all
  qed
qed

lemma color_child_not_mesh: "\<not> isMesh child \<Longrightarrow> color_child cm refs rs child = Inr child"
  by (simp add: color_child_def)

lemma color_child_tint:
  assumes "isMesh child" "color_child True refs rs child = Inr child'"
  shows "\<exists>m c0. material child = Some m \<and> color m = Some c0
           \<and> child' = child\<lparr>material :=
                 Some (m\<lparr>color := Some (getHashColor (uniqueId rs child)),
                         version := Suc (version m)\<rparr>)\<rparr>"
  using assms
  by (auto simp: color_child_def copy_color_def mark_updated_def needsUpdate_def
      split: option.splits sum.splits)

lemma color_child_restore:
  assumes "isMesh child" "color_child False refs rs child = Inr child'"
    "originalMaterials refs (uuid child) = Some orig" "color orig = Some c"
  shows "\<exists>m. material child = Some m
           \<and> child' = child\<lparr>material := Some (m\<lparr>color := Some c, version := Suc (version m)\<rparr>)\<rparr>"
  using assms
  by (auto simp: color_child_def copy_color_def mark_updated_def needsUpdate_def
      split: option.splits sum.splits)

lemma setup_node_color:
  "isMesh child \<Longrightarrow> material child = Some m0 \<Longrightarrow>
   \<exists>m. material (setup_node child) = Some m \<and> (color m = None \<longleftrightarrow> color m0 = None)"
  by (simp add: setup_node_material fix_material_def clone_def needsUpdate_def near_white_def Let_def
      split: option.splits)


text \<open>
  C8 (as the colour effect implements it). After set-up of a scene whose nodes have
  distinct uuids, tinting and then restoring leaves every mesh with the material it had
  before tinting except for two fields: its colour, which is the colour of the material
  the mesh was loaded with, and its version counter, which the two
  \<open>needsUpdate = true\<close> assignments have raised by 2. Nodes that are not meshes are
  unchanged.
\<close>

theorem C8_restore_color:
  assumes su: "setup_scene explosion_dir diagonal fresh_refs scene0 = (refs, scene)"
    and dist: "distinct (map uuid scene0)"
    and toggle: "tint_then_restore refs randoms scene = Inr restored"
    and i: "i < length scene0"
  shows "if isMesh (scene0 ! i) then
           (\<exists>m0 m m'. material (scene0 ! i) = Some m0 \<and> material (scene ! i) = Some m
              \<and> restored ! i = (scene ! i)\<lparr>material := Some m'\<rparr>
              \<and> color m' = color m0
              \<and> m' = m\<lparr>color := color m0, version := version m + 2\<rparr>)
         else restored ! i = scene ! i"
proof -
  have scene: "scene = map setup_node scene0"
    using su snd_setup_scene [of explosion_dir diagonal fresh_refs scene0] by simp
  have init: "isInitialized refs"
    using su by (simp add: setup_scene_def split_beta Let_def) auto
  from toggle obtain tinted where
    t: "color_traverse True refs randoms 0 scene = Inr tinted" and
    r: "color_traverse False refs randoms 0 tinted = Inr restored"
    using init by (auto simp: tint_then_restore_def color_effect_def split: sum.splits)
  have len: "length tinted = length scene0" "i < length scene" "i < length tinted"
    using color_traverse_nth [OF t] i scene by simp_all
  have ti: "color_child True refs (randoms i) (scene ! i) = Inr (tinted ! i)"
    using color_traverse_nth [OF t] len by simp
  have ri: "color_child False refs (randoms i) (tinted ! i) = Inr (restored ! i)"
    using color_traverse_nth [OF r] len by simp
  have si: "scene ! i = setup_node (scene0 ! i)" using scene i by simp
  show ?thesis
  proof (cases "isMesh (scene0 ! i)")
    case False
    then have nm: "\<not> isMesh (scene ! i)" by (simp add: si setup_node_isMesh)
    then have "tinted ! i = scene ! i" using ti by (simp add: color_child_not_mesh)
    then have "restored ! i = scene ! i" using ri nm by (simp add: color_child_not_mesh)
    then show ?thesis using False by simp
  next
    case True
    then have mesh: "isMesh (scene ! i)" by (simp add: si setup_node_isMesh)
    from color_child_tint [OF mesh ti] obtain m c0 where
      m: "material (scene ! i) = Some m" "color m = Some c0" and
      tinted_i: "tinted ! i = (scene ! i)\<lparr>material :=
          Some (m\<lparr>color := Some (getHashColor (uniqueId (randoms i) (scene ! i))),
                  version := Suc (version m)\<rparr>)\<rparr>"
      by blast
    obtain m0 where m0: "material (scene0 ! i) = Some m0"
      using m(1) True by (auto simp: si setup_node_material split: if_splits)
    have col: "color m0 \<noteq> None"
      using setup_node_color [OF True m0] m by (auto simp: si)
    then obtain c where c: "color m0 = Some c" by blast
    have orig: "originalMaterials refs (uuid (tinted ! i)) = Some (clone m0)"
      using setup_scene_captures(1) [OF su dist i True m0]
      by (simp add: tinted_i si setup_node_uuid)
    have tmesh: "isMesh (tinted ! i)" using mesh by (simp add: tinted_i)
    from color_child_restore [OF tmesh ri orig, of c] c obtain mt where
      mt: "material (tinted ! i) = Some mt" and
      restored_i: "restored ! i = (tinted ! i)\<lparr>material :=
          Some (mt\<lparr>color := Some c, version := Suc (version mt)\<rparr>)\<rparr>"
      by (auto simp: clone_def)
    have mt_eq: "mt = m\<lparr>color := Some (getHashColor (uniqueId (randoms i) (scene ! i))),
                  version := Suc (version m)\<rparr>"
      using mt by (simp add: tinted_i)
    let ?m' = "m\<lparr>color := color m0, version := version m + 2\<rparr>"
    have "restored ! i = (scene ! i)\<lparr>material := Some ?m'\<rparr>"
      by (simp add: restored_i tinted_i mt_eq c)
    then show ?thesis using True m0 m(1) by simp
  qed
qed


lemma bolt_toggle:
  "tint_then_restore bolt_refs no_randoms bolt_scene =
     Inr [bolt\<lparr>castShadow := False, receiveShadow := False,
            material := Some (steel\<lparr>side := DoubleSide, transparent := True, opacity := 0.9,
               envMapIntensity := Some 1.2, color := Some (Color 1 1 1), version := 3\<rparr>)\<rparr>]"
  by (simp add: tint_then_restore_def color_effect_def color_child_def copy_color_def
      mark_updated_def needsUpdate_def bolt_refs_eq bolt_setup bolt_def steel_def)

theorem C8_restore_color_witness:
  "setup_scene up_dir 10 fresh_refs [bolt] = (bolt_refs, bolt_scene)
   \<and> distinct (map uuid [bolt])
   \<and> (\<exists>restored. tint_then_restore bolt_refs no_randoms bolt_scene = Inr restored
         \<and> map_option color (material (restored ! 0)) = Some (Some (Color 1 1 1))
         \<and> map_option color (material ([bolt] ! 0)) = Some (Some (Color 1 1 1)))"
proof -
  have s: "setup_scene up_dir 10 fresh_refs [bolt] = (bolt_refs, bolt_scene)"
    by (simp add: bolt_refs_def bolt_scene_def)
  have d: "distinct (map uuid [bolt])" by simp
  obtain restored where r: "tint_then_restore bolt_refs no_randoms bolt_scene = Inr restored"
    using bolt_toggle by blast
  have b: "isMesh ([bolt] ! 0)" "material ([bolt] ! 0) = Some steel"
    "color steel = Some (Color 1 1 1)"
    by (simp_all add: bolt_def steel_def)
  from C8_restore_color [OF s d r, of 0] b
  have "map_option color (material (restored ! 0)) = Some (Some (Color 1 1 1))"
    by auto
  then show ?thesis using s d r b by auto
qed

text \<open>
  C8 as the specification words it fails: the toggle changes a material field other
  than the colour, the version counter, here from 1 to 3.
\<close>

theorem C8_version_counterexample:
  "map (map_option version \<circ> material) bolt_scene = [Some 1]
   \<and> map_sum id (map (map_option version \<circ> material))
       (tint_then_restore bolt_refs no_randoms bolt_scene) = Inr [Some 3]"
  by (simp add: bolt_toggle) (simp add: bolt_setup bolt_def steel_def)

section \<open>Bounds on sine, cosine and tangent\<close>

lemma sum_upto9:
  fixes f :: "nat \<Rightarrow> real"
  shows "(\<Sum>m<9. f m) = f 0 + f 1 + f 2 + f 3 + f 4 + f 5 + f 6 + f 7 + f 8"
  by (simp add: eval_nat_numeral)

lemma sum_upto8:
  fixes f :: "nat \<Rightarrow> real"
  shows "(\<Sum>m<8. f m) = f 0 + f 1 + f 2 + f 3 + f 4 + f 5 + f 6 + f 7"
  by (simp add: eval_nat_numeral)

lemma sin_coeffs:
  "sin_coeff 0 = 0" "sin_coeff 1 = 1" "sin_coeff 2 = 0" "sin_coeff 3 = - 1 / 6"
  "sin_coeff 4 = 0" "sin_coeff 5 = 1 / 120" "sin_coeff 6 = 0" "sin_coeff 7 = - 1 / 5040"
  "sin_coeff 8 = 0" "sin_coeff (Suc 0) = 1"
  by (simp_all add: sin_coeff_def fact_numeral)

lemma cos_coeffs:
  "cos_coeff 0 = 1" "cos_coeff 1 = 0" "cos_coeff 2 = - 1 / 2" "cos_coeff 3 = 0"
  "cos_coeff 4 = 1 / 24" "cos_coeff 5 = 0" "cos_coeff 6 = - 1 / 720" "cos_coeff 7 = 0" "cos_coeff (Suc 0) = 0"
  by (simp_all add: cos_coeff_def fact_numeral)

lemma sin_taylor8:
  fixes x :: real
  shows "\<bar>sin x - (x - x^3 / 6 + x^5 / 120 - x^7 / 5040)\<bar> \<le> \<bar>x\<bar>^9 / 362880"
proof -
  have s: "(\<Sum>m<9. sin_coeff m * x ^ m) = x - x^3 / 6 + x^5 / 120 - x^7 / 5040"
    unfolding sum_upto9 sin_coeffs by simp
  have "fact 9 = (362880::real)"
    by (simp add: fact_numeral)
  then have f: "inverse (fact 9) * \<bar>x\<bar> ^ 9 = \<bar>x\<bar>^9 / 362880"
    by (simp add: field_simps)
  have "\<bar>sin x - (\<Sum>m<9. sin_coeff m * x ^ m)\<bar> \<le> inverse (fact 9) * \<bar>x\<bar> ^ 9"
    by (rule Maclaurin_sin_bound)
  then show ?thesis by (simp only: s f)
qed

lemma cos_taylor7:
  fixes x :: real
  shows "\<bar>cos x - (1 - x^2 / 2 + x^4 / 24 - x^6 / 720)\<bar> \<le> \<bar>x\<bar>^8 / 40320"
proof -
  obtain t where t: "cos x = (\<Sum>m<8. cos_coeff m * x ^ m) + cos (t + 1 / 2 * real 8 * pi) / fact 8 * x ^ 8"
    using Maclaurin_cos_expansion [of x 8] by blast
  have s: "(\<Sum>m<8. cos_coeff m * x ^ m) = 1 - x^2 / 2 + x^4 / 24 - x^6 / 720"
    unfolding sum_upto8 cos_coeffs by simp
  have f: "fact 8 = (40320::real)"
    by (simp add: fact_numeral)
  have "\<bar>cos x - (1 - x^2 / 2 + x^4 / 24 - x^6 / 720)\<bar>
        = \<bar>cos (t + 1 / 2 * real 8 * pi)\<bar> * \<bar>x\<bar>^8 / 40320"
    unfolding t s f by (simp add: abs_mult power_abs)
  also have "\<dots> \<le> 1 * \<bar>x\<bar>^8 / 40320"
    by (intro divide_right_mono mult_right_mono) simp_all
  finally show ?thesis by simp
qed

lemma pi_lower: "3.14154 < pi"
proof -
  let ?r = "52359 / 100000 :: real"
  have "sin ?r \<le> (?r - ?r^3 / 6 + ?r^5 / 120 - ?r^7 / 5040) + \<bar>?r\<bar>^9 / 362880"
    using sin_taylor8 [of ?r] by linarith
  also have "\<dots> < 1 / 2" by (simp add: power_divide)
  finally have "sin ?r < sin (pi / 6)" by (simp add: sin_30)
  moreover have "?r \<le> pi / 2" using pi_ge_two by simp
  moreover have "- (pi / 2) \<le> ?r" using pi_gt_zero by linarith
  ultimately have "?r < pi / 6"
    using sin_mono_less_eq [of ?r "pi / 6"] pi_gt_zero by simp
  then show ?thesis by simp
qed

lemma pi_upper: "pi < 3.14166"
proof -
  let ?r = "52361 / 100000 :: real"
  have "1 / 2 < (?r - ?r^3 / 6 + ?r^5 / 120 - ?r^7 / 5040) - \<bar>?r\<bar>^9 / 362880"
    by (simp add: power_divide)
  also have "\<dots> \<le> sin ?r"
    using sin_taylor8 [of ?r] by linarith
  finally have "sin (pi / 6) < sin ?r" by (simp add: sin_30)
  moreover have "?r \<le> pi / 2" using pi_ge_two by simp
  moreover have "- (pi / 2) \<le> ?r" using pi_gt_zero by linarith
  ultimately have "pi / 6 < ?r"
    using sin_mono_less_eq [of "pi / 6" ?r] pi_gt_zero by simp
  then show ?thesis by simp
qed

lemma tan_lower_at: "0.46629 < tan (436325 / 1000000 :: real)"
proof -
  let ?u = "436325 / 1000000 :: real"
  have s: "0.42261 < sin ?u"
  proof -
    have "0.42261 < (?u - ?u^3 / 6 + ?u^5 / 120 - ?u^7 / 5040) - \<bar>?u\<bar>^9 / 362880"
      by (simp add: power_divide)
    also have "\<dots> \<le> sin ?u" using sin_taylor8 [of ?u] by linarith
    finally show ?thesis .
  qed
  have c: "cos ?u < 0.90632"
  proof -
    have "cos ?u \<le> (1 - ?u^2 / 2 + ?u^4 / 24 - ?u^6 / 720) + \<bar>?u\<bar>^8 / 40320"
      using cos_taylor7 [of ?u] by linarith
    also have "\<dots> < 0.90632" by (simp add: power_divide)
    finally show ?thesis .
  qed
  have c0: "0 < cos ?u"
  proof -
    have "0 < (1 - ?u^2 / 2 + ?u^4 / 24 - ?u^6 / 720) - \<bar>?u\<bar>^8 / 40320"
      by (simp add: power_divide)
    also have "\<dots> \<le> cos ?u" using cos_taylor7 [of ?u] by linarith
    finally show ?thesis .
  qed
  have "0.46629 * cos ?u < 0.46629 * 0.90632" using c by simp
  also have "\<dots> < 0.42261" by simp
  also have "\<dots> < sin ?u" by (rule s)
  finally have "0.46629 < sin ?u / cos ?u" using c0 by (simp add: pos_less_divide_eq)
  then show ?thesis by (simp add: tan_def)
qed

lemma tan_upper_at: "tan (4363417 / 10000000 :: real) < 0.46633"
proof -
  let ?u = "4363417 / 10000000 :: real"
  have s: "sin ?u < 0.42263"
  proof -
    have "sin ?u \<le> (?u - ?u^3 / 6 + ?u^5 / 120 - ?u^7 / 5040) + \<bar>?u\<bar>^9 / 362880"
      using sin_taylor8 [of ?u] by linarith
    also have "\<dots> < 0.42263" by (simp add: power_divide)
    finally show ?thesis .
  qed
  have c: "0.9063 < cos ?u"
  proof -
    have "0.9063 < (1 - ?u^2 / 2 + ?u^4 / 24 - ?u^6 / 720) - \<bar>?u\<bar>^8 / 40320"
      by (simp add: power_divide)
    also have "\<dots> \<le> cos ?u" using cos_taylor7 [of ?u] by linarith
    finally show ?thesis .
  qed
  have "sin ?u < 0.42263" by (rule s)
  also have "\<dots> < 0.46633 * 0.9063" by simp
  also have "\<dots> < 0.46633 * cos ?u" using c by simp
  finally have "sin ?u / cos ?u < 0.46633" using c by (simp add: pos_divide_less_eq)
  then show ?thesis by (simp add: tan_def)
qed

lemma tan_25_degrees: "0.46629 < tan (5 * pi / 36)" "tan (5 * pi / 36) < 0.46633"
proof -
  let ?x = "5 * pi / 36"
  have lo: "436325 / 1000000 < ?x" using pi_lower by simp
  have hi: "?x < 4363417 / 10000000" using pi_upper by simp
  have half: "4363417 / 10000000 < pi / 2" using pi_ge_two by simp
  have "tan (436325 / 1000000) < tan ?x"
    using lo hi half pi_gt_zero by (intro tan_monotone) simp_all
  then show "0.46629 < tan ?x" using tan_lower_at by linarith
  have "tan ?x < tan (4363417 / 10000000)"
    using lo hi half pi_gt_zero by (intro tan_monotone) simp_all
  then show "tan ?x < 0.46633" using tan_upper_at by linarith
qed

lemma fit_50: "16.08 < (10 / 2) / tan (50 * (pi / 180) / 2) * 1.5"
  "(10 / 2) / tan (50 * (pi / 180) / 2) * 1.5 < 16.09"
proof -
  have e: "50 * (pi / 180) / 2 = 5 * pi / 36" by simp
  have "(0::real) < 0.46629" by simp
  then have pos: "0 < tan (5 * pi / 36)" using tan_25_degrees(1) by (rule less_trans)
  have "16.08 * tan (5 * pi / 36) < 16.08 * 0.46633" using tan_25_degrees(2) by simp
  also have "\<dots> < 7.5" by simp
  finally show "16.08 < (10 / 2) / tan (50 * (pi / 180) / 2) * 1.5"
    unfolding e using pos by (simp add: pos_less_divide_eq)
  have "7.5 < 16.09 * (0.46629::real)" by simp
  also have "\<dots> < 16.09 * tan (5 * pi / 36)" using tan_25_degrees(1) by simp
  finally show "(10 / 2) / tan (50 * (pi / 180) / 2) * 1.5 < 16.09"
    unfolding e using pos by (simp add: pos_divide_less_eq)
qed


section \<open>Properties of camera placement\<close>

lemma setFromEuler_unit: "quat_norm_sq (setFromEuler e) = 1"
proof -
  define c1 s1 c2 s2 c3 s3 where "c1 = cos (ex_of e / 2)" and "s1 = sin (ex_of e / 2)"
    and "c2 = cos (ey_of e / 2)" and "s2 = sin (ey_of e / 2)"
    and "c3 = cos (ez_of e / 2)" and "s3 = sin (ez_of e / 2)"
  have u: "s1\<^sup>2 + c1\<^sup>2 = 1" "s2\<^sup>2 + c2\<^sup>2 = 1" "s3\<^sup>2 + c3\<^sup>2 = 1"
    by (simp_all add: c1_def s1_def c2_def s2_def c3_def s3_def)
  have "quat_norm_sq (setFromEuler e) =
        (s1 * c2 * c3 + c1 * s2 * s3)\<^sup>2 + (c1 * s2 * c3 - s1 * c2 * s3)\<^sup>2
        + (c1 * c2 * s3 + s1 * s2 * c3)\<^sup>2 + (c1 * c2 * c3 - s1 * s2 * s3)\<^sup>2"
    by (simp add: quat_norm_sq_def setFromEuler_def Let_def c1_def s1_def c2_def s2_def c3_def s3_def)
  also have "\<dots> = (s1\<^sup>2 + c1\<^sup>2) * (s2\<^sup>2 + c2\<^sup>2) * (s3\<^sup>2 + c3\<^sup>2)"
    by (simp add: power2_eq_square algebra_simps)
  also have "\<dots> = 1" by (simp add: u)
  finally show ?thesis .
qed

lemma applyQuaternion_lengthSq:
  "lengthSq (applyQuaternion v q) =
     lengthSq v * ((1 - 2 * ((qx_of q)\<^sup>2 + (qy_of q)\<^sup>2 + (qz_of q)\<^sup>2))\<^sup>2
                   + 4 * (qw_of q)\<^sup>2 * ((qx_of q)\<^sup>2 + (qy_of q)\<^sup>2 + (qz_of q)\<^sup>2))
     + 4 * (dot (Vector3 (qx_of q) (qy_of q) (qz_of q)) v)\<^sup>2 * (1 - quat_norm_sq q)"
  by (cases v; cases q) (simp add: lengthSq_def quat_norm_sq_def Let_def power2_eq_square algebra_simps)

lemma applyQuaternion_unit:
  assumes "quat_norm_sq q = 1"
  shows "lengthSq (applyQuaternion v q) = lengthSq v"
proof -
  define s where "s = (qx_of q)\<^sup>2 + (qy_of q)\<^sup>2 + (qz_of q)\<^sup>2"
  have w: "(qw_of q)\<^sup>2 = 1 - s" using assms by (simp add: quat_norm_sq_def s_def)
  have "lengthSq (applyQuaternion v q) = lengthSq v * ((1 - 2 * s)\<^sup>2 + 4 * (qw_of q)\<^sup>2 * s)"
    using applyQuaternion_lengthSq [of v q] assms by (simp add: s_def)
  also have "(1 - 2 * s)\<^sup>2 + 4 * (qw_of q)\<^sup>2 * s = 1"
    unfolding w by (simp add: power2_eq_square algebra_simps)
  finally show ?thesis by simp
qed

lemma modelQuat_unit: "quat_norm_sq (modelQuat st) = 1"
proof (cases "mainModel st")
  case None
  then show ?thesis by (simp add: modelQuat_def identityQuaternion_def quat_norm_sq_def)
next
  case (Some rotation)
  then show ?thesis by (simp add: modelQuat_def setFromEuler_unit)
qed

lemma distance_along_offset:
  assumes "0 \<le> d"
  shows "distanceTo (add3 t (multiplyScalar v d)) t = d * sqrt (lengthSq v)"
proof -
  have "sub3 (add3 t (multiplyScalar v d)) t = multiplyScalar v d"
    by (cases t; cases v) simp
  then have "distanceTo (add3 t (multiplyScalar v d)) t = sqrt (d\<^sup>2 * lengthSq v)"
    by (simp add: distanceTo_def distanceToSquared_def lengthSq_scale)
  also have "\<dots> = d * sqrt (lengthSq v)"
    using assms by (simp add: real_sqrt_mult)
  finally show ?thesis .
qed

lemma framing_distance_pos:
  assumes "0 < sz" "0 < fov" "fov < 180"
  shows "0 < framing_distance sz fov"
proof -
  have "0 < fov * (pi / 180) / 2" using assms by simp
  moreover have "fov * (pi / 180) / 2 < pi / 2" using assms by simp
  ultimately have "0 < tan (fov * (pi / 180) / 2)" by (rule tan_gt_zero)
  then show ?thesis using assms by (simp add: framing_distance_def Let_def)
qed

lemma view_distance_pos:
  assumes "0 < cam_fov cam" "cam_fov cam < 180"
  shows "0 < view_distance st cam"
  using framing_distance_pos [OF _ assms] by (simp add: view_distance_def Let_def)

lemma view_vectors_lengths:
  assumes "view_vectors view = Some (offset0, up0)"
  shows "lengthSq offset0 = (if view = ''top'' \<or> view = ''bottom'' then 1 + 0.0001\<^sup>2 else 1)"
  using assms by (auto simp: view_vectors_def lengthSq_def power2_eq_square split: if_splits)

lemma handleViewChange_controls:
  assumes "cameraControls st = Some (cam, ctl)" "view_vectors view = Some (offset0, up0)"
  shows "cameraControls (handleViewChange view st) =
     Some (cam\<lparr>cam_position := add3 (ctl_target ctl)
                    (multiplyScalar (applyQuaternion offset0 (modelQuat st)) (view_distance st cam)),
                cam_up := applyQuaternion up0 (modelQuat st)\<rparr>,
           ctl\<lparr>ctl_enableDamping := False, ctl_autoRotate := False\<rparr>)"
  using assms by (simp add: handleViewChange_def Let_def)

lemma handleModelReady_controls:
  assumes "cameraControls st = Some (cam, ctl)" "0 < maxDim" "\<not> initialCameraSet st"
  shows "cameraControls (handleModelReady closer_default model maxDim st) =
     Some (cam\<lparr>cam_position :=
                  Vector3 0 0 (framing_distance maxDim (cam_fov cam)
                                 * paddingMultiplier closer_default (modelUrl st))\<rparr>,
           ctl\<lparr>ctl_target := Vector3 0 0 0\<rparr>)"
  using assms by (simp add: handleModelReady_def Let_def)

lemma handleModelReady_model:
  "mainModel (handleModelReady closer_default model maxDim st) = Some model"
  "modelMaxDim (handleModelReady closer_default model maxDim st) = maxDim"
  by (simp_all add: handleModelReady_def Let_def split: option.splits)

lemma framing_50: "16.08 < framing_distance 10 50 * 1.5" "framing_distance 10 50 * 1.5 < 16.09"
  using fit_50 by (simp_all add: framing_distance_def Let_def)

lemma unrotated: "setFromEuler (Euler 0 0 0) = identityQuaternion"
  by (simp add: setFromEuler_def identityQuaternion_def)

lemma ready_canvas_fields:
  "cameraControls ready_canvas =
     Some ((start_camera 50)\<lparr>cam_position := Vector3 0 0 (framing_distance 10 50 * 1.5)\<rparr>,
           start_controls)"
  "mainModel ready_canvas = Some (Euler 0 0 0)"
  "modelMaxDim ready_canvas = 10"
  by (simp_all add: ready_canvas_def handleModelReady_def start_canvas_def start_camera_def
      start_controls_def paddingMultiplier_def Let_def)

text \<open>
  C3 (as the component implements it). A canonical view request puts the camera at
  \<open>target + q(offset) * dist\<close>, where \<open>dist = (size / 2) / tan(fov / 2) * 1.5\<close>,
  \<open>size\<close> is the model's largest dimension (10 when none is known), \<open>q\<close> is the
  model's orientation and \<open>offset\<close> is the unit axis of the view, except that top and
  bottom use \<open>(0, 1, 0.0001)\<close> and \<open>(0, -1, 0.0001)\<close>; the distance from the target is
  therefore \<open>dist\<close> for the four side views and \<open>dist * sqrt (1 + 0.0001\<^sup>2)\<close> for top
  and bottom. Loading a model records the model and its size, and the initial framing
  puts the camera at \<open>(0, 0, (maxDim / 2) / tan(fov / 2) * 1.5)\<close> and the target at the
  origin; the revision-dependent treatment of the default asset is left aside. With size
  10 and a 50 degree field of view, a front request on an unrotated model puts the
  camera at \<open>target + (0, 0, z)\<close> with \<open>16.08 < z < 16.09\<close>.
\<close>

theorem C3_camera_placement:
  assumes cc: "cameraControls st = Some (cam, ctl)"
    and fov: "0 < cam_fov cam" "cam_fov cam < 180"
    and vv: "view_vectors view = Some (offset0, up0)"
  shows "view_distance st cam =
           ((if modelMaxDim st > 0 then modelMaxDim st else 10) / 2)
             / tan (cam_fov cam * (pi / 180) / 2) * 1.5
     \<and> cameraControls (handleViewChange view st) =
         Some (cam\<lparr>cam_position := add3 (ctl_target ctl)
                       (multiplyScalar (applyQuaternion offset0 (modelQuat st)) (view_distance st cam)),
                    cam_up := applyQuaternion up0 (modelQuat st)\<rparr>,
               ctl\<lparr>ctl_enableDamping := False, ctl_autoRotate := False\<rparr>)
     \<and> distanceTo (add3 (ctl_target ctl)
            (multiplyScalar (applyQuaternion offset0 (modelQuat st)) (view_distance st cam)))
          (ctl_target ctl)
         = view_distance st cam
             * (if view = ''top'' \<or> view = ''bottom'' then sqrt (1 + 0.0001\<^sup>2) else 1)
     \<and> mainModel (handleModelReady closer_default model maxDim st) = Some model
     \<and> modelMaxDim (handleModelReady closer_default model maxDim st) = maxDim
     \<and> (0 < maxDim \<and> \<not> initialCameraSet st
          \<and> \<not> (closer_default \<and> string_includes (modelUrl st) ''V3_DIRT_BIKE_3'') \<longrightarrow>
          cameraControls (handleModelReady closer_default model maxDim st) =
            Some (cam\<lparr>cam_position := Vector3 0 0
                         ((maxDim / 2) / tan (cam_fov cam * (pi / 180) / 2) * 1.5)\<rparr>,
                  ctl\<lparr>ctl_target := Vector3 0 0 0\<rparr>))
     \<and> (modelMaxDim st = 10 \<and> cam_fov cam = 50 \<and> mainModel st = Some (Euler 0 0 0)
          \<and> view = ''front'' \<longrightarrow>
          (\<exists>z. cameraControls (handleViewChange view st) =
                 Some (cam\<lparr>cam_position := add3 (ctl_target ctl) (Vector3 0 0 z),
                            cam_up := Vector3 0 1 0\<rparr>,
                       ctl\<lparr>ctl_enableDamping := False, ctl_autoRotate := False\<rparr>)
               \<and> z = (10 / 2) / tan (50 * (pi / 180) / 2) * 1.5
               \<and> 16.08 < z \<and> z < 16.09))"
proof (intro conjI impI)
  show "view_distance st cam =
           ((if modelMaxDim st > 0 then modelMaxDim st else 10) / 2)
             / tan (cam_fov cam * (pi / 180) / 2) * 1.5"
    by (simp add: view_distance_def framing_distance_def Let_def)
  show hv: "cameraControls (handleViewChange view st) =
         Some (cam\<lparr>cam_position := add3 (ctl_target ctl)
                       (multiplyScalar (applyQuaternion offset0 (modelQuat st)) (view_distance st cam)),
                    cam_up := applyQuaternion up0 (modelQuat st)\<rparr>,
               ctl\<lparr>ctl_enableDamping := False, ctl_autoRotate := False\<rparr>)"
    using cc vv by (rule handleViewChange_controls)
  have d: "0 \<le> view_distance st cam" using view_distance_pos [OF fov, of st] by simp
  have "lengthSq (applyQuaternion offset0 (modelQuat st)) = lengthSq offset0"
    by (rule applyQuaternion_unit) (rule modelQuat_unit)
  then show "distanceTo (add3 (ctl_target ctl)
            (multiplyScalar (applyQuaternion offset0 (modelQuat st)) (view_distance st cam)))
          (ctl_target ctl)
         = view_distance st cam
             * (if view = ''top'' \<or> view = ''bottom'' then sqrt (1 + 0.0001\<^sup>2) else 1)"
    using distance_along_offset [OF d] view_vectors_lengths [OF vv] by simp
  show "mainModel (handleModelReady closer_default model maxDim st) = Some model"
    by (rule handleModelReady_model)
  show "modelMaxDim (handleModelReady closer_default model maxDim st) = maxDim"
    by (rule handleModelReady_model)
next
  assume a: "0 < maxDim \<and> \<not> initialCameraSet st
          \<and> \<not> (closer_default \<and> string_includes (modelUrl st) ''V3_DIRT_BIKE_3'')"
  then have pm: "paddingMultiplier closer_default (modelUrl st) = 1.5"
    by (auto simp: paddingMultiplier_def)
  have "cameraControls (handleModelReady closer_default model maxDim st) =
     Some (cam\<lparr>cam_position :=
                  Vector3 0 0 (framing_distance maxDim (cam_fov cam)
                                 * paddingMultiplier closer_default (modelUrl st))\<rparr>,
           ctl\<lparr>ctl_target := Vector3 0 0 0\<rparr>)"
    using cc a by (intro handleModelReady_controls) simp_all
  then show "cameraControls (handleModelReady closer_default model maxDim st) =
            Some (cam\<lparr>cam_position := Vector3 0 0
                         ((maxDim / 2) / tan (cam_fov cam * (pi / 180) / 2) * 1.5)\<rparr>,
                  ctl\<lparr>ctl_target := Vector3 0 0 0\<rparr>)"
    unfolding pm by (simp add: framing_distance_def Let_def)
next
  assume a: "modelMaxDim st = 10 \<and> cam_fov cam = 50 \<and> mainModel st = Some (Euler 0 0 0)
          \<and> view = ''front''"
  then have vd: "view_distance st cam = framing_distance 10 50 * 1.5"
    by (simp add: view_distance_def Let_def)
  have v: "offset0 = Vector3 0 0 1" "up0 = Vector3 0 1 0"
    using vv a by (simp_all add: view_vectors_def)
  have q: "modelQuat st = identityQuaternion" using a by (simp add: modelQuat_def unrotated)
  have "cameraControls (handleViewChange view st) =
          Some (cam\<lparr>cam_position := add3 (ctl_target ctl) (Vector3 0 0 (framing_distance 10 50 * 1.5)),
                     cam_up := Vector3 0 1 0\<rparr>,
                ctl\<lparr>ctl_enableDamping := False, ctl_autoRotate := False\<rparr>)"
    using handleViewChange_controls [OF cc vv]
    by (simp add: v q vd identityQuaternion_def)
  moreover have "framing_distance 10 50 * 1.5 = (10 / 2) / tan (50 * (pi / 180) / 2) * 1.5"
    by (simp add: framing_distance_def Let_def)
  ultimately show "\<exists>z. cameraControls (handleViewChange view st) =
                 Some (cam\<lparr>cam_position := add3 (ctl_target ctl) (Vector3 0 0 z),
                            cam_up := Vector3 0 1 0\<rparr>,
                       ctl\<lparr>ctl_enableDamping := False, ctl_autoRotate := False\<rparr>)
               \<and> z = (10 / 2) / tan (50 * (pi / 180) / 2) * 1.5
               \<and> 16.08 < z \<and> z < 16.09"
    using framing_50 by (intro exI [of _ "framing_distance 10 50 * 1.5"]) simp
qed

theorem C3_camera_placement_witness:
  "ready_canvas = handleModelReady True (Euler 0 0 0) 10 (start_canvas 50 ''/models/part.glb'')
   \<and> mainModel ready_canvas = Some (Euler 0 0 0) \<and> modelMaxDim ready_canvas = 10
   \<and> map_option (cam_position \<circ> fst) (cameraControls ready_canvas)
      = Some (Vector3 0 0 ((10 / 2) / tan (50 * (pi / 180) / 2) * 1.5))
   \<and> map_option (ctl_target \<circ> snd) (cameraControls ready_canvas) = Some (Vector3 0 0 0)
   \<and> (\<exists>z. map_option (cam_position \<circ> fst) (cameraControls (handleViewChange ''front'' ready_canvas))
            = Some (Vector3 0 0 z) \<and> 16.08 < z \<and> z < 16.09)"
proof -
  let ?s = "start_canvas 50 ''/models/part.glb''"
  let ?cam = "(start_camera 50)\<lparr>cam_position := Vector3 0 0 (framing_distance 10 50 * 1.5)\<rparr>"
  have cc0: "cameraControls ?s = Some (start_camera 50, start_controls)"
    by (simp add: start_canvas_def)
  have fov0: "(0::real) < cam_fov (start_camera 50)" "cam_fov (start_camera 50) < 180"
    by (simp_all add: start_camera_def)
  have vv: "view_vectors ''front'' = Some (Vector3 0 0 1, Vector3 0 1 0)"
    by (simp add: view_vectors_def)
  have a0: "(0::real) < 10 \<and> \<not> initialCameraSet ?s
      \<and> \<not> (True \<and> string_includes (modelUrl ?s) ''V3_DIRT_BIKE_3'')"
    by (simp add: start_canvas_def)
  note load = C3_camera_placement [OF cc0 fov0 vv, of True "Euler 0 0 0" 10]
  from load a0 have loaded:
    "cameraControls (handleModelReady True (Euler 0 0 0) 10 ?s) =
       Some ((start_camera 50)\<lparr>cam_position :=
                Vector3 0 0 ((10 / 2) / tan (cam_fov (start_camera 50) * (pi / 180) / 2) * 1.5)\<rparr>,
             start_controls\<lparr>ctl_target := Vector3 0 0 0\<rparr>)"
    by blast
  from load have model: "mainModel ready_canvas = Some (Euler 0 0 0)" "modelMaxDim ready_canvas = 10"
    by (simp_all add: ready_canvas_def)
  have cc: "cameraControls ready_canvas = Some (?cam, start_controls)"
    by (rule ready_canvas_fields)
  have fov: "(0::real) < cam_fov ?cam" "cam_fov ?cam < 180"
    by (simp_all add: start_camera_def)
  have a: "modelMaxDim ready_canvas = 10 \<and> cam_fov ?cam = 50
           \<and> mainModel ready_canvas = Some (Euler 0 0 0) \<and> ''front'' = ''front''"
    by (simp add: model start_camera_def)
  note inst = C3_camera_placement [OF cc fov vv, of True "Euler 0 0 0" 10]
  from inst a obtain z where
    z: "cameraControls (handleViewChange ''front'' ready_canvas) =
          Some (?cam\<lparr>cam_position := add3 (ctl_target start_controls) (Vector3 0 0 z),
                  cam_up := Vector3 0 1 0\<rparr>,
                start_controls\<lparr>ctl_enableDamping := False, ctl_autoRotate := False\<rparr>)"
       "16.08 < z" "z < 16.09"
    by blast
  have front: "\<exists>z. map_option (cam_position \<circ> fst) (cameraControls (handleViewChange ''front'' ready_canvas))
            = Some (Vector3 0 0 z) \<and> 16.08 < z \<and> z < 16.09"
    using z by (auto simp: start_controls_def)
  have placed: "map_option (cam_position \<circ> fst) (cameraControls ready_canvas)
      = Some (Vector3 0 0 ((10 / 2) / tan (50 * (pi / 180) / 2) * 1.5))"
    "map_option (ctl_target \<circ> snd) (cameraControls ready_canvas) = Some (Vector3 0 0 0)"
    using loaded by (simp_all add: ready_canvas_def start_camera_def start_controls_def)
  show ?thesis using model front placed by (simp add: ready_canvas_def)
qed

text \<open>
  C3 as the specification words it fails for the top view: with size 10 and the 50
  degree field of view the camera is put at \<open>(0, 1, 0.0001) * dist\<close> from the target,
  farther from it than \<open>dist = (10 / 2) / tan(25 degrees) * 1.5\<close>. And a front request
  puts the camera at \<open>(0, 0, dist)\<close> with \<open>dist\<close> above 16.08, not at 16.07.
\<close>

theorem C3_top_view_counterexample:
  "map_option (cam_position \<circ> fst) (cameraControls (handleViewChange ''top'' ready_canvas))
     = Some (multiplyScalar (Vector3 0 1 0.0001) (framing_distance 10 50 * 1.5))
   \<and> map_option (ctl_target \<circ> snd) (cameraControls (handleViewChange ''top'' ready_canvas))
     = Some (Vector3 0 0 0)
   \<and> framing_distance 10 50 * 1.5
     < distanceTo (multiplyScalar (Vector3 0 1 0.0001) (framing_distance 10 50 * 1.5)) (Vector3 0 0 0)
   \<and> framing_distance 10 50 * 1.5 = (10 / 2) / tan (50 * (pi / 180) / 2) * 1.5
   \<and> map_option (cam_position \<circ> fst) (cameraControls (handleViewChange ''front'' ready_canvas))
     = Some (Vector3 0 0 (framing_distance 10 50 * 1.5))
   \<and> 16.08 < framing_distance 10 50 * 1.5"
proof -
  let ?D = "framing_distance 10 50 * 1.5"
  let ?cam = "(start_camera 50)\<lparr>cam_position := Vector3 0 0 ?D\<rparr>"
  have cc: "cameraControls ready_canvas = Some (?cam, start_controls)"
    by (rule ready_canvas_fields)
  have q: "modelQuat ready_canvas = identityQuaternion"
    by (simp add: modelQuat_def ready_canvas_fields unrotated)
  have vd: "view_distance ready_canvas ?cam = ?D"
    by (simp add: view_distance_def ready_canvas_fields start_camera_def Let_def)
  have top: "view_vectors ''top'' = Some (Vector3 0 1 0.0001, Vector3 0 0 (- 1))"
    and front: "view_vectors ''front'' = Some (Vector3 0 0 1, Vector3 0 1 0)"
    by (simp_all add: view_vectors_def)
  have t: "cameraControls (handleViewChange ''top'' ready_canvas) =
      Some (?cam\<lparr>cam_position := add3 (ctl_target start_controls)
                      (multiplyScalar (applyQuaternion (Vector3 0 1 0.0001) identityQuaternion) ?D),
                 cam_up := applyQuaternion (Vector3 0 0 (- 1)) identityQuaternion\<rparr>,
            start_controls\<lparr>ctl_enableDamping := False, ctl_autoRotate := False\<rparr>)"
    using handleViewChange_controls [OF cc top] by (simp only: q vd)
  have f: "cameraControls (handleViewChange ''front'' ready_canvas) =
      Some (?cam\<lparr>cam_position := add3 (ctl_target start_controls)
                      (multiplyScalar (applyQuaternion (Vector3 0 0 1) identityQuaternion) ?D),
                 cam_up := applyQuaternion (Vector3 0 1 0) identityQuaternion\<rparr>,
            start_controls\<lparr>ctl_enableDamping := False, ctl_autoRotate := False\<rparr>)"
    using handleViewChange_controls [OF cc front] by (simp only: q vd)
  have D: "0 < ?D" using framing_50(1) by simp
  have "distanceTo (add3 (Vector3 0 0 0) (multiplyScalar (Vector3 0 1 0.0001) ?D)) (Vector3 0 0 0)
      = ?D * sqrt (lengthSq (Vector3 0 1 0.0001))"
    using D by (intro distance_along_offset) simp
  moreover have "1 < sqrt (lengthSq (Vector3 0 1 0.0001))"
    by (simp add: lengthSq_def)
  ultimately have far: "?D < distanceTo (multiplyScalar (Vector3 0 1 0.0001) ?D) (Vector3 0 0 0)"
    using D by simp
  have eq: "?D = (10 / 2) / tan (50 * (pi / 180) / 2) * 1.5"
    by (simp add: framing_distance_def Let_def)
  have p1: "map_option (cam_position \<circ> fst) (cameraControls (handleViewChange ''top'' ready_canvas))
     = Some (multiplyScalar (Vector3 0 1 0.0001) ?D)"
    by (simp add: t start_controls_def identityQuaternion_def)
  have p2: "map_option (ctl_target \<circ> snd) (cameraControls (handleViewChange ''top'' ready_canvas))
     = Some (Vector3 0 0 0)"
    by (simp add: t start_controls_def)
  have p3: "map_option (cam_position \<circ> fst) (cameraControls (handleViewChange ''front'' ready_canvas))
     = Some (Vector3 0 0 ?D)"
    by (simp add: f start_controls_def identityQuaternion_def)
  show ?thesis using p1 p2 far eq p3 framing_50(1) by blast
qed

section \<open>Properties of click handling and of the markers\<close>

lemma cofactors4_affine:
  assumes "affine m"
  shows "cofactors4 m ! 0 = m 5 * m 10 - m 9 * m 6"
    and "cofactors4 m ! 1 = m 9 * m 2 - m 1 * m 10"
    and "cofactors4 m ! 2 = m 1 * m 6 - m 5 * m 2"
    and "cofactors4 m ! 3 = 0"
    and "cofactors4 m ! 4 = m 8 * m 6 - m 4 * m 10"
    and "cofactors4 m ! 5 = m 0 * m 10 - m 8 * m 2"
    and "cofactors4 m ! 6 = m 4 * m 2 - m 0 * m 6"
    and "cofactors4 m ! 7 = 0"
    and "cofactors4 m ! 8 = m 4 * m 9 - m 8 * m 5"
    and "cofactors4 m ! 9 = m 8 * m 1 - m 0 * m 9"
    and "cofactors4 m ! 10 = m 0 * m 5 - m 4 * m 1"
    and "cofactors4 m ! 11 = 0"
    and "cofactors4 m ! 12 = m 12 * (m 9 * m 6 - m 5 * m 10) + m 13 * (m 4 * m 10 - m 8 * m 6)
                               + m 14 * (m 8 * m 5 - m 4 * m 9)"
    and "cofactors4 m ! 13 = m 12 * (m 1 * m 10 - m 9 * m 2) + m 13 * (m 8 * m 2 - m 0 * m 10)
                               + m 14 * (m 0 * m 9 - m 8 * m 1)"
    and "cofactors4 m ! 14 = m 12 * (m 5 * m 2 - m 1 * m 6) + m 13 * (m 0 * m 6 - m 4 * m 2)
                               + m 14 * (m 4 * m 1 - m 0 * m 5)"
    and "cofactors4 m ! 15 = det3 m"
proof -
  have a: "m 3 = 0" "m 7 = 0" "m 11 = 0" "m 15 = 1"
    using assms by (simp_all add: affine_def)
  show "cofactors4 m ! 0 = m 5 * m 10 - m 9 * m 6"
    and "cofactors4 m ! 1 = m 9 * m 2 - m 1 * m 10"
    and "cofactors4 m ! 2 = m 1 * m 6 - m 5 * m 2"
    and "cofactors4 m ! 3 = 0"
    and "cofactors4 m ! 4 = m 8 * m 6 - m 4 * m 10"
    and "cofactors4 m ! 5 = m 0 * m 10 - m 8 * m 2"
    and "cofactors4 m ! 6 = m 4 * m 2 - m 0 * m 6"
    and "cofactors4 m ! 7 = 0"
    and "cofactors4 m ! 8 = m 4 * m 9 - m 8 * m 5"
    and "cofactors4 m ! 9 = m 8 * m 1 - m 0 * m 9"
    and "cofactors4 m ! 10 = m 0 * m 5 - m 4 * m 1"
    and "cofactors4 m ! 11 = 0"
    by (simp_all add: cofactors4_def Let_def a)
  show "cofactors4 m ! 12 = m 12 * (m 9 * m 6 - m 5 * m 10) + m 13 * (m 4 * m 10 - m 8 * m 6)
                               + m 14 * (m 8 * m 5 - m 4 * m 9)"
    and "cofactors4 m ! 13 = m 12 * (m 1 * m 10 - m 9 * m 2) + m 13 * (m 8 * m 2 - m 0 * m 10)
                               + m 14 * (m 0 * m 9 - m 8 * m 1)"
    and "cofactors4 m ! 14 = m 12 * (m 5 * m 2 - m 1 * m 6) + m 13 * (m 0 * m 6 - m 4 * m 2)
                               + m 14 * (m 4 * m 1 - m 0 * m 5)"
    and "cofactors4 m ! 15 = det3 m"
    by (simp_all add: cofactors4_def Let_def a det3_def algebra_simps)
qed

lemma determinant_affine:
  assumes "affine m"
  shows "m 0 * cofactors4 m ! 0 + m 1 * cofactors4 m ! 4 + m 2 * cofactors4 m ! 8
           + m 3 * cofactors4 m ! 12 = det3 m"
proof -
  have "m 3 = 0" using assms by (simp add: affine_def)
  then show ?thesis
    unfolding cofactors4_affine(1,5,9) [OF assms] by (simp add: det3_def algebra_simps)
qed

lemma invert4_affine:
  assumes "affine m" and "det3 m \<noteq> 0" and "k < 16"
  shows "invert4 m k = cofactors4 m ! k / det3 m"
  unfolding invert4_def Let_def determinant_affine [OF assms(1)]
  using assms(2,3) by simp

lemma affine_row:
  fixes a d g p :: real
  assumes "D \<noteq> 0"
    and "a * I0 + d * I1 + g * I2 = sx * D"
    and "a * I4 + d * I5 + g * I6 = sy * D"
    and "a * I8 + d * I9 + g * I10 = sz * D"
    and "a * I12 + d * I13 + g * I14 + p * D = 0"
  shows "a * (I0 / D * x + I4 / D * y + I8 / D * z + I12 / D)
         + d * (I1 / D * x + I5 / D * y + I9 / D * z + I13 / D)
         + g * (I2 / D * x + I6 / D * y + I10 / D * z + I14 / D) + p
         = sx * x + sy * y + sz * z"
proof -
  have "(a * (I0 / D * x + I4 / D * y + I8 / D * z + I12 / D)
         + d * (I1 / D * x + I5 / D * y + I9 / D * z + I13 / D)
         + g * (I2 / D * x + I6 / D * y + I10 / D * z + I14 / D) + p) * D
      = x * (a * I0 + d * I1 + g * I2) + y * (a * I4 + d * I5 + g * I6)
        + z * (a * I8 + d * I9 + g * I10) + (a * I12 + d * I13 + g * I14 + p * D)"
    using assms(1) by (simp add: field_simps)
  also have "\<dots> = (sx * x + sy * y + sz * z) * D"
    unfolding assms(2-5) by (simp add: algebra_simps)
  finally show ?thesis using assms(1) by simp
qed

lemma local_world_roundtrip:
  assumes af: "affine m" and dt: "det3 m \<noteq> 0"
  shows "applyMatrix4 (applyMatrix4 v (invert4 m)) m = v"
proof -
  have a: "m 3 = 0" "m 7 = 0" "m 11 = 0" "m 15 = 1"
    using af by (simp_all add: affine_def)
  obtain x y z where v: "v = Vector3 x y z" by (cases v)
  define D where "D = det3 m"
  have D0: "D \<noteq> 0" using dt by (simp add: D_def)
  note c = cofactors4_affine [OF af]
  define I where "I = (\<lambda>k. cofactors4 m ! k)"
  have inv: "invert4 m k = I k / D" if "k < 16" for k
    using invert4_affine [OF af dt that] by (simp add: I_def D_def)
  have z3: "I 3 = 0" "I 7 = 0" "I 11 = 0" "I 15 = D"
    by (simp_all add: I_def c D_def)
  have Ddef: "D = m 0 * (m 5 * m 10 - m 9 * m 6) - m 4 * (m 1 * m 10 - m 9 * m 2)
      + m 8 * (m 1 * m 6 - m 5 * m 2)"
    by (simp add: D_def det3_def)
  have rx: "m 0 * I 0 + m 4 * I 1 + m 8 * I 2 = 1 * D" "m 0 * I 4 + m 4 * I 5 + m 8 * I 6 = 0 * D"
    "m 0 * I 8 + m 4 * I 9 + m 8 * I 10 = 0 * D" "m 0 * I 12 + m 4 * I 13 + m 8 * I 14 + m 12 * D = 0"
    unfolding I_def c(1-15) Ddef by (simp_all add: algebra_simps)
  have ry: "m 1 * I 0 + m 5 * I 1 + m 9 * I 2 = 0 * D" "m 1 * I 4 + m 5 * I 5 + m 9 * I 6 = 1 * D"
    "m 1 * I 8 + m 5 * I 9 + m 9 * I 10 = 0 * D" "m 1 * I 12 + m 5 * I 13 + m 9 * I 14 + m 13 * D = 0"
    unfolding I_def c(1-15) Ddef by (simp_all add: algebra_simps)
  have rz: "m 2 * I 0 + m 6 * I 1 + m 10 * I 2 = 0 * D" "m 2 * I 4 + m 6 * I 5 + m 10 * I 6 = 0 * D"
    "m 2 * I 8 + m 6 * I 9 + m 10 * I 10 = 1 * D" "m 2 * I 12 + m 6 * I 13 + m 10 * I 14 + m 14 * D = 0"
    unfolding I_def c(1-15) Ddef by (simp_all add: algebra_simps)
  let ?X = "I 0 / D * x + I 4 / D * y + I 8 / D * z + I 12 / D"
  let ?Y = "I 1 / D * x + I 5 / D * y + I 9 / D * z + I 13 / D"
  let ?Z = "I 2 / D * x + I 6 / D * y + I 10 / D * z + I 14 / D"
  have inner: "applyMatrix4 (Vector3 x y z) (invert4 m) = Vector3 ?X ?Y ?Z"
    unfolding applyMatrix4.simps Let_def
    by (simp only: inv z3 One_nat_def) (simp add: D0)
  have "applyMatrix4 (Vector3 ?X ?Y ?Z) m =
      Vector3 (m 0 * ?X + m 4 * ?Y + m 8 * ?Z + m 12) (m 1 * ?X + m 5 * ?Y + m 9 * ?Z + m 13)
              (m 2 * ?X + m 6 * ?Y + m 10 * ?Z + m 14)"
    unfolding applyMatrix4.simps Let_def a by simp
  also have "\<dots> = Vector3 (1 * x + 0 * y + 0 * z) (0 * x + 1 * y + 0 * z) (0 * x + 0 * y + 1 * z)"
    unfolding affine_row [OF D0 rx] affine_row [OF D0 ry] affine_row [OF D0 rz] ..
  finally show ?thesis unfolding v inner by simp
qed

lemma snap_without_object: "hit_object h = None \<Longrightarrow> snapToFeature h cam = hit_point h"
  by (simp add: snapToFeature_def split: option.splits)

lemma handleClick_store:
  assumes "button e = 0" and "measureMode (store st)"
  shows "store (handleClick e cam st) =
     addMeasurePoint
       \<lparr>point = snapToFeature (hit e) cam,
        localPoint = map_option (\<lambda>obj. worldToLocal obj (snapToFeature (hit e) cam))
                       (hit_object (hit e)),
        objectUuid = map_option obj_uuid (hit_object (hit e)),
        normal = world_normal (hit e)\<rparr>
       (store st)"
proof (cases "hit_object (hit e)")
  case None
  then have "snapToFeature (hit e) cam = hit_point (hit e)" by (rule snap_without_object)
  with assms None show ?thesis
    by (simp add: handleClick_def Let_def split: option.splits)
next
  case (Some obj)
  show ?thesis
  proof (cases "snapToFeature (hit e) cam = hit_point (hit e)")
    case True
    with assms Some show ?thesis
      by (simp add: handleClick_def Let_def split: option.splits)
  next
    case False
    with assms Some show ?thesis
      by (simp add: handleClick_def Let_def split: option.splits)
  qed
qed

lemma handleClick_ignored:
  assumes "button e \<noteq> 0 \<or> \<not> measureMode (store st)"
  shows "store (handleClick e cam st) = store st"
  using assms by (auto simp: handleClick_def Let_def split: option.splits)

lemma last_after_push: "last (measurePoints (addMeasurePoint p s)) = p"
  by (simp add: addMeasurePoint_points)

lemma world_point_attached:
  assumes "localPoint mp = Some lp" "objectUuid mp = Some u" "u \<noteq> []"
    and "getObjectByProperty_uuid scene u = Some targetObj"
  shows "world_point (Some scene) mp = applyMatrix4 lp (matrixWorld targetObj)"
  using assms by (simp add: world_point_def localToWorld_def)

lemma world_point_lost:
  assumes "objectUuid mp = Some u" "getObjectByProperty_uuid scene u = None"
  shows "world_point (Some scene) mp = point mp"
  using assms by (simp add: world_point_def split: option.splits)

lemma world_point_detached:
  assumes "localPoint mp = None \<or> objectUuid mp = None \<or> objectUuid mp = Some [] \<or> sceneRef = None"
  shows "world_point sceneRef mp = point mp"
  using assms by (auto simp: world_point_def split: option.splits)

lemma moved_click_vertices:
  "getV moved_obj 0 = Some (Vector3 1000 0 0)" "getV moved_obj (Suc 0) = Some (Vector3 1100 0 0)"
  "getV moved_obj 2 = Some (Vector3 1000 100 0)"
  by (simp_all add: getV_def moved_obj_def localToWorld_def makeTranslation_def)

lemma moved_click_edges:
  "edge_point (Vector3 1003 4 0) (Some (Vector3 1000 0 0), Some (Vector3 1100 0 0))
     = Some (Vector3 1003 0 0)"
  "edge_point (Vector3 1003 4 0) (Some (Vector3 1100 0 0), Some (Vector3 1000 100 0))
     = Some (Vector3 (2099 / 2) (101 / 2) 0)"
  "edge_point (Vector3 1003 4 0) (Some (Vector3 1000 100 0), Some (Vector3 1000 0 0))
     = Some (Vector3 1000 4 0)"
  by (simp_all add: edge_point_def closestPointToPoint_def clamp01_def)

lemma moved_click_distances:
  "distanceTo (Vector3 1000 0 0) (Vector3 1003 4 0) = 5"
  "distanceTo (Vector3 1100 0 0) (Vector3 1003 4 0) = sqrt 9425"
  "distanceTo (Vector3 1000 100 0) (Vector3 1003 4 0) = sqrt 9225"
  "distanceTo (Vector3 1003 0 0) (Vector3 1003 4 0) = 4"
  "distanceTo (Vector3 (2099 / 2) (101 / 2) 0) (Vector3 1003 4 0) = sqrt (8649 / 2)"
  "distanceTo (Vector3 1000 4 0) (Vector3 1003 4 0) = 3"
  by (simp_all add: distanceTo_def distanceToSquared_def lengthSq_def sample_roots)

lemma moved_click_snap: "snapToFeature (hit moved_click) click_camera = Vector3 1000 4 0"
proof -
  have s: "snap_search (hit moved_click) = (Vector3 1000 4 0, Some 3)"
    using tri_hit_roots
    by (simp add: snap_search_def moved_click_def moved_click_vertices moved_click_edges
        moved_click_distances Let_def)
  have "distanceTo (cam_position click_camera) (Vector3 1003 4 0) = 500"
    by (simp add: click_camera_def distanceTo_def distanceToSquared_def lengthSq_def)
  then have "snap_threshold click_camera (hit_point (hit moved_click)) = 10"
    by (simp add: snap_threshold_def moved_click_def)
  with s show ?thesis by (simp add: snapToFeature_search)
qed

lemma moved_click_normal: "world_normal (hit moved_click) = Some (Vector3 0 0 1)"
  by (simp add: world_normal_def moved_click_def moved_obj_def getNormalMatrix_def transpose3_def
      invert3_def setFromMatrix4_def matrix3_def makeTranslation_def normalize3_def length3_def
      lengthSq_def divideScalar_def Let_def)

lemma translation_affine: "affine (makeTranslation tx ty tz)" "det3 (makeTranslation tx ty tz) = 1"
  by (simp_all add: affine_def det3_def makeTranslation_def)

lemma translation_inverse:
  "applyMatrix4 (Vector3 x y z) (invert4 (makeTranslation tx ty tz)) = Vector3 (x - tx) (y - ty) (z - tz)"
proof -
  let ?T = "makeTranslation tx ty tz"
  have t: "?T 0 = 1" "?T 1 = 0" "?T 2 = 0" "?T 3 = 0" "?T 4 = 0" "?T 5 = 1" "?T 6 = 0" "?T 7 = 0"
    "?T 8 = 0" "?T 9 = 0" "?T 10 = 1" "?T 11 = 0" "?T 12 = tx" "?T 13 = ty" "?T 14 = tz" "?T 15 = 1"
    by (simp_all add: makeTranslation_def)
  have c: "cofactors4 ?T = [1, 0, 0, 0, 0, 1, 0, 0, 0, 0, 1, 0, - tx, - ty, - tz, 1]"
    unfolding cofactors4_def Let_def t by simp
  have i: "invert4 ?T = (\<lambda>i. if i < 16 then [1, 0, 0, 0, 0, 1, 0, 0, 0, 0, 1, 0, - tx, - ty, - tz, 1] ! i else 0)"
    unfolding invert4_def Let_def c t by (rule ext) simp
  show ?thesis unfolding i by simp
qed

lemma moved_click_local:
  "worldToLocal moved_obj (Vector3 1000 4 0) = Vector3 0 4 0"
proof -
  have "matrixWorld moved_obj = makeTranslation 1000 0 0" by (simp add: moved_obj_def)
  then show ?thesis unfolding worldToLocal_def by (simp only: translation_inverse) simp
qed

lemma getObjectByProperty_found:
  assumes "getObjectByProperty_uuid scene u = Some targetObj"
  shows "targetObj \<in> set scene \<and> obj_uuid targetObj = u"
  using assms unfolding getObjectByProperty_uuid_def
  by (auto simp: find_Some_iff)

lemma getObjectByProperty_missing:
  "(getObjectByProperty_uuid scene u = None) = (\<forall>obj \<in> set scene. obj_uuid obj \<noteq> u)"
  unfolding getObjectByProperty_uuid_def by (auto simp: find_None_iff)

text \<open>
  C7 (in the revision whose markers follow their object). On a click of the primary
  button in measurement mode the store receives a record holding the snapped point, the
  snapped point taken to the local space of the clicked object by the inverse of its
  world matrix, the object's \<open>uuid\<close>, and the face normal in world space; any other
  click leaves the store as it was. Each frame every stored point is given a world
  position: when it has a local point and a non-empty \<open>uuid\<close> and the scene holds an
  object with that \<open>uuid\<close>, the local point is taken through that object's current
  world matrix; otherwise (no such object in the scene, no scene, no local point or
  object) the originally captured world point is used. For an object whose world matrix
  is affine and invertible, going to local space and back gives the point again, so a
  marker sits on the snapped point as long as the object stays where it was, and moves
  with the object afterwards.
\<close>

theorem C7_local_point_follows_object:
  "(button e = 0 \<and> measureMode (store st) \<longrightarrow>
      store (handleClick e cam st) =
        addMeasurePoint
          \<lparr>point = snapToFeature (hit e) cam,
           localPoint = map_option (\<lambda>obj. worldToLocal obj (snapToFeature (hit e) cam))
                          (hit_object (hit e)),
           objectUuid = map_option obj_uuid (hit_object (hit e)),
           normal = world_normal (hit e)\<rparr>
          (store st)
      \<and> last (measurePoints (store (handleClick e cam st))) =
          \<lparr>point = snapToFeature (hit e) cam,
           localPoint = map_option (\<lambda>obj. worldToLocal obj (snapToFeature (hit e) cam))
                          (hit_object (hit e)),
           objectUuid = map_option obj_uuid (hit_object (hit e)),
           normal = world_normal (hit e)\<rparr>)
   \<and> (button e \<noteq> 0 \<or> \<not> measureMode (store st) \<longrightarrow> store (handleClick e cam st) = store st)
   \<and> length (frame_world_points sceneRef mps) = length mps
   \<and> (\<forall>k < length mps. frame_world_points sceneRef mps ! k = world_point sceneRef (mps ! k))
   \<and> (localPoint mp = Some lp \<and> objectUuid mp = Some u \<and> u \<noteq> []
        \<and> getObjectByProperty_uuid scene u = Some targetObj \<longrightarrow>
        world_point (Some scene) mp = applyMatrix4 lp (matrixWorld targetObj))
   \<and> (objectUuid mp = Some u \<and> getObjectByProperty_uuid scene u = None \<longrightarrow>
        world_point (Some scene) mp = point mp)
   \<and> (localPoint mp = None \<or> objectUuid mp = None \<or> objectUuid mp = Some [] \<or> sceneRef = None \<longrightarrow>
        world_point sceneRef mp = point mp)
   \<and> (getObjectByProperty_uuid scene u = Some targetObj \<longrightarrow>
        targetObj \<in> set scene \<and> obj_uuid targetObj = u)
   \<and> ((getObjectByProperty_uuid scene u = None) = (\<forall>obj \<in> set scene. obj_uuid obj \<noteq> u))
   \<and> (affine (matrixWorld obj) \<and> det3 (matrixWorld obj) \<noteq> 0 \<longrightarrow>
        localToWorld obj (worldToLocal obj v) = v)
   \<and> (button e = 0 \<and> measureMode (store st) \<and> hit_object (hit e) = Some obj \<and> obj_uuid obj \<noteq> []
        \<and> getObjectByProperty_uuid scene (obj_uuid obj) = Some targetObj \<longrightarrow>
        world_point (Some scene) (last (measurePoints (store (handleClick e cam st))))
          = localToWorld targetObj (worldToLocal obj (snapToFeature (hit e) cam)))"
proof (intro conjI impI allI)
  assume a: "button e = 0 \<and> measureMode (store st)"
  then show s: "store (handleClick e cam st) =
        addMeasurePoint
          \<lparr>point = snapToFeature (hit e) cam,
           localPoint = map_option (\<lambda>obj. worldToLocal obj (snapToFeature (hit e) cam))
                          (hit_object (hit e)),
           objectUuid = map_option obj_uuid (hit_object (hit e)),
           normal = world_normal (hit e)\<rparr>
          (store st)"
    by (simp add: handleClick_store)
  show "last (measurePoints (store (handleClick e cam st))) =
          \<lparr>point = snapToFeature (hit e) cam,
           localPoint = map_option (\<lambda>obj. worldToLocal obj (snapToFeature (hit e) cam))
                          (hit_object (hit e)),
           objectUuid = map_option obj_uuid (hit_object (hit e)),
           normal = world_normal (hit e)\<rparr>"
    unfolding s by (rule last_after_push)
next
  assume "button e \<noteq> 0 \<or> \<not> measureMode (store st)"
  then show "store (handleClick e cam st) = store st" by (rule handleClick_ignored)
next
  show "length (frame_world_points sceneRef mps) = length mps"
    by (simp add: frame_world_points_def)
next
  fix k assume "k < length mps"
  then show "frame_world_points sceneRef mps ! k = world_point sceneRef (mps ! k)"
    by (simp add: frame_world_points_def)
next
  assume "localPoint mp = Some lp \<and> objectUuid mp = Some u \<and> u \<noteq> []
        \<and> getObjectByProperty_uuid scene u = Some targetObj"
  then show "world_point (Some scene) mp = applyMatrix4 lp (matrixWorld targetObj)"
    by (simp add: world_point_attached)
next
  assume "objectUuid mp = Some u \<and> getObjectByProperty_uuid scene u = None"
  then show "world_point (Some scene) mp = point mp"
    by (simp add: world_point_lost)
next
  assume "localPoint mp = None \<or> objectUuid mp = None \<or> objectUuid mp = Some [] \<or> sceneRef = None"
  then show "world_point sceneRef mp = point mp" by (rule world_point_detached)
next
  assume "getObjectByProperty_uuid scene u = Some targetObj"
  then show "targetObj \<in> set scene" "obj_uuid targetObj = u"
    by (simp_all add: getObjectByProperty_found)
next
  show "(getObjectByProperty_uuid scene u = None) = (\<forall>obj \<in> set scene. obj_uuid obj \<noteq> u)"
    by (rule getObjectByProperty_missing)
next
  assume "affine (matrixWorld obj) \<and> det3 (matrixWorld obj) \<noteq> 0"
  then show "localToWorld obj (worldToLocal obj v) = v"
    unfolding localToWorld_def worldToLocal_def by (simp add: local_world_roundtrip)
next
  assume a: "button e = 0 \<and> measureMode (store st) \<and> hit_object (hit e) = Some obj
        \<and> obj_uuid obj \<noteq> [] \<and> getObjectByProperty_uuid scene (obj_uuid obj) = Some targetObj"
  then have "last (measurePoints (store (handleClick e cam st))) =
      \<lparr>point = snapToFeature (hit e) cam,
       localPoint = Some (worldToLocal obj (snapToFeature (hit e) cam)),
       objectUuid = Some (obj_uuid obj), normal = world_normal (hit e)\<rparr>"
    by (simp add: handleClick_store last_after_push)
  with a show "world_point (Some scene) (last (measurePoints (store (handleClick e cam st))))
          = localToWorld targetObj (worldToLocal obj (snapToFeature (hit e) cam))"
    by (simp add: world_point_attached localToWorld_def)
qed

theorem C7_local_point_follows_object_witness:
  "button moved_click = 0 \<and> measureMode (store measuring)
   \<and> last (measurePoints (store (handleClick moved_click click_camera measuring))) =
       \<lparr>point = Vector3 1000 4 0, localPoint = Some (Vector3 0 4 0), objectUuid = Some ''plate'',
        normal = Some (Vector3 0 0 1)\<rparr>
   \<and> frame_world_points (Some [moved_obj])
        (measurePoints (store (handleClick moved_click click_camera measuring)))
      = [Vector3 1000 4 0]
   \<and> frame_world_points (Some [shifted_obj])
        (measurePoints (store (handleClick moved_click click_camera measuring)))
      = [Vector3 2000 504 0]
   \<and> frame_world_points (Some [])
        (measurePoints (store (handleClick moved_click click_camera measuring)))
      = [Vector3 1000 4 0]
   \<and> frame_world_points None
        (measurePoints (store (handleClick moved_click click_camera measuring)))
      = [Vector3 1000 4 0]
   \<and> store (handleClick (moved_click\<lparr>button := 2\<rparr>) click_camera measuring) = store measuring"
proof -
  let ?mp = "\<lparr>point = Vector3 1000 4 0, localPoint = Some (Vector3 0 4 0),
             objectUuid = Some ''plate'', normal = Some (Vector3 0 0 1)\<rparr>"
  let ?st = "store (handleClick moved_click click_camera measuring)"
  have pre: "button moved_click = 0 \<and> measureMode (store measuring)"
    by (simp add: moved_click_def measuring_def setMeasureMode_def)
  have h: "hit_object (hit moved_click) = Some moved_obj"
    by (simp add: moved_click_def)
  have id: "obj_uuid moved_obj = ''plate''" "obj_uuid shifted_obj = ''plate''"
    by (simp_all add: moved_obj_def shifted_obj_def)
  have mw: "matrixWorld moved_obj = makeTranslation 1000 0 0"
    "matrixWorld shifted_obj = makeTranslation 2000 500 0"
    by (simp_all add: moved_obj_def shifted_obj_def)
  have found: "getObjectByProperty_uuid [moved_obj] ''plate'' = Some moved_obj"
    "getObjectByProperty_uuid [shifted_obj] ''plate'' = Some shifted_obj"
    "getObjectByProperty_uuid [] ''plate'' = None"
    by (simp_all add: getObjectByProperty_uuid_def id)
  have empty: "measurePoints (store measuring) = []"
    by (simp add: measuring_def setMeasureMode_def)
  note here = C7_local_point_follows_object [where e = moved_click and st = measuring
      and cam = click_camera and sceneRef = None and mps = "[?mp]" and mp = ?mp
      and lp = "Vector3 0 4 0" and u = "''plate''" and scene = "[moved_obj]"
      and targetObj = moved_obj and obj = moved_obj and v = "Vector3 1000 4 0"]
  note later = C7_local_point_follows_object [where e = moved_click and st = measuring
      and cam = click_camera and sceneRef = None and mps = "[?mp]" and mp = ?mp
      and lp = "Vector3 0 4 0" and u = "''plate''" and scene = "[shifted_obj]"
      and targetObj = shifted_obj and obj = moved_obj and v = "Vector3 1000 4 0"]
  note gone = C7_local_point_follows_object [where e = "moved_click\<lparr>button := 2\<rparr>"
      and st = measuring and cam = click_camera and sceneRef = None and mps = "[?mp]" and mp = ?mp
      and lp = "Vector3 0 4 0" and u = "''plate''" and scene = "[]"
      and targetObj = moved_obj and obj = moved_obj and v = "Vector3 1000 4 0"]
  from here pre have st: "?st =
      addMeasurePoint
        \<lparr>point = snapToFeature (hit moved_click) click_camera,
         localPoint = map_option (\<lambda>obj. worldToLocal obj (snapToFeature (hit moved_click) click_camera))
                        (hit_object (hit moved_click)),
         objectUuid = map_option obj_uuid (hit_object (hit moved_click)),
         normal = world_normal (hit moved_click)\<rparr>
        (store measuring)"
    by blast
  have pts: "measurePoints ?st = [?mp]"
    unfolding st
    by (simp add: addMeasurePoint_points empty h moved_click_snap moved_click_local
        moved_click_normal id)
  have stored: "last (measurePoints ?st) = ?mp" by (simp add: pts)
  have again: "localToWorld moved_obj (worldToLocal moved_obj (Vector3 1000 4 0)) = Vector3 1000 4 0"
    using here by (simp add: mw translation_affine)
  have w1: "world_point (Some [moved_obj]) ?mp = Vector3 1000 4 0"
  proof -
    have "world_point (Some [moved_obj]) ?mp = applyMatrix4 (Vector3 0 4 0) (matrixWorld moved_obj)"
      using here found(1) by simp
    also have "\<dots> = localToWorld moved_obj (worldToLocal moved_obj (Vector3 1000 4 0))"
      by (simp only: localToWorld_def moved_click_local)
    finally show ?thesis using again by simp
  qed
  have w2: "world_point (Some [shifted_obj]) ?mp = Vector3 2000 504 0"
  proof -
    have "world_point (Some [shifted_obj]) ?mp = applyMatrix4 (Vector3 0 4 0) (matrixWorld shifted_obj)"
      using later found(2) by simp
    then show ?thesis by (simp add: mw makeTranslation_def)
  qed
  have w3: "world_point (Some []) ?mp = Vector3 1000 4 0"
    using gone found(3) by simp
  have w4: "world_point None ?mp = Vector3 1000 4 0"
    using here by simp
  have other: "store (handleClick (moved_click\<lparr>button := 2\<rparr>) click_camera measuring) = store measuring"
    using gone by simp
  show ?thesis
    using pre stored other by (simp add: pts frame_world_points_def w1 w2 w3 w4)
qed

section \<open>Properties of the orientation cube drag\<close>

lemma setFromVector3_radius:
  "sph_radius (setFromVector3 v) = sqrt (lengthSq v)"
  by (cases v) (simp add: setFromVector3_def lengthSq_def Let_def)

lemma drag_spherical_fields:
  "sph_radius (drag_spherical dx dy s) = sph_radius s"
  "sph_theta (drag_spherical dx dy s) = sph_theta s - dx * 0.01"
  "sph_phi (drag_spherical dx dy s) = max 0.01 (min (pi - 0.01) (sph_phi s - dy * 0.01))"
  by (simp_all add: drag_spherical_def Let_def)

lemma drag_spherical_clamped:
  "0.01 \<le> sph_phi (drag_spherical dx dy s)" "sph_phi (drag_spherical dx dy s) \<le> pi - 0.01"
proof -
  have "(0.01 :: real) \<le> pi - 0.01" using pi_ge_two by simp
  then show "0.01 \<le> sph_phi (drag_spherical dx dy s)"
    "sph_phi (drag_spherical dx dy s) \<le> pi - 0.01"
    by (simp_all add: drag_spherical_fields)
qed

lemma lengthSq_nonneg: "0 \<le> lengthSq v"
  by (cases v) (simp add: lengthSq_def)

lemma setFromSpherical_lengthSq:
  "lengthSq (setFromSpherical s) = (sph_radius s)\<^sup>2"
proof -
  define r sp cp st ct where "r = sph_radius s" and "sp = sin (sph_phi s)"
    and "cp = cos (sph_phi s)" and "st = sin (sph_theta s)" and "ct = cos (sph_theta s)"
  have u: "sp * sp + cp * cp = 1" "st * st + ct * ct = 1"
    using sin_cos_squared_add [of "sph_phi s"] sin_cos_squared_add [of "sph_theta s"]
    by (simp_all add: sp_def cp_def st_def ct_def power2_eq_square)
  have v: "setFromSpherical s = Vector3 (sp * r * st) (cp * r) (sp * r * ct)"
    by (simp add: setFromSpherical_def Let_def r_def sp_def cp_def st_def ct_def)
  have "lengthSq (setFromSpherical s) = r * r * (sp * sp * (st * st + ct * ct) + cp * cp)"
    unfolding v by (simp add: lengthSq_def algebra_simps)
  also have "\<dots> = r * r" unfolding u by (simp add: u)
  finally show ?thesis by (simp add: r_def power2_eq_square)
qed

lemma offset_from_target: "sub3 (add3 t v) t = v"
  by (cases t; cases v) simp

lemma distance_from_target: "distanceTo (add3 t v) t = sqrt (lengthSq v)"
  by (simp add: distanceTo_def distanceToSquared_def offset_from_target)

lemma setFromVector3_polar:
  assumes "0 < sph_radius s" "0 \<le> sph_phi s" "sph_phi s \<le> pi"
  shows "sph_phi (setFromVector3 (setFromSpherical s)) = sph_phi s"
proof -
  let ?v = "setFromSpherical s"
  have y: "y_of ?v = cos (sph_phi s) * sph_radius s"
    by (simp add: setFromSpherical_def Let_def)
  have "sqrt (x_of ?v * x_of ?v + y_of ?v * y_of ?v + z_of ?v * z_of ?v) = sqrt (lengthSq ?v)"
    by (cases ?v) (simp add: lengthSq_def)
  also have "\<dots> = sph_radius s"
    using assms(1) by (simp add: setFromSpherical_lengthSq)
  finally have r: "sqrt (x_of ?v * x_of ?v + y_of ?v * y_of ?v + z_of ?v * z_of ?v) = sph_radius s" .
  have c: "max (- 1) (min 1 (cos (sph_phi s))) = cos (sph_phi s)"
    using cos_le_one [of "sph_phi s"] cos_ge_minus_one [of "sph_phi s"] by simp
  have "sph_phi (setFromVector3 ?v) = arccos (max (- 1) (min 1 (y_of ?v / sph_radius s)))"
    using assms(1) unfolding setFromVector3_def Let_def r by simp
  also have "\<dots> = arccos (cos (sph_phi s))"
    using assms(1) by (simp add: y c)
  also have "\<dots> = sph_phi s" using assms(2,3) by (rule arccos_cos)
  finally show ?thesis .
qed

lemma atan2_polar:
  "sqrt (x * x + z * z) * sin (atan2 x z) = x"
  "sqrt (x * x + z * z) * cos (atan2 x z) = z"
proof -
  define t where "t = x / z"
  define w where "w = sqrt (1 + t\<^sup>2)"
  have w0: "0 < w" unfolding w_def by (simp add: add_pos_nonneg)
  have sc: "sin (arctan t) = t / w" "cos (arctan t) = 1 / w"
    by (simp_all add: sin_arctan cos_arctan w_def)
  have split: "x * x + z * z = z\<^sup>2 * (1 + t\<^sup>2)" if "z \<noteq> 0"
    using that by (simp add: t_def power2_eq_square field_simps)
  have root: "sqrt (x * x + z * z) = \<bar>z\<bar> * w" if "z \<noteq> 0"
    using split [OF that] by (simp add: real_sqrt_mult w_def)
  have both: "sqrt (x * x + z * z) * sin (atan2 x z) = x
      \<and> sqrt (x * x + z * z) * cos (atan2 x z) = z"
  proof (cases "z > 0")
    case True
    then have a: "atan2 x z = arctan t" by (simp add: atan2_def t_def)
    have "sqrt (x * x + z * z) = z * w" using root True by simp
    moreover have "z * t = x" using True by (simp add: t_def)
    ultimately show ?thesis using w0 by (simp add: a sc)
  next
    case False
    show ?thesis
    proof (cases "z < 0")
      case True
      then have "atan2 x z = arctan t + pi \<or> atan2 x z = arctan t - pi"
        by (simp add: atan2_def t_def)
      then have a: "sin (atan2 x z) = - (t / w)" "cos (atan2 x z) = - (1 / w)"
        by (auto simp: sc sin_diff cos_diff)
      have "sqrt (x * x + z * z) = - z * w" using root True by simp
      moreover have "z * t = x" using True by (simp add: t_def)
      ultimately show ?thesis using w0 by (simp add: a)
    next
      case nz: False
      with False have z: "z = 0" by simp
      show ?thesis
      proof (cases "x > 0")
        case True
        then show ?thesis by (simp add: z atan2_def)
      next
        case False
        then show ?thesis by (cases "x < 0") (simp_all add: z atan2_def)
      qed
    qed
  qed
  then show "sqrt (x * x + z * z) * sin (atan2 x z) = x"
    "sqrt (x * x + z * z) * cos (atan2 x z) = z"
    by simp_all
qed

lemma spherical_roundtrip: "setFromSpherical (setFromVector3 v) = v"
proof -
  obtain x y z where v: "v = Vector3 x y z" by (cases v)
  define r where "r = sqrt (x * x + y * y + z * z)"
  show ?thesis
  proof (cases "r = 0")
    case True
    then have "x * x + y * y + z * z = 0" by (simp add: r_def)
    then have "x = 0 \<and> y = 0 \<and> z = 0"
      by (simp add: add_nonneg_eq_0_iff)
    then show ?thesis by (simp add: v setFromVector3_def setFromSpherical_def Let_def)
  next
    case False
    have r0: "0 < r"
    proof -
      have "0 \<le> r" by (simp add: r_def)
      with False show ?thesis by simp
    qed
    have rr: "r * r = x * x + y * y + z * z"
      by (simp add: r_def)
    define c where "c = y / r"
    have "y * y \<le> r * r" unfolding rr by simp
    then have "\<bar>y\<bar> \<le> \<bar>r\<bar>" by (simp only: abs_le_square_iff power2_eq_square)
    then have "\<bar>y\<bar> \<le> r" using r0 by simp
    then have cb: "- 1 \<le> c" "c \<le> 1" using r0 by (simp_all add: c_def field_simps abs_le_iff)
    then have clamp: "max (- 1) (min 1 c) = c" by simp
    have cosp: "cos (arccos c) * r = y" using cb r0 by (simp add: c_def)
    have cr: "c * r = y" using r0 by (simp add: c_def)
    have "(1 - c\<^sup>2) * (r * r) = r * r - (c * r) * (c * r)"
      by (simp add: power2_eq_square algebra_simps)
    also have "\<dots> = x * x + z * z" unfolding cr rr by simp
    finally have "(1 - c\<^sup>2) * (r * r) = x * x + z * z" .
    then have "sqrt (1 - c\<^sup>2) * r = sqrt (x * x + z * z)"
      using r0 by (metis real_sqrt_mult real_sqrt_abs2 abs_of_pos)
    then have sinp: "sin (arccos c) * r = sqrt (x * x + z * z)"
      using cb by (simp add: sin_arccos)
    have s: "setFromVector3 v = \<lparr>sph_radius = r, sph_phi = arccos c, sph_theta = atan2 x z\<rparr>"
      using False by (simp add: v setFromVector3_def Let_def r_def [symmetric] c_def clamp [unfolded c_def])
    show ?thesis
      unfolding s by (simp add: setFromSpherical_def Let_def sinp cosp atan2_polar v)
  qed
qed

lemma towards_target: "add3 t (sub3 p t) = p"
  by (cases t; cases p) simp

lemma handleCubeDrag_controls:
  assumes "cameraControls st = Some (cam, ctl)"
  shows "handleCubeDrag dx dy st =
     st\<lparr>cameraControls :=
          Some (cam\<lparr>cam_position := add3 (ctl_target ctl)
                  (setFromSpherical (drag_spherical dx dy
                     (setFromVector3 (sub3 (cam_position cam) (ctl_target ctl)))))\<rparr>,
                ctl)\<rparr>"
  using assms by (simp add: handleCubeDrag_def Let_def)

text \<open>
  C9 (in the revision whose cube orbits the camera). A drag of the orientation cube by
  \<open>(dx, dy)\<close> takes the camera's offset from the orbit target to spherical
  coordinates, subtracts \<open>0.01 * dx\<close> from the azimuth and \<open>0.01 * dy\<close> from the polar
  angle, clamps the polar angle into \<open>[0.01, pi - 0.01]\<close> and puts the camera at the
  target plus the offset with these coordinates. Nothing else of the state changes: the
  target stays, the distance of the camera from the target stays, and (unless the
  camera sat on the target) the polar angle of the new offset is the clamped angle, at
  least 0.01 away from both poles. The spherical coordinates are those of the current
  offset (converting them back gives the offset again), so a drag by \<open>(0, 0)\<close> of a
  camera whose polar angle lies in the clamp range leaves the state as it is.
\<close>

theorem C9_cube_drag_orbits_camera:
  assumes cc: "cameraControls st = Some (cam, ctl)"
  shows "handleCubeDrag dx dy st =
           st\<lparr>cameraControls :=
                Some (cam\<lparr>cam_position := add3 (ctl_target ctl)
                        (setFromSpherical (drag_spherical dx dy
                           (setFromVector3 (sub3 (cam_position cam) (ctl_target ctl)))))\<rparr>,
                      ctl)\<rparr>
     \<and> sph_radius (drag_spherical dx dy s) = sph_radius s
     \<and> sph_theta (drag_spherical dx dy s) = sph_theta s - 0.01 * dx
     \<and> sph_phi (drag_spherical dx dy s) = max 0.01 (min (pi - 0.01) (sph_phi s - 0.01 * dy))
     \<and> 0.01 \<le> sph_phi (drag_spherical dx dy s) \<and> sph_phi (drag_spherical dx dy s) \<le> pi - 0.01
     \<and> (0.01 \<le> sph_phi s - 0.01 * dy \<and> sph_phi s - 0.01 * dy \<le> pi - 0.01
          \<longrightarrow> sph_phi (drag_spherical dx dy s) = sph_phi s - 0.01 * dy)
     \<and> setFromSpherical s =
         Vector3 (sin (sph_phi s) * sph_radius s * sin (sph_theta s)) (cos (sph_phi s) * sph_radius s)
                 (sin (sph_phi s) * sph_radius s * cos (sph_theta s))
     \<and> sph_radius (setFromVector3 (sub3 (cam_position cam) (ctl_target ctl)))
         = distanceTo (cam_position cam) (ctl_target ctl)
     \<and> distanceTo
          (add3 (ctl_target ctl)
             (setFromSpherical (drag_spherical dx dy
                (setFromVector3 (sub3 (cam_position cam) (ctl_target ctl))))))
          (ctl_target ctl)
         = distanceTo (cam_position cam) (ctl_target ctl)
     \<and> (cam_position cam \<noteq> ctl_target ctl \<longrightarrow>
          sph_phi (setFromVector3 (sub3
             (add3 (ctl_target ctl)
                (setFromSpherical (drag_spherical dx dy
                   (setFromVector3 (sub3 (cam_position cam) (ctl_target ctl))))))
             (ctl_target ctl)))
          = max 0.01 (min (pi - 0.01)
              (sph_phi (setFromVector3 (sub3 (cam_position cam) (ctl_target ctl))) - 0.01 * dy)))
     \<and> setFromSpherical (setFromVector3 (sub3 (cam_position cam) (ctl_target ctl)))
         = sub3 (cam_position cam) (ctl_target ctl)
     \<and> (0.01 \<le> sph_phi (setFromVector3 (sub3 (cam_position cam) (ctl_target ctl)))
          \<and> sph_phi (setFromVector3 (sub3 (cam_position cam) (ctl_target ctl))) \<le> pi - 0.01
          \<longrightarrow> handleCubeDrag 0 0 st = st)"
proof (intro conjI impI)
  let ?off = "sub3 (cam_position cam) (ctl_target ctl)"
  let ?s' = "drag_spherical dx dy (setFromVector3 ?off)"
  show "handleCubeDrag dx dy st =
           st\<lparr>cameraControls :=
                Some (cam\<lparr>cam_position := add3 (ctl_target ctl) (setFromSpherical ?s')\<rparr>, ctl)\<rparr>"
    using cc by (rule handleCubeDrag_controls)
  show "sph_radius (drag_spherical dx dy s) = sph_radius s"
    "sph_theta (drag_spherical dx dy s) = sph_theta s - 0.01 * dx"
    "sph_phi (drag_spherical dx dy s) = max 0.01 (min (pi - 0.01) (sph_phi s - 0.01 * dy))"
    by (simp_all add: drag_spherical_fields)
  show "0.01 \<le> sph_phi (drag_spherical dx dy s)" "sph_phi (drag_spherical dx dy s) \<le> pi - 0.01"
    by (rule drag_spherical_clamped)+
  show "setFromSpherical s =
         Vector3 (sin (sph_phi s) * sph_radius s * sin (sph_theta s)) (cos (sph_phi s) * sph_radius s)
                 (sin (sph_phi s) * sph_radius s * cos (sph_theta s))"
    by (simp add: setFromSpherical_def Let_def)
  show r: "sph_radius (setFromVector3 ?off) = distanceTo (cam_position cam) (ctl_target ctl)"
    by (simp add: setFromVector3_radius distanceTo_def distanceToSquared_def)
  have r0: "0 \<le> sph_radius (setFromVector3 ?off)"
    by (simp add: setFromVector3_radius lengthSq_nonneg)
  have "distanceTo (add3 (ctl_target ctl) (setFromSpherical ?s')) (ctl_target ctl)
      = sqrt ((sph_radius ?s')\<^sup>2)"
    by (simp only: distance_from_target setFromSpherical_lengthSq)
  also have "\<dots> = sph_radius (setFromVector3 ?off)"
    using r0 by (simp add: drag_spherical_fields)
  finally show "distanceTo (add3 (ctl_target ctl) (setFromSpherical ?s')) (ctl_target ctl)
      = distanceTo (cam_position cam) (ctl_target ctl)"
    using r by simp
next
  assume "0.01 \<le> sph_phi s - 0.01 * dy \<and> sph_phi s - 0.01 * dy \<le> pi - 0.01"
  then show "sph_phi (drag_spherical dx dy s) = sph_phi s - 0.01 * dy"
    by (simp add: drag_spherical_fields)
next
  let ?off = "sub3 (cam_position cam) (ctl_target ctl)"
  let ?s' = "drag_spherical dx dy (setFromVector3 ?off)"
  assume ne: "cam_position cam \<noteq> ctl_target ctl"
  have "lengthSq ?off \<noteq> 0"
  proof
    assume z: "lengthSq ?off = 0"
    obtain a b c where p: "cam_position cam = Vector3 a b c" by (cases "cam_position cam")
    obtain a' b' c' where t: "ctl_target ctl = Vector3 a' b' c'" by (cases "ctl_target ctl")
    from z have "(a - a') * (a - a') + (b - b') * (b - b') + (c - c') * (c - c') = 0"
      by (simp add: p t lengthSq_def)
    then have "a - a' = 0 \<and> b - b' = 0 \<and> c - c' = 0"
      by (simp add: sum_squares_eq_zero_iff add_nonneg_eq_0_iff)
    with ne show False by (simp add: p t)
  qed
  moreover have "0 \<le> lengthSq ?off" by (rule lengthSq_nonneg)
  ultimately have "0 < sph_radius ?s'"
    by (simp add: drag_spherical_fields setFromVector3_radius)
  moreover have "0 \<le> sph_phi ?s'" using drag_spherical_clamped(1) [of dx dy "setFromVector3 ?off"] by simp
  moreover have "sph_phi ?s' \<le> pi" using drag_spherical_clamped(2) [of dx dy "setFromVector3 ?off"] by simp
  ultimately have "sph_phi (setFromVector3 (setFromSpherical ?s')) = sph_phi ?s'"
    by (rule setFromVector3_polar)
  then show "sph_phi (setFromVector3 (sub3 (add3 (ctl_target ctl) (setFromSpherical ?s')) (ctl_target ctl)))
          = max 0.01 (min (pi - 0.01) (sph_phi (setFromVector3 ?off) - 0.01 * dy))"
    by (simp add: offset_from_target drag_spherical_fields)
next
  show "setFromSpherical (setFromVector3 (sub3 (cam_position cam) (ctl_target ctl)))
         = sub3 (cam_position cam) (ctl_target ctl)"
    by (rule spherical_roundtrip)
next
  let ?off = "sub3 (cam_position cam) (ctl_target ctl)"
  assume a: "0.01 \<le> sph_phi (setFromVector3 ?off) \<and> sph_phi (setFromVector3 ?off) \<le> pi - 0.01"
  then have "drag_spherical 0 0 (setFromVector3 ?off) = setFromVector3 ?off"
    by (simp add: drag_spherical_def Let_def)
  then have "handleCubeDrag 0 0 st =
      st\<lparr>cameraControls := Some (cam\<lparr>cam_position := add3 (ctl_target ctl) ?off\<rparr>, ctl)\<rparr>"
    using handleCubeDrag_controls [OF cc, of 0 0] by (simp add: spherical_roundtrip)
  then show "handleCubeDrag 0 0 st = st"
    using cc by (simp add: towards_target)
qed

theorem C9_cube_drag_orbits_camera_witness:
  "cameraControls (start_canvas 50 ''/models/part.glb'') = Some (start_camera 50, start_controls)
   \<and> setFromVector3 (Vector3 0 0 500) = \<lparr>sph_radius = 500, sph_phi = pi / 2, sph_theta = 0\<rparr>
   \<and> map_option (cam_position \<circ> fst)
        (cameraControls (handleCubeDrag 0 1000 (start_canvas 50 ''/models/part.glb'')))
      = Some (Vector3 0 (cos 0.01 * 500) (sin 0.01 * 500))
   \<and> map_option (cam_position \<circ> fst)
        (cameraControls (handleCubeDrag 100 0 (start_canvas 50 ''/models/part.glb'')))
      = Some (Vector3 (- (sin 1 * 500)) 0 (cos 1 * 500))
   \<and> map_option (ctl_target \<circ> snd)
        (cameraControls (handleCubeDrag 100 0 (start_canvas 50 ''/models/part.glb'')))
      = Some (Vector3 0 0 0)
   \<and> distanceTo (Vector3 0 (cos 0.01 * 500) (sin 0.01 * 500)) (Vector3 0 0 0) = 500
   \<and> handleCubeDrag 0 0 (start_canvas 50 ''/models/part.glb'') = start_canvas 50 ''/models/part.glb''"
proof -
  let ?st = "start_canvas 50 ''/models/part.glb''"
  have cc: "cameraControls ?st = Some (start_camera 50, start_controls)"
    by (simp add: start_canvas_def)
  have off: "sub3 (cam_position (start_camera 50)) (ctl_target start_controls) = Vector3 0 0 500"
    by (simp add: start_camera_def start_controls_def)
  have "sqrt 250000 = (500::real)" by (rule sqrt_eqI) simp_all
  then have sph: "setFromVector3 (Vector3 0 0 500) = \<lparr>sph_radius = 500, sph_phi = pi / 2, sph_theta = 0\<rparr>"
    by (simp add: setFromVector3_def atan2_def Let_def)
  have up: "drag_spherical 0 1000 \<lparr>sph_radius = 500, sph_phi = pi / 2, sph_theta = 0\<rparr>
      = \<lparr>sph_radius = 500, sph_phi = 0.01, sph_theta = 0\<rparr>"
    using pi_less_4 pi_gt_zero by (simp add: drag_spherical_def Let_def max_def min_def)
  have side: "drag_spherical 100 0 \<lparr>sph_radius = 500, sph_phi = pi / 2, sph_theta = 0\<rparr>
      = \<lparr>sph_radius = 500, sph_phi = pi / 2, sph_theta = - 1\<rparr>"
    using pi_ge_two by (simp add: drag_spherical_def Let_def max_def min_def)
  note vertical = C9_cube_drag_orbits_camera [OF cc, of 0 1000
      "\<lparr>sph_radius = 500, sph_phi = pi / 2, sph_theta = 0\<rparr>"]
  note horizontal = C9_cube_drag_orbits_camera [OF cc, of 100 0
      "\<lparr>sph_radius = 500, sph_phi = pi / 2, sph_theta = 0\<rparr>"]
  have v: "handleCubeDrag 0 1000 ?st =
     ?st\<lparr>cameraControls := Some ((start_camera 50)\<lparr>cam_position :=
         add3 (ctl_target start_controls) (setFromSpherical (drag_spherical 0 1000
           (setFromVector3 (sub3 (cam_position (start_camera 50)) (ctl_target start_controls)))))\<rparr>,
         start_controls)\<rparr>"
    using vertical by blast
  have h: "handleCubeDrag 100 0 ?st =
     ?st\<lparr>cameraControls := Some ((start_camera 50)\<lparr>cam_position :=
         add3 (ctl_target start_controls) (setFromSpherical (drag_spherical 100 0
           (setFromVector3 (sub3 (cam_position (start_camera 50)) (ctl_target start_controls)))))\<rparr>,
         start_controls)\<rparr>"
    using horizontal by blast
  have p1: "map_option (cam_position \<circ> fst) (cameraControls (handleCubeDrag 0 1000 ?st))
      = Some (Vector3 0 (cos 0.01 * 500) (sin 0.01 * 500))"
    unfolding v off sph up by (simp add: setFromSpherical_def start_controls_def Let_def)
  have p2: "map_option (cam_position \<circ> fst) (cameraControls (handleCubeDrag 100 0 ?st))
      = Some (Vector3 (- (sin 1 * 500)) 0 (cos 1 * 500))"
    unfolding h off sph side by (simp add: setFromSpherical_def start_controls_def Let_def)
  have p3: "map_option (ctl_target \<circ> snd) (cameraControls (handleCubeDrag 100 0 ?st))
      = Some (Vector3 0 0 0)"
    unfolding h by (simp add: start_controls_def)
  have "distanceTo (add3 (ctl_target start_controls) (setFromSpherical (drag_spherical 0 1000
           (setFromVector3 (sub3 (cam_position (start_camera 50)) (ctl_target start_controls))))))
          (ctl_target start_controls)
        = distanceTo (cam_position (start_camera 50)) (ctl_target start_controls)"
    using vertical by blast
  then have p4: "distanceTo (Vector3 0 (cos 0.01 * 500) (sin 0.01 * 500)) (Vector3 0 0 0) = 500"
    unfolding off sph up
    by (simp add: setFromSpherical_def start_controls_def start_camera_def Let_def distanceTo_def
        distanceToSquared_def lengthSq_def \<open>sqrt 250000 = 500\<close>)
  have "0.01 \<le> sph_phi (setFromVector3 (sub3 (cam_position (start_camera 50)) (ctl_target start_controls)))
      \<and> sph_phi (setFromVector3 (sub3 (cam_position (start_camera 50)) (ctl_target start_controls)))
          \<le> pi - 0.01"
    unfolding off sph using pi_ge_two by simp
  with vertical have p5: "handleCubeDrag 0 0 ?st = ?st" by blast
  show ?thesis using cc sph p1 p2 p3 p4 p5 by simp
qed


end
